theory Spec2Isabelle
  imports Main "HOL-Library.Sublist" "HOL-Library.Multiset" "HOL-Library.Monad_Syntax"
begin

section \<open>Strings, errors and library calls\<close>

text \<open>
  A Python \<open>str\<close> is a sequence of Unicode code points, and \<open>len\<close> counts code points:
  strings are lists of code points. \<open>ascii\<close> writes an ASCII literal.
\<close>

type_synonym ustr = "nat list"

definition ascii :: "string \<Rightarrow> ustr" where
  "ascii s = map of_char s"

datatype py_error = ValueError | KeyError | AttributeError | OverflowError | TypeError | ParserError

datatype tzinfo = UTC

text \<open>
  \<open>datetime.datetime\<close>: the wall-clock fields and the zone; \<open>tzinfo = None\<close> is a naive
  datetime.
\<close>

record datetime =
  year :: int
  month :: int
  day :: int
  hour :: int
  minute :: int
  second :: int
  microsecond :: int
  tzinfo :: "tzinfo option"

text \<open>
  What \<open>pd.to_datetime(...).to_pydatetime()\<close> returns: a datetime, or pandas' \<open>NaT\<close>, which
  it gives without raising for strings such as \<open>NaT\<close> and \<open>nan\<close>. \<open>NaT\<close> is truthy,
  \<open>NaT.date()\<close> is \<open>NaT\<close> again, and \<open>NaT\<close> is equal to nothing.
\<close>

datatype pydatetime = Datetime datetime | NaT

text \<open>
  What the scripts call in the libraries they import, taken as parameters:
  \<^item> \<open>lib_unescape\<close>: \<open>html.unescape\<close>;
  \<^item> \<open>lib_lower\<close>: \<open>str.lower\<close>;
  \<^item> \<open>lib_digit_value\<close>: the value of a Unicode decimal digit (what the pattern \<open>\d\<close>
    matches and \<open>int\<close> reads), \<open>None\<close> for every other code point;
  \<^item> \<open>lib_isalnum\<close>: the alphanumeric code points (with \<open>_\<close>, what \<open>\w\<close> matches);
  \<^item> \<open>lib_to_datetime\<close>: \<open>pd.to_datetime(d, utc=True, errors="raise").to_pydatetime()\<close>,
    \<open>Inl\<close> when it raises, \<open>Inr NaT\<close> when it returns \<open>NaT\<close>;
  \<^item> \<open>lib_dateutil_parse\<close>: \<open>dateutil.parser.parse\<close>, \<open>Inl\<close> when it raises;
  \<^item> \<open>lib_alt_img_search\<close>: \<open>ALT_IMG_RE.search(html)\<close>, the group \<open>alt\<close> of the first
    match;
  \<^item> \<open>lib_to_datetime_column\<close>: \<open>pd.to_datetime(column, utc=True, errors="coerce")\<close> on
    the cells of a column, \<open>None\<close> for \<open>NaT\<close>.
\<close>

record libs =
  lib_unescape :: "ustr \<Rightarrow> ustr"
  lib_lower :: "ustr \<Rightarrow> ustr"
  lib_digit_value :: "nat \<Rightarrow> nat option"
  lib_isalnum :: "nat \<Rightarrow> bool"
  lib_to_datetime :: "ustr \<Rightarrow> py_error + pydatetime"
  lib_dateutil_parse :: "ustr \<Rightarrow> py_error + datetime"
  lib_alt_img_search :: "ustr \<Rightarrow> ustr option"
  lib_to_datetime_column :: "ustr option list \<Rightarrow> datetime option list"

section \<open>spider_yesterday_1012.py: text helpers\<close>

text \<open>
  The whitespace of \<open>str.strip\<close>, \<open>str.split\<close> and of \<open>\s\<close> in a \<open>str\<close> pattern:
  U+0009..U+000D, U+001C..U+0020, U+0085, U+00A0, U+1680, U+2000..U+200A, U+2028, U+2029,
  U+202F, U+205F, U+3000.
\<close>

definition isspace :: "nat \<Rightarrow> bool" where
  "isspace c \<longleftrightarrow>
     (9 \<le> c \<and> c \<le> 13) \<or> (28 \<le> c \<and> c \<le> 32) \<or> c = 0x85 \<or> c = 0xA0 \<or> c = 0x1680 \<or>
     (0x2000 \<le> c \<and> c \<le> 0x200A) \<or> c = 0x2028 \<or> c = 0x2029 \<or> c = 0x202F \<or>
     c = 0x205F \<or> c = 0x3000"

definition strip :: "ustr \<Rightarrow> ustr" where
  "strip s = rev (dropWhile isspace (rev (dropWhile isspace s)))"

text \<open>
  \<open>TAG_RE.sub("", s)\<close> with \<open>TAG_RE = <[^>]+>\<close>: from the left, a \<open><\<close> followed by one
  or more characters other than \<open>>\<close> and then \<open>>\<close> is removed; a \<open><\<close> that starts no
  such match stays.
\<close>

function strip_tags :: "ustr \<Rightarrow> ustr" where
  "strip_tags [] = []"
| "strip_tags (c # cs) =
     (if c = 60 \<and> takeWhile (\<lambda>x. x \<noteq> 62) cs \<noteq> [] \<and> dropWhile (\<lambda>x. x \<noteq> 62) cs \<noteq> []
      then strip_tags (tl (dropWhile (\<lambda>x. x \<noteq> 62) cs))
      else c # strip_tags cs)"
  by pat_completeness auto
termination
proof (relation "measure length")
  show "wf (measure length)" by simp
next
  fix c :: nat and cs :: ustr
  have "length (dropWhile (\<lambda>x. x \<noteq> 62) cs) \<le> length cs"
    by (rule length_dropWhile_le)
  then have "length (tl (dropWhile (\<lambda>x. x \<noteq> 62) cs)) \<le> length cs"
    by simp
  then show "(tl (dropWhile (\<lambda>x. x \<noteq> 62) cs), c # cs) \<in> measure length" by simp
next
  fix c :: nat and cs :: ustr
  show "(cs, c # cs) \<in> measure length" by simp
qed

text \<open>\<open>re.sub(r"\s+", " ", s)\<close>: every run of whitespace becomes one space.\<close>

function collapse_ws :: "ustr \<Rightarrow> ustr" where
  "collapse_ws [] = []"
| "collapse_ws (c # cs) =
     (if isspace c then 32 # collapse_ws (dropWhile isspace cs) else c # collapse_ws cs)"
  by pat_completeness auto
termination
proof (relation "measure length")
  show "wf (measure length)" by simp
next
  fix c :: nat and cs :: ustr
  have "length (dropWhile isspace cs) \<le> length cs" by (rule length_dropWhile_le)
  then show "(dropWhile isspace cs, c # cs) \<in> measure length" by simp
next
  fix c :: nat and cs :: ustr
  show "(cs, c # cs) \<in> measure length" by simp
qed

definition clean_html_text :: "libs \<Rightarrow> ustr \<Rightarrow> ustr" where
  "clean_html_text L s =
     (if s = [] then [] else strip (collapse_ws (strip_tags (lib_unescape L s))))"

text \<open>
  \<open>str.replace(k, v)\<close>: the occurrences of \<open>k\<close> found from the left, none overlapping
  another, each replaced by \<open>v\<close>; an empty \<open>k\<close> puts \<open>v\<close> before every character and at
  the end.
\<close>

function replace :: "ustr \<Rightarrow> ustr \<Rightarrow> ustr \<Rightarrow> ustr" where
  "replace k v [] = (if k = [] then v else [])"
| "replace k v (c # cs) =
     (if k = [] then v @ c # replace k v cs
      else if prefix k (c # cs) then v @ replace k v (drop (length k) (c # cs))
      else c # replace k v cs)"
  by pat_completeness auto
termination
  by (relation "measure (\<lambda>(k, v, s). length s)") auto

text \<open>\<open>k in s\<close> for strings: \<open>k\<close> occurs in \<open>s\<close> as a substring.\<close>

fun contains :: "ustr \<Rightarrow> ustr \<Rightarrow> bool" where
  "contains k [] = (k = [])"
| "contains k (c # cs) = (prefix k (c # cs) \<or> contains k cs)"

text \<open>
  The table \<open>repl\<close> of \<open>fix_mojibake\<close>, in the order of the dict literal (the order
  \<open>repl.items()\<close> iterates in). The keys are the code points of the source file's
  literals: U+9225 U+FFFD, U+9225, and U+00E2 U+0080 followed by U+0099, U+0093, U+0094,
  U+009C, U+009D; the values are the apostrophe (39), the hyphen (45) and the double
  quote (34).
\<close>

definition repl :: "(ustr \<times> ustr) list" where
  "repl =
     [([0x9225, 0xFFFD], [39]),
      ([0x9225], [39]),
      ([0xE2, 0x80, 0x99], [39]),
      ([0xE2, 0x80, 0x93], [45]),
      ([0xE2, 0x80, 0x94], [45]),
      ([0xE2, 0x80, 0x9C], [34]),
      ([0xE2, 0x80, 0x9D], [34])]"

definition fix_mojibake :: "ustr \<Rightarrow> ustr" where
  "fix_mojibake s = (if s = [] then s else fold (\<lambda>(k, v) acc. replace k v acc) repl s)"

definition GENERIC_TITLES :: "ustr list" where
  "GENERIC_TITLES =
     [ascii ''graphical abstract'', ascii ''table of contents'', ascii ''toc'',
      ascii ''cover image'', ascii ''no title'']"

definition looks_generic :: "libs \<Rightarrow> ustr \<Rightarrow> bool" where
  "looks_generic L title =
     (let t = lib_lower L (strip title)
      in if t = [] then True else t \<in> set GENERIC_TITLES \<or> length t < 5)"

definition extract_alt_from_html :: "libs \<Rightarrow> ustr \<Rightarrow> ustr option" where
  "extract_alt_from_html L html =
     (if html = [] then None
      else case lib_alt_img_search L html of
             None \<Rightarrow> None
           | Some alt \<Rightarrow>
               (let alt' = fix_mojibake (clean_html_text L alt)
                in if alt' = [] then None else Some alt'))"

section \<open>Calendar dates\<close>

text \<open>
  A \<open>datetime.date\<close> is held by its proleptic Gregorian ordinal (\<open>date.toordinal()\<close>, day 1
  is 0001-01-01): Python compares dates by it and \<open>date + timedelta(days=n)\<close> adds \<open>n\<close> to
  it, raising \<open>OverflowError\<close> outside \<open>date.min .. date.max\<close>. The conversions between
  ordinals and (year, month, day) are those of the standard library's \<open>datetime\<close> module.
\<close>

type_synonym date = int

definition is_leap :: "int \<Rightarrow> bool" where
  "is_leap y \<longleftrightarrow> y mod 4 = 0 \<and> (y mod 100 \<noteq> 0 \<or> y mod 400 = 0)"

definition days_before_year :: "int \<Rightarrow> int" where
  "days_before_year y = (let p = y - 1 in p * 365 + p div 4 - p div 100 + p div 400)"

definition DAYS_IN_MONTH :: "int list" where
  "DAYS_IN_MONTH = [31, 28, 31, 30, 31, 30, 31, 31, 30, 31, 30, 31]"

definition DAYS_BEFORE_MONTH :: "int list" where
  "DAYS_BEFORE_MONTH = [0, 31, 59, 90, 120, 151, 181, 212, 243, 273, 304, 334]"

definition days_in_month :: "int \<Rightarrow> int \<Rightarrow> int" where
  "days_in_month y m = (if m = 2 \<and> is_leap y then 29 else DAYS_IN_MONTH ! nat (m - 1))"

definition days_before_month :: "int \<Rightarrow> int \<Rightarrow> int" where
  "days_before_month y m =
     DAYS_BEFORE_MONTH ! nat (m - 1) + (if m > 2 \<and> is_leap y then 1 else 0)"

definition ymd2ord :: "int \<Rightarrow> int \<Rightarrow> int \<Rightarrow> date" where
  "ymd2ord y m d = days_before_year y + days_before_month y m + d"

definition ord2ymd :: "date \<Rightarrow> int \<times> int \<times> int" where
  "ord2ymd n0 =
     (let n = n0 - 1;
          n400 = n div 146097; n = n mod 146097;
          n100 = n div 36524; n = n mod 36524;
          n4 = n div 1461; n = n mod 1461;
          n1 = n div 365; n = n mod 365;
          y = n400 * 400 + 1 + n100 * 100 + n4 * 4 + n1
      in if n1 = 4 \<or> n100 = 4 then (y - 1, 12, 31)
         else
           let leapyear = (n1 = 3 \<and> (n4 \<noteq> 24 \<or> n100 = 3));
               m = (n + 50) div 32;
               preceding = DAYS_BEFORE_MONTH ! nat (m - 1) + (if m > 2 \<and> leapyear then 1 else 0)
           in if preceding > n
              then (y, m - 1,
                    n - (preceding - (DAYS_IN_MONTH ! nat (m - 2)
                                      + (if m - 1 = 2 \<and> leapyear then 1 else 0))) + 1)
              else (y, m, n - preceding + 1))"

definition MAXORDINAL :: int where
  "MAXORDINAL = 3652059"

definition date_add_days :: "date \<Rightarrow> int \<Rightarrow> py_error + date" where
  "date_add_days d n =
     (let ordinal = d + n
      in if 0 < ordinal \<and> ordinal \<le> MAXORDINAL then Inr ordinal else Inl OverflowError)"

text \<open>\<open>date.isocalendar()\<close>: (ISO year, ISO week, ISO weekday), Monday is 1.\<close>

definition isoweek1monday :: "int \<Rightarrow> date" where
  "isoweek1monday y =
     (let firstday = ymd2ord y 1 1;
          firstweekday = (firstday + 6) mod 7;
          week1monday = firstday - firstweekday
      in if firstweekday > 3 then week1monday + 7 else week1monday)"

definition isocalendar :: "date \<Rightarrow> int \<times> int \<times> int" where
  "isocalendar d =
     (let y = fst (ord2ymd d);
          week1monday = isoweek1monday y;
          week = (d - week1monday) div 7;
          wd = (d - week1monday) mod 7
      in if week < 0
         then (y - 1, (d - isoweek1monday (y - 1)) div 7 + 1, (d - isoweek1monday (y - 1)) mod 7 + 1)
         else if week \<ge> 52 \<and> d \<ge> isoweek1monday (y + 1) then (y + 1, 1, wd + 1)
         else (y, week + 1, wd + 1))"

definition iso_year :: "date \<Rightarrow> int" where
  "iso_year d = fst (isocalendar d)"

definition iso_week :: "date \<Rightarrow> int" where
  "iso_week d = fst (snd (isocalendar d))"

definition iso_weekday :: "date \<Rightarrow> int" where
  "iso_weekday d = snd (snd (isocalendar d))"

text \<open>
  The constructor \<open>datetime(year, month, day, hour, minute, second, tzinfo=tz)\<close>: it raises
  \<open>ValueError\<close> when a field is out of range.
\<close>

definition new_datetime ::
  "int \<Rightarrow> int \<Rightarrow> int \<Rightarrow> int \<Rightarrow> int \<Rightarrow> int \<Rightarrow> tzinfo option \<Rightarrow> py_error + datetime" where
  "new_datetime y m d hh mm ss tz =
     (if 1 \<le> y \<and> y \<le> 9999 \<and> 1 \<le> m \<and> m \<le> 12 \<and> 1 \<le> d \<and> d \<le> days_in_month y m \<and>
         0 \<le> hh \<and> hh \<le> 23 \<and> 0 \<le> mm \<and> mm \<le> 59 \<and> 0 \<le> ss \<and> ss \<le> 59
      then Inr \<lparr>year = y, month = m, day = d, hour = hh, minute = mm, second = ss,
                microsecond = 0, tzinfo = tz\<rparr>
      else Inl ValueError)"

text \<open>\<open>datetime.date()\<close>: the calendar date of the wall-clock fields.\<close>

definition dt_date :: "datetime \<Rightarrow> date" where
  "dt_date t = ymd2ord (year t) (month t) (day t)"

text \<open>The order of two datetimes of one zone: by date, then by time of day.\<close>

definition dt_key :: "datetime \<Rightarrow> int" where
  "dt_key t =
     (((dt_date t * 24 + hour t) * 60 + minute t) * 60 + second t) * 1000000 + microsecond t"

section \<open>Feed entries\<close>

text \<open>\<open>time.struct_time\<close>, the nine fields of feedparser's \<open>*_parsed\<close> values.\<close>

record struct_time =
  tm_year :: int
  tm_mon :: int
  tm_mday :: int
  tm_hour :: int
  tm_min :: int
  tm_sec :: int
  tm_wday :: int
  tm_yday :: int
  tm_isdst :: int

text \<open>
  A feed entry, by what \<open>entry.get(key)\<close> returns for the keys the scripts read (\<open>None\<close>
  for a missing key); \<open>e_content\<close> lists \<open>c.get("value")\<close> for the blocks of
  \<open>entry.content\<close>, empty when the entry has none.
\<close>

record entry =
  e_title :: "ustr option"
  e_link :: "ustr option"
  e_summary :: "ustr option"
  e_description :: "ustr option"
  e_content :: "ustr option list"
  e_published_parsed :: "struct_time option"
  e_updated_parsed :: "struct_time option"
  e_published :: "ustr option"
  e_updated :: "ustr option"

text \<open>\<open>datetime(*t[:6], tzinfo=timezone.utc)\<close>.\<close>

definition datetime_of_tuple :: "struct_time \<Rightarrow> py_error + datetime" where
  "datetime_of_tuple t =
     new_datetime (tm_year t) (tm_mon t) (tm_mday t) (tm_hour t) (tm_min t) (tm_sec t) (Some UTC)"

section \<open>spider_yesterday_1012.py: the title of an entry\<close>

text \<open>\<open>max(alt_candidates, key=len)\<close>: the first of the longest candidates.\<close>

fun max_by_len :: "ustr \<Rightarrow> ustr list \<Rightarrow> ustr" where
  "max_by_len best [] = best"
| "max_by_len best (x # xs) = max_by_len (if length best < length x then x else best) xs"

definition longest :: "ustr list \<Rightarrow> ustr" where
  \<comment> \<open>called on a non-empty list only (Python's \<open>max\<close> raises on an empty one)\<close>
  "longest xs = (case xs of [] \<Rightarrow> [] | x # rest \<Rightarrow> max_by_len x rest)"

definition title_from_feed :: "libs \<Rightarrow> entry \<Rightarrow> ustr" where
  "title_from_feed L e =
     fix_mojibake (clean_html_text L (case e_title e of None \<Rightarrow> [] | Some t \<Rightarrow> t))"

definition html_blobs :: "entry \<Rightarrow> ustr list" where
  "html_blobs e =
     filter (\<lambda>v. v \<noteq> []) (map (\<lambda>c. case c of None \<Rightarrow> [] | Some v \<Rightarrow> v) (e_content e))
     @ (case e_summary e of None \<Rightarrow> [] | Some s \<Rightarrow> if s = [] then [] else [s])"

definition alt_candidates :: "libs \<Rightarrow> entry \<Rightarrow> ustr list" where
  "alt_candidates L e = List.map_filter (extract_alt_from_html L) (html_blobs e)"

definition get_entry_title :: "libs \<Rightarrow> entry \<Rightarrow> ustr" where
  "get_entry_title L e =
     (let title = title_from_feed L e; alts = alt_candidates L e
      in if looks_generic L title \<and> alts \<noteq> [] then longest alts
         else if title \<noteq> [] \<and> alts \<noteq> [] \<and> length (longest alts) \<ge> length title + 10
                 \<and> \<not> looks_generic L (longest alts)
         then longest alts
         else if title \<noteq> [] then title
         else if alts \<noteq> [] then hd alts
         else [])"

section \<open>spider_yesterday_1012.py: the publication date of an entry\<close>

text \<open>
  \<open>parse_date_strict\<close>: \<open>None\<close> for a missing or empty string and when the library
  raises; otherwise what the library returns, a datetime in UTC (\<open>utc=True\<close>) or \<open>NaT\<close>.
\<close>

definition parse_date_strict :: "libs \<Rightarrow> ustr option \<Rightarrow> pydatetime option" where
  "parse_date_strict L d =
     (case d of
        None \<Rightarrow> None
      | Some s \<Rightarrow>
          if s = [] then None
          else (case lib_to_datetime L s of
                  Inl err \<Rightarrow> None
                | Inr NaT \<Rightarrow> Some NaT
                | Inr (Datetime ts) \<Rightarrow> Some (Datetime (ts\<lparr>tzinfo := Some UTC\<rparr>))))"

text \<open>
  Matching a pattern at the start of a text. A literal of a pattern compiled with
  \<open>re.IGNORECASE\<close> matches its letter in either case, and \<open>i\<close>, \<open>s\<close>, \<open>k\<close> also match
  U+0130 and U+0131, U+017F, U+212A; the class \<open>[A-Za-z]\<close> then matches the 52 ASCII
  letters and these four.
\<close>

definition ci_lit :: "nat \<Rightarrow> nat \<Rightarrow> bool" where
  "ci_lit p c \<longleftrightarrow>
     c = p \<or> (97 \<le> p \<and> p \<le> 122 \<and> c + 32 = p) \<or> (p = 105 \<and> (c = 0x130 \<or> c = 0x131)) \<or>
     (p = 115 \<and> c = 0x17F) \<or> (p = 107 \<and> c = 0x212A)"

definition ci_alpha :: "nat \<Rightarrow> bool" where
  "ci_alpha c \<longleftrightarrow>
     (65 \<le> c \<and> c \<le> 90) \<or> (97 \<le> c \<and> c \<le> 122) \<or> c = 0x130 \<or> c = 0x131 \<or> c = 0x17F \<or>
     c = 0x212A"

definition ascii_digit :: "nat \<Rightarrow> bool" where
  "ascii_digit c \<longleftrightarrow> 48 \<le> c \<and> c \<le> 57"

definition is_digit :: "libs \<Rightarrow> nat \<Rightarrow> bool" where
  "is_digit L c \<longleftrightarrow> lib_digit_value L c \<noteq> None"

definition is_word :: "libs \<Rightarrow> nat \<Rightarrow> bool" where
  "is_word L c \<longleftrightarrow> lib_isalnum L c \<or> c = 95"

fun match_lit :: "(nat \<Rightarrow> nat \<Rightarrow> bool) \<Rightarrow> ustr \<Rightarrow> ustr \<Rightarrow> ustr option" where
  "match_lit eq [] s = Some s"
| "match_lit eq (p # ps) [] = None"
| "match_lit eq (p # ps) (c # cs) = (if eq p c then match_lit eq ps cs else None)"

definition span1 :: "(nat \<Rightarrow> bool) \<Rightarrow> ustr \<Rightarrow> (ustr \<times> ustr) option" where
  \<comment> \<open>\<open>X+\<close>, greedy\<close>
  "span1 P s = (if takeWhile P s = [] then None else Some (takeWhile P s, dropWhile P s))"

definition span_1_2 :: "(nat \<Rightarrow> bool) \<Rightarrow> ustr \<Rightarrow> (ustr \<times> ustr) option" where
  \<comment> \<open>\<open>X{1,2}\<close>, greedy\<close>
  "span_1_2 P s =
     (let m = takeWhile P (take 2 s) in if m = [] then None else Some (m, drop (length m) s))"

definition span_4 :: "(nat \<Rightarrow> bool) \<Rightarrow> ustr \<Rightarrow> (ustr \<times> ustr) option" where
  \<comment> \<open>\<open>X{4}\<close>\<close>
  "span_4 P s =
     (if length (take 4 s) = 4 \<and> list_all P (take 4 s) then Some (take 4 s, drop 4 s) else None)"

text \<open>
  The date group \<open>(D{1,2}\s+W+\s+D{4})\<close> shared by the two patterns. Each repetition is
  followed by a class disjoint from its own, so the greedy match is the only one.
\<close>

definition match_date_group :: "(nat \<Rightarrow> bool) \<Rightarrow> (nat \<Rightarrow> bool) \<Rightarrow> ustr \<Rightarrow> ustr option" where
  "match_date_group D W s =
     do {
       (dd, s1) \<leftarrow> span_1_2 D s;
       (w1, s2) \<leftarrow> span1 isspace s1;
       (mm, s3) \<leftarrow> span1 W s2;
       (w2, s4) \<leftarrow> span1 isspace s3;
       (yy, s5) \<leftarrow> span_4 D s4;
       Some (dd @ w1 @ mm @ w2 @ yy)
     }"

text \<open>\<open>pattern.search(text)\<close>: the match at the leftmost position that has one.\<close>

fun search :: "(ustr \<Rightarrow> ustr option) \<Rightarrow> ustr \<Rightarrow> ustr option" where
  "search m [] = m []"
| "search m (c # cs) = (case m (c # cs) of Some g \<Rightarrow> Some g | None \<Rightarrow> search m cs)"

text \<open>
  \<open>AVAILABLE_ONLINE_RE = Available\s+online\s+(\d{1,2}\s+[A-Za-z]+\s+\d{4})\<close> with
  \<open>re.IGNORECASE\<close>; the result is group 1.
\<close>

definition AVAILABLE_ONLINE_RE :: "libs \<Rightarrow> ustr \<Rightarrow> ustr option" where
  "AVAILABLE_ONLINE_RE L s =
     do {
       s1 \<leftarrow> match_lit ci_lit (ascii ''available'') s;
       (w1, s2) \<leftarrow> span1 isspace s1;
       s3 \<leftarrow> match_lit ci_lit (ascii ''online'') s2;
       (w2, s4) \<leftarrow> span1 isspace s3;
       match_date_group (is_digit L) ci_alpha s4
     }"

definition MONTHS :: "(ustr \<times> int) list" where
  "MONTHS =
     [(ascii ''january'', 1), (ascii ''february'', 2), (ascii ''march'', 3),
      (ascii ''april'', 4), (ascii ''may'', 5), (ascii ''june'', 6), (ascii ''july'', 7),
      (ascii ''august'', 8), (ascii ''september'', 9), (ascii ''october'', 10),
      (ascii ''november'', 11), (ascii ''december'', 12)]"

text \<open>\<open>str.split()\<close>: the maximal runs of characters that are not whitespace.\<close>

function split_ws :: "ustr \<Rightarrow> ustr list" where
  "split_ws s =
     (if dropWhile isspace s = [] then []
      else takeWhile (\<lambda>c. \<not> isspace c) (dropWhile isspace s)
           # split_ws (dropWhile (\<lambda>c. \<not> isspace c) (dropWhile isspace s)))"
  by pat_completeness auto
termination
proof (relation "measure length")
  show "wf (measure length)" by simp
next
  fix s :: ustr
  assume ne: "dropWhile isspace s \<noteq> []"
  then obtain c cs where d: "dropWhile isspace s = c # cs" by (cases "dropWhile isspace s") auto
  then have "\<not> isspace c" using hd_dropWhile [of isspace s] by auto
  then have "length (dropWhile (\<lambda>c. \<not> isspace c) (c # cs)) \<le> length cs"
    by (simp add: length_dropWhile_le)
  moreover have "length (c # cs) \<le> length s" using d length_dropWhile_le [of isspace s] by simp
  ultimately show "(dropWhile (\<lambda>c. \<not> isspace c) (dropWhile isspace s), s) \<in> measure length"
    using d by simp
qed

text \<open>
  \<open>int(s)\<close> on the tokens of the date group, which hold decimal digits only: the number
  they write, \<open>ValueError\<close> on anything else.
\<close>

definition py_int :: "libs \<Rightarrow> ustr \<Rightarrow> py_error + int" where
  "py_int L s =
     (if s \<noteq> [] \<and> list_all (is_digit L) s
      then Inr (fold (\<lambda>c acc. acc * 10 + int (the (lib_digit_value L c))) s 0)
      else Inl ValueError)"

text \<open>
  The \<open>try\<close> block of \<open>parse_available_online_date\<close>: \<open>Inr None\<close> is the \<open>if not month\<close>
  exit, \<open>Inl\<close> an exception of \<open>int\<close> or of the \<open>datetime\<close> constructor.
\<close>

definition parse_day_month_year :: "libs \<Rightarrow> ustr \<Rightarrow> ustr \<Rightarrow> ustr \<Rightarrow> py_error + datetime option" where
  "parse_day_month_year L day_s month_s year_s =
     (case py_int L day_s of
        Inl err \<Rightarrow> Inl err
      | Inr d \<Rightarrow>
          (let m = map_of MONTHS (lib_lower L month_s)
           in case py_int L year_s of
                Inl err \<Rightarrow> Inl err
              | Inr y \<Rightarrow>
                  (case m of
                     None \<Rightarrow> Inr None
                   | Some mo \<Rightarrow>
                       (case new_datetime y mo d 0 0 0 (Some UTC) of
                          Inl err \<Rightarrow> Inl err
                        | Inr dt \<Rightarrow> Inr (Some dt)))))"

definition parse_available_online_date :: "libs \<Rightarrow> ustr \<Rightarrow> pydatetime option" where
  "parse_available_online_date L description_html =
     (if description_html = [] then None
      else case search (AVAILABLE_ONLINE_RE L) (clean_html_text L description_html) of
             None \<Rightarrow> None
           | Some date_str \<Rightarrow>
               (case split_ws date_str of
                  [day_s, month_s, year_s] \<Rightarrow>
                    (case parse_day_month_year L day_s month_s year_s of
                       Inr (Some dt) \<Rightarrow> Some (Datetime dt)
                     | Inr None \<Rightarrow> parse_date_strict L (Some date_str)
                     | Inl err \<Rightarrow> parse_date_strict L (Some date_str))
                | _ \<Rightarrow> parse_date_strict L (Some date_str)))"

text \<open>
  \<open>get_entry_pub_date\<close>. The tests \<open>if dt\<close> and \<open>if not dt\<close> see every value but \<open>None\<close> as
  true, \<open>NaT\<close> too: a string that parses to \<open>NaT\<close> ends the search as a datetime does.
\<close>

definition get_entry_pub_date :: "libs \<Rightarrow> entry \<Rightarrow> py_error + pydatetime option" where
  "get_entry_pub_date L e =
     (case (case e_published_parsed e of Some t \<Rightarrow> Some t | None \<Rightarrow> e_updated_parsed e) of
        Some t \<Rightarrow>
          (case datetime_of_tuple t of Inl err \<Rightarrow> Inl err | Inr dt \<Rightarrow> Inr (Some (Datetime dt)))
      | None \<Rightarrow>
          (case (case parse_date_strict L (e_published e) of
                   Some dt \<Rightarrow> Some dt
                 | None \<Rightarrow> parse_date_strict L (e_updated e)) of
             Some dt \<Rightarrow> Inr (Some dt)
           | None \<Rightarrow>
               Inr (parse_available_online_date L
                      (case e_summary e of None \<Rightarrow> [] | Some s \<Rightarrow> s))))"

section \<open>The daily runs\<close>

text \<open>A record appended to \<open>records\<close>, one row of the data frame built from them.\<close>

record row =
  r_title :: ustr
  r_link :: ustr
  r_published :: ustr
  r_source :: ustr
  r_pub_date :: datetime

text \<open>
  A parsed feed: its URL, \<open>feed.feed.get("title")\<close> and \<open>feed.entries\<close>.
\<close>

record feed =
  f_url :: ustr
  f_title :: "ustr option"
  f_entries :: "entry list"

definition source_title :: "feed \<Rightarrow> ustr" where
  "source_title f = (case f_title f of None \<Rightarrow> f_url f | Some t \<Rightarrow> t)"

text \<open>
  \<open>pd.DataFrame(records)\<close>: the columns are the keys of the records, so a frame built from
  no record has no column. \<open>df.empty\<close> holds when an axis has length 0.
\<close>

record dataframe =
  df_columns :: "string list"
  df_rows :: "row list"

definition COLUMNS :: "string list" where
  "COLUMNS = [''title'', ''link'', ''published'', ''source'', ''pub_date'']"

definition DataFrame :: "row list \<Rightarrow> dataframe" where
  "DataFrame records = \<lparr>df_columns = (if records = [] then [] else COLUMNS), df_rows = records\<rparr>"

definition df_empty :: "dataframe \<Rightarrow> bool" where
  "df_empty df \<longleftrightarrow> df_rows df = [] \<or> df_columns df = []"

text \<open>The files the scripts write, by the value their names are built from.\<close>

datatype path =
  News12 date \<comment> \<open>\<open>output/news12_<date>.csv\<close>\<close>
| News date \<comment> \<open>\<open>output/news_<date>.csv\<close>\<close>
| NewsWeek int int \<comment> \<open>\<open>output/weekly/news_week_<year>-W<week>.csv\<close>\<close>

text \<open>
  \<open>strftime\<close> with \<open>%Y-%m-%d %H:%M:%S\<close>, and with \<open> %Z\<close> appended. The fields are written
  with two digits, and the year with all of its digits: \<open>%Y\<close> does not pad a year below
  1000 (the C library of Linux).
\<close>

definition digits2 :: "int \<Rightarrow> ustr" where
  "digits2 n = [48 + nat (n div 10 mod 10), 48 + nat (n mod 10)]"

definition year_digits :: "int \<Rightarrow> ustr" where
  "year_digits y =
     (if 1000 \<le> y then digits2 (y div 100) @ digits2 y
      else if 100 \<le> y then [48 + nat (y div 100)] @ digits2 y
      else if 10 \<le> y then digits2 y
      else [48 + nat y])"

definition strftime_hms :: "datetime \<Rightarrow> ustr" where
  "strftime_hms t =
     year_digits (year t) @ [45] @ digits2 (month t) @ [45]
     @ digits2 (day t) @ [32] @ digits2 (hour t) @ [58] @ digits2 (minute t) @ [58]
     @ digits2 (second t)"

definition strftime_hms_z :: "datetime \<Rightarrow> ustr" where
  "strftime_hms_z t =
     strftime_hms t @ [32] @ (case tzinfo t of None \<Rightarrow> [] | Some UTC \<Rightarrow> ascii ''UTC'')"

text \<open>The filter of the entry loops: \<open>pub_date and pub_date.date() == yesterday\<close>.\<close>

definition in_window :: "datetime option \<Rightarrow> date \<Rightarrow> bool" where
  "in_window pub_date target =
     (case pub_date of None \<Rightarrow> False | Some t \<Rightarrow> dt_date t = target)"

text \<open>
  \<open>drop_duplicates(subset=key, keep="first")\<close>: walking the rows in order, a row stays
  when no earlier row has its key.
\<close>

fun dedup_walk :: "('a \<Rightarrow> 'k) \<Rightarrow> 'k list \<Rightarrow> 'a list \<Rightarrow> 'a list" where
  "dedup_walk key seen [] = []"
| "dedup_walk key seen (x # xs) =
     (if key x \<in> set seen then dedup_walk key seen xs
      else x # dedup_walk key (key x # seen) xs)"

definition drop_duplicates :: "('a \<Rightarrow> 'k) \<Rightarrow> 'a list \<Rightarrow> 'a list" where
  "drop_duplicates key xs = dedup_walk key [] xs"

text \<open>
  \<open>df.sort_values(by="pub_date", ascending=True)\<close> is called with the default
  \<open>kind="quicksort"\<close>, which pandas documents as not stable: the call returns the rows in
  ascending order of \<open>pub_date\<close> and promises nothing on the order of rows with equal
  \<open>pub_date\<close>. The runs take the sort as a parameter; \<open>sort_values_post\<close> is what the
  call guarantees of its result.
\<close>

definition sort_values_post :: "('a \<Rightarrow> int) \<Rightarrow> 'a list \<Rightarrow> 'a list \<Rightarrow> bool" where
  "sort_values_post key xs ys \<longleftrightarrow> mset ys = mset xs \<and> sorted (map key ys)"

definition title_norm :: "row \<Rightarrow> ustr" where
  "title_norm r = strip (r_title r)"

subsection \<open>spider_yesterday_1012.py\<close>

text \<open>
  The \<open>pub_date\<close> of this script comes from \<open>get_entry_pub_date\<close> and may be \<open>NaT\<close>. The
  filter \<open>pub_date and pub_date.date() == yesterday\<close> fails on \<open>NaT\<close> as it does on \<open>None\<close>:
  \<open>NaT\<close> is truthy, but \<open>NaT.date()\<close> is \<open>NaT\<close> and \<open>NaT == yesterday\<close> is false.
  \<open>datetime_of\<close> is the datetime the filter tests.
\<close>

definition datetime_of :: "pydatetime option \<Rightarrow> datetime option" where
  "datetime_of pub_date =
     (case pub_date of None \<Rightarrow> None | Some NaT \<Rightarrow> None | Some (Datetime t) \<Rightarrow> Some t)"

definition record_1012 :: "libs \<Rightarrow> ustr \<Rightarrow> entry \<Rightarrow> datetime \<Rightarrow> row" where
  "record_1012 L src e pub_date =
     \<lparr>r_title = get_entry_title L e,
      r_link = (case e_link e of None \<Rightarrow> [] | Some l \<Rightarrow> l),
      r_published = strftime_hms_z pub_date,
      r_source = src,
      r_pub_date = pub_date\<rparr>"

fun entries_1012 :: "libs \<Rightarrow> date \<Rightarrow> ustr \<Rightarrow> entry list \<Rightarrow> py_error + row list" where
  "entries_1012 L yesterday src [] = Inr []"
| "entries_1012 L yesterday src (e # es) =
     (case get_entry_pub_date L e of
        Inl err \<Rightarrow> Inl err
      | Inr pub_date \<Rightarrow>
          (case entries_1012 L yesterday src es of
             Inl err \<Rightarrow> Inl err
           | Inr rs \<Rightarrow>
               Inr (if in_window (datetime_of pub_date) yesterday
                    then record_1012 L src e (the (datetime_of pub_date)) # rs else rs)))"

fun feeds_1012 :: "libs \<Rightarrow> date \<Rightarrow> feed list \<Rightarrow> py_error + row list" where
  "feeds_1012 L yesterday [] = Inr []"
| "feeds_1012 L yesterday (f # fs) =
     (case entries_1012 L yesterday (source_title f) (f_entries f) of
        Inl err \<Rightarrow> Inl err
      | Inr rs \<Rightarrow>
          (case feeds_1012 L yesterday fs of
             Inl err \<Rightarrow> Inl err
           | Inr rs' \<Rightarrow> Inr (rs @ rs')))"

text \<open>
  The run: \<open>Inl\<close> is an uncaught exception, \<open>Inr (Some (file, frame))\<close> the file written
  by \<open>to_csv\<close>, \<open>Inr None\<close> a run that ends without writing. The line
  \<open>df["pub_date"] = pd.to_datetime(df["pub_date"], utc=True)\<close> is left out: every
  \<open>pub_date\<close> of a record is already a datetime in UTC, which the conversion keeps
  as the same instant.
\<close>

definition main_1012 ::
  "libs \<Rightarrow> (row list \<Rightarrow> row list) \<Rightarrow> date \<Rightarrow> feed list \<Rightarrow> py_error + (path \<times> dataframe) option" where
  "main_1012 L sort_values today feeds =
     (case date_add_days today (- 1) of
        Inl err \<Rightarrow> Inl err
      | Inr yesterday \<Rightarrow>
          (case feeds_1012 L yesterday feeds of
             Inl err \<Rightarrow> Inl err
           | Inr records \<Rightarrow>
               (let df = DataFrame records
                in if df_empty df then Inr (Some (News12 yesterday, df))
                   else Inr (Some (News12 yesterday,
                          df\<lparr>df_rows := drop_duplicates title_norm (sort_values (df_rows df))\<rparr>)))))"

subsection \<open>spider_yesterday.py\<close>

text \<open>\<open>entry.title\<close>, \<open>entry.link\<close>: attribute access raises on a missing key.\<close>

definition attr :: "ustr option \<Rightarrow> py_error + ustr" where
  "attr v = (case v of None \<Rightarrow> Inl AttributeError | Some s \<Rightarrow> Inr s)"

definition pub_date_of_tuples :: "entry \<Rightarrow> py_error + datetime option" where
  "pub_date_of_tuples e =
     (case e_published_parsed e of
        Some t \<Rightarrow> (case datetime_of_tuple t of Inl err \<Rightarrow> Inl err | Inr dt \<Rightarrow> Inr (Some dt))
      | None \<Rightarrow>
          (case e_updated_parsed e of
             Some t \<Rightarrow> (case datetime_of_tuple t of Inl err \<Rightarrow> Inl err | Inr dt \<Rightarrow> Inr (Some dt))
           | None \<Rightarrow> Inr None))"

definition record_attr :: "(datetime \<Rightarrow> ustr) \<Rightarrow> ustr \<Rightarrow> entry \<Rightarrow> datetime \<Rightarrow> py_error + row" where
  "record_attr fmt src e pub_date =
     (case attr (e_title e) of
        Inl err \<Rightarrow> Inl err
      | Inr t \<Rightarrow>
          (case attr (e_link e) of
             Inl err \<Rightarrow> Inl err
           | Inr l \<Rightarrow>
               Inr \<lparr>r_title = t, r_link = l, r_published = fmt pub_date, r_source = src,
                    r_pub_date = pub_date\<rparr>))"

text \<open>
  The entry loop of \<open>spider_yesterday.py\<close> and \<open>spider_yesterday_matoday.py\<close>, which differ
  in how they find \<open>pub_date\<close> and in the format of \<open>published\<close>.
\<close>

fun entries_attr ::
  "(entry \<Rightarrow> py_error + datetime option) \<Rightarrow> (datetime \<Rightarrow> ustr) \<Rightarrow> date \<Rightarrow> ustr \<Rightarrow> entry list
   \<Rightarrow> py_error + row list" where
  "entries_attr resolve fmt yesterday src [] = Inr []"
| "entries_attr resolve fmt yesterday src (e # es) =
     (case resolve e of
        Inl err \<Rightarrow> Inl err
      | Inr pub_date \<Rightarrow>
          (if in_window pub_date yesterday
           then (case record_attr fmt src e (the pub_date) of
                   Inl err \<Rightarrow> Inl err
                 | Inr r \<Rightarrow>
                     (case entries_attr resolve fmt yesterday src es of
                        Inl err \<Rightarrow> Inl err
                      | Inr rs \<Rightarrow> Inr (r # rs)))
           else entries_attr resolve fmt yesterday src es))"

fun feeds_attr ::
  "(entry \<Rightarrow> py_error + datetime option) \<Rightarrow> (datetime \<Rightarrow> ustr) \<Rightarrow> date \<Rightarrow> feed list
   \<Rightarrow> py_error + row list" where
  "feeds_attr resolve fmt yesterday [] = Inr []"
| "feeds_attr resolve fmt yesterday (f # fs) =
     (case entries_attr resolve fmt yesterday (source_title f) (f_entries f) of
        Inl err \<Rightarrow> Inl err
      | Inr rs \<Rightarrow>
          (case feeds_attr resolve fmt yesterday fs of
             Inl err \<Rightarrow> Inl err
           | Inr rs' \<Rightarrow> Inr (rs @ rs')))"

text \<open>
  \<open>df.sort_values(by="pub_date")\<close> on a frame: \<open>KeyError\<close> when the frame has no such
  column, \<open>TypeError\<close> when the column mixes naive and aware datetimes (they do not
  compare).
\<close>

definition sort_by_pub_date ::
  "(row list \<Rightarrow> row list) \<Rightarrow> dataframe \<Rightarrow> py_error + row list" where
  "sort_by_pub_date sort_values df =
     (if ''pub_date'' \<notin> set (df_columns df) then Inl KeyError
      else if \<exists>a \<in> set (df_rows df). \<exists>b \<in> set (df_rows df).
                tzinfo (r_pub_date a) \<noteq> tzinfo (r_pub_date b) then Inl TypeError
      else Inr (sort_values (df_rows df)))"

definition main_yesterday ::
  "(row list \<Rightarrow> row list) \<Rightarrow> date \<Rightarrow> feed list \<Rightarrow> py_error + (path \<times> dataframe) option" where
  "main_yesterday sort_values today feeds =
     (case date_add_days today (- 1) of
        Inl err \<Rightarrow> Inl err
      | Inr yesterday \<Rightarrow>
          (case feeds_attr pub_date_of_tuples strftime_hms_z yesterday feeds of
             Inl err \<Rightarrow> Inl err
           | Inr records \<Rightarrow>
               (let df = DataFrame records
                in case sort_by_pub_date sort_values df of
                     Inl err \<Rightarrow> Inl err
                   | Inr df_sorted \<Rightarrow>
                       Inr (Some (News yesterday,
                                  df\<lparr>df_rows := drop_duplicates r_title df_sorted\<rparr>)))))"

subsection \<open>spider_yesterday_matoday.py\<close>

text \<open>
  The pattern \<open>Available online\s+([0-9]{1,2}\s+\w+\s+[0-9]{4})\<close>, matched with case, on the
  raw text of the entry.
\<close>

definition matoday_re :: "libs \<Rightarrow> ustr \<Rightarrow> ustr option" where
  "matoday_re L s =
     do {
       s1 \<leftarrow> match_lit (=) (ascii ''Available online'') s;
       (w1, s2) \<leftarrow> span1 isspace s1;
       match_date_group ascii_digit (is_word L) s2
     }"

definition matoday_text :: "entry \<Rightarrow> ustr" where
  "matoday_text e =
     (case e_summary e of
        Some s \<Rightarrow> if s \<noteq> [] then s else (case e_description e of None \<Rightarrow> [] | Some d \<Rightarrow> d)
      | None \<Rightarrow> (case e_description e of None \<Rightarrow> [] | Some d \<Rightarrow> d))"

definition matoday_pub_date :: "libs \<Rightarrow> entry \<Rightarrow> py_error + datetime option" where
  "matoday_pub_date L e =
     (case (case search (matoday_re L) (matoday_text e) of
              None \<Rightarrow> None
            | Some g \<Rightarrow> (case lib_dateutil_parse L g of Inl err \<Rightarrow> None | Inr dt \<Rightarrow> Some dt)) of
        Some dt \<Rightarrow> Inr (Some dt)
      | None \<Rightarrow> pub_date_of_tuples e)"

definition main_matoday ::
  "libs \<Rightarrow> (row list \<Rightarrow> row list) \<Rightarrow> date \<Rightarrow> feed list \<Rightarrow> py_error + (path \<times> dataframe) option" where
  "main_matoday L sort_values today feeds =
     (case date_add_days today (- 1) of
        Inl err \<Rightarrow> Inl err
      | Inr yesterday \<Rightarrow>
          (case feeds_attr (matoday_pub_date L) strftime_hms yesterday feeds of
             Inl err \<Rightarrow> Inl err
           | Inr records \<Rightarrow>
               (let df = DataFrame records
                in if \<not> df_empty df
                   then (case sort_by_pub_date sort_values df of
                           Inl err \<Rightarrow> Inl err
                         | Inr df_sorted \<Rightarrow>
                             Inr (Some (News yesterday,
                                        df\<lparr>df_rows := drop_duplicates r_title df_sorted\<rparr>)))
                   else Inr None)))"

section \<open>weekly_aggregate.py\<close>

text \<open>
  The week to aggregate: this week's Monday from the ISO weekday of today, last Monday 7
  days before it, last Sunday 6 days after that.
\<close>

definition last_week_window :: "date \<Rightarrow> py_error + (date \<times> date)" where
  "last_week_window today_utc =
     (case date_add_days today_utc (- (iso_weekday today_utc - 1)) of
        Inl err \<Rightarrow> Inl err
      | Inr this_monday \<Rightarrow>
          (case date_add_days this_monday (- 7) of
             Inl err \<Rightarrow> Inl err
           | Inr last_monday \<Rightarrow>
               (case date_add_days last_monday 6 of
                  Inl err \<Rightarrow> Inl err
                | Inr last_sunday \<Rightarrow> Inr (last_monday, last_sunday))))"

text \<open>
  The loop \<open>while d <= last_sunday\<close>: the days whose daily file exists, in order.
\<close>

function collect_files :: "(date \<Rightarrow> bool) \<Rightarrow> date \<Rightarrow> date \<Rightarrow> py_error + date list" where
  "collect_files exists d last_sunday =
     (if d \<le> last_sunday
      then (case date_add_days d 1 of
              Inl err \<Rightarrow> Inl err
            | Inr d' \<Rightarrow>
                (case collect_files exists d' last_sunday of
                   Inl err \<Rightarrow> Inl err
                 | Inr fs \<Rightarrow> Inr (if exists d then d # fs else fs)))
      else Inr [])"
  by pat_completeness auto
termination
  by (relation "measure (\<lambda>(ex, d, l). nat (l + 1 - d))")
     (auto simp: date_add_days_def Let_def split: if_splits)

text \<open>
  A row read from a daily file: the cells of the five columns (\<open>None\<close> for an empty cell
  or a column the file does not have); \<open>pub_date\<close> is text as read and a timestamp, or
  \<open>NaT\<close>, once \<open>normalize_pub_date\<close> has run.
\<close>

datatype pub_cell = Raw "ustr option" | Stamp "datetime option"

record wrow =
  w_title :: "ustr option"
  w_link :: "ustr option"
  w_published :: "ustr option"
  w_source :: "ustr option"
  w_pub_date :: pub_cell

record wframe =
  wf_columns :: "string list"
  wf_rows :: "wrow list"

definition raw_text :: "pub_cell \<Rightarrow> ustr option" where
  "raw_text c = (case c of Raw t \<Rightarrow> t | Stamp t \<Rightarrow> None)"

definition normalize_pub_date :: "libs \<Rightarrow> wframe \<Rightarrow> wframe" where
  "normalize_pub_date L df =
     (if ''pub_date'' \<in> set (wf_columns df)
      then df\<lparr>wf_rows :=
                map (\<lambda>(r, t). r\<lparr>w_pub_date := Stamp t\<rparr>)
                  (zip (wf_rows df)
                     (lib_to_datetime_column L (map (\<lambda>r. raw_text (w_pub_date r)) (wf_rows df))))\<rparr>
      else df)"

definition empty_weekly :: wframe where
  "empty_weekly = \<lparr>wf_columns = COLUMNS, wf_rows = []\<rparr>"

text \<open>\<open>pd.concat(dfs, ignore_index=True)\<close>: the rows in order, the columns of all frames.\<close>

definition concat_frames :: "wframe list \<Rightarrow> wframe" where
  "concat_frames dfs =
     \<lparr>wf_columns = remdups (rev (remdups (rev (concat (map wf_columns dfs))))),
      wf_rows = concat (map wf_rows dfs)\<rparr>"

definition wtitle_norm :: "wrow \<Rightarrow> ustr" where
  "wtitle_norm r = strip (case w_title r of None \<Rightarrow> [] | Some t \<Rightarrow> t)"

text \<open>
  The run of \<open>aggregate_last_week\<close>: \<open>exists\<close> and \<open>read_csv\<close> stand for the daily files
  on disk (\<open>read_csv\<close> is \<open>Inl\<close> when reading raises), \<open>sort_values\<close> for the sort by
  \<open>pub_date\<close>. The result is the weekly file written.
\<close>

definition aggregate_last_week ::
  "libs \<Rightarrow> (wrow list \<Rightarrow> wrow list) \<Rightarrow> date \<Rightarrow> (date \<Rightarrow> bool) \<Rightarrow> (date \<Rightarrow> py_error + wframe)
   \<Rightarrow> py_error + (path \<times> wframe)" where
  "aggregate_last_week L sort_values today_utc exists read_csv =
     (case last_week_window today_utc of
        Inl err \<Rightarrow> Inl err
      | Inr (last_monday, last_sunday) \<Rightarrow>
          (case collect_files exists last_monday last_sunday of
             Inl err \<Rightarrow> Inl err
           | Inr files \<Rightarrow>
               (let out = NewsWeek (iso_year last_sunday) (iso_week last_sunday)
                in if files = [] then Inr (out, empty_weekly)
                   else
                     let dfs = List.map_filter
                                 (\<lambda>f. case read_csv f of
                                         Inl err \<Rightarrow> None
                                       | Inr df \<Rightarrow> Some (normalize_pub_date L df)) files
                     in if dfs = [] then Inr (out, empty_weekly)
                        else
                          let all_df = concat_frames dfs
                          in if ''title'' \<notin> set (wf_columns all_df) then Inl AttributeError
                             else
                               let sorted_rows =
                                     (if ''pub_date'' \<in> set (wf_columns all_df)
                                      then sort_values (wf_rows all_df) else wf_rows all_df)
                               in Inr (out, all_df\<lparr>wf_rows :=
                                               drop_duplicates wtitle_norm sorted_rows\<rparr>))))"

section \<open>The libraries on the inputs of the examples\<close>

text \<open>
  The examples below run the scripts on ASCII text without character references. On such
  text \<open>html.unescape\<close> changes nothing, \<open>str.lower\<close> lowers the letters A to Z, the decimal
  digits are 0 to 9 and the alphanumeric characters are the digits and the letters.
  \<open>example_dates\<close> lists what \<open>pd.to_datetime(s, utc=True)\<close> returns for the date strings
  of the examples (it returns \<open>NaT\<close> for the string \<open>NaT\<close> and raises on the other strings
  used), \<open>example_dateutil\<close> what \<open>dateutil.parser.parse\<close> returns (a naive
  datetime: the string names no zone), \<open>example_alts\<close> the \<open>alt\<close> text \<open>ALT_IMG_RE\<close> finds.
\<close>

definition mk_datetime ::
  "int \<Rightarrow> int \<Rightarrow> int \<Rightarrow> int \<Rightarrow> int \<Rightarrow> int \<Rightarrow> tzinfo option \<Rightarrow> datetime" where
  "mk_datetime y m d hh mm ss tz =
     \<lparr>year = y, month = m, day = d, hour = hh, minute = mm, second = ss, microsecond = 0,
      tzinfo = tz\<rparr>"

definition ascii_lower :: "ustr \<Rightarrow> ustr" where
  "ascii_lower s = map (\<lambda>c. if 65 \<le> c \<and> c \<le> 90 then c + 32 else c) s"

definition example_dates :: "(ustr \<times> datetime) list" where
  "example_dates =
     [(ascii ''10 Oct 2025'', mk_datetime 2025 10 10 0 0 0 (Some UTC)),
      (ascii ''Fri, 10 Oct 2025 08:00:00 GMT'', mk_datetime 2025 10 10 8 0 0 (Some UTC))]"

definition example_dateutil :: "(ustr \<times> datetime) list" where
  "example_dateutil = [(ascii ''10 October 2025'', mk_datetime 2025 10 10 0 0 0 None)]"

definition example_img :: ustr where
  "example_img =
     ascii ''<p><img src=ga.png alt='' @ [34]
     @ ascii ''Novel catalyst enables low-temperature CO2 reduction'' @ [34] @ ascii ''></p>''"

definition example_img_short :: ustr where
  "example_img_short = ascii ''<img alt='' @ [34] @ ascii ''Shorter!'' @ [34] @ ascii ''>''"

definition example_img_generic :: ustr where
  "example_img_generic =
     ascii ''<img alt='' @ [34] @ ascii ''Graphical Abstract'' @ [34] @ ascii ''>''"

definition example_img_real :: ustr where
  "example_img_real =
     ascii ''<img alt='' @ [34] @ ascii ''A real title!!!'' @ [34] @ ascii ''>''"

definition example_alts :: "(ustr \<times> ustr) list" where
  "example_alts =
     [(example_img, ascii ''Novel catalyst enables low-temperature CO2 reduction''),
      (example_img_short, ascii ''Shorter!''),
      (example_img_generic, ascii ''Graphical Abstract''),
      (example_img_real, ascii ''A real title!!!'')]"

definition example_libs :: libs where
  "example_libs =
     \<lparr>lib_unescape = (\<lambda>s. s),
      lib_lower = ascii_lower,
      lib_digit_value = (\<lambda>c. if 48 \<le> c \<and> c \<le> 57 then Some (c - 48) else None),
      lib_isalnum = (\<lambda>c. (48 \<le> c \<and> c \<le> 57) \<or> (65 \<le> c \<and> c \<le> 90) \<or> (97 \<le> c \<and> c \<le> 122)),
      lib_to_datetime =
        (\<lambda>s. if s = ascii ''NaT'' then Inr NaT
             else case map_of example_dates s of
                    None \<Rightarrow> Inl ValueError
                  | Some t \<Rightarrow> Inr (Datetime t)),
      lib_dateutil_parse =
        (\<lambda>s. case map_of example_dateutil s of None \<Rightarrow> Inl ParserError | Some t \<Rightarrow> Inr t),
      lib_alt_img_search = map_of example_alts,
      lib_to_datetime_column =
        map (\<lambda>c. case c of None \<Rightarrow> None | Some s \<Rightarrow> map_of example_dates s)\<rparr>"

definition empty_entry :: entry where
  "empty_entry =
     \<lparr>e_title = None, e_link = None, e_summary = None, e_description = None, e_content = [],
      e_published_parsed = None, e_updated_parsed = None, e_published = None,
      e_updated = None\<rparr>"

definition mk_struct_time :: "int \<Rightarrow> int \<Rightarrow> int \<Rightarrow> int \<Rightarrow> int \<Rightarrow> int \<Rightarrow> struct_time" where
  "mk_struct_time y m d hh mm ss =
     \<lparr>tm_year = y, tm_mon = m, tm_mday = d, tm_hour = hh, tm_min = mm, tm_sec = ss,
      tm_wday = 0, tm_yday = 1, tm_isdst = 0\<rparr>"



definition example_entry_late :: entry where
  "example_entry_late =
     empty_entry\<lparr>e_title := Some (ascii ''Paper A''), e_link := Some (ascii ''http://a''),
                  e_published_parsed := Some (mk_struct_time 2025 10 9 23 59 59)\<rparr>"

definition example_entry_midnight :: entry where
  "example_entry_midnight =
     empty_entry\<lparr>e_title := Some (ascii ''Paper B''), e_link := Some (ascii ''http://b''),
                  e_published_parsed := Some (mk_struct_time 2025 10 10 0 0 0)\<rparr>"

definition example_feed :: feed where
  "example_feed =
     \<lparr>f_url = ascii ''http://feed'', f_title = Some (ascii ''Feed''),
      f_entries = [example_entry_late, example_entry_midnight]\<rparr>"

definition valid_tuple :: "struct_time \<Rightarrow> bool" where
  "valid_tuple t \<longleftrightarrow>
     1 \<le> tm_year t \<and> tm_year t \<le> 9999 \<and> 1 \<le> tm_mon t \<and> tm_mon t \<le> 12 \<and>
     1 \<le> tm_mday t \<and> tm_mday t \<le> days_in_month (tm_year t) (tm_mon t) \<and>
     0 \<le> tm_hour t \<and> tm_hour t \<le> 23 \<and> 0 \<le> tm_min t \<and> tm_min t \<le> 59 \<and>
     0 \<le> tm_sec t \<and> tm_sec t \<le> 59"

definition chosen_tuple :: "entry \<Rightarrow> struct_time option" where
  "chosen_tuple e =
     (case e_published_parsed e of Some t \<Rightarrow> Some t | None \<Rightarrow> e_updated_parsed e)"

definition example_entry_leap_second :: entry where
  "example_entry_leap_second =
     empty_entry\<lparr>e_published_parsed := Some (mk_struct_time 2025 10 10 23 59 60),
                  e_published := Some (ascii ''Fri, 10 Oct 2025 08:00:00 GMT''),
                  e_summary := Some (ascii ''Available online 10 October 2025'')\<rparr>"

definition example_phrase :: ustr where
  "example_phrase = ascii ''Available online 10 October 2025''"

definition example_entry_online :: entry where
  "example_entry_online = empty_entry\<lparr>e_summary := Some example_phrase\<rparr>"

definition example_entry_html :: entry where
  "example_entry_html =
     empty_entry\<lparr>e_summary :=
       Some (ascii ''<p>Publication date: AVAILABLE  online 10 October 2025</p><p>Source: X</p>'')\<rparr>"

definition example_entry_both :: entry where
  "example_entry_both =
     empty_entry\<lparr>e_published_parsed := Some (mk_struct_time 2025 10 9 12 0 0),
                  e_summary := Some example_phrase\<rparr>"

definition example_entry_abbrev :: entry where
  "example_entry_abbrev = empty_entry\<lparr>e_summary := Some (ascii ''Available online 10 Oct 2025'')\<rparr>"

text \<open>What the examples need of the libraries: ASCII digits, and \<open>October\<close> in lower case.\<close>

definition ascii_digits_ok :: "libs \<Rightarrow> bool" where
  "ascii_digits_ok L \<longleftrightarrow> (\<forall>c. 48 \<le> c \<and> c \<le> 57 \<longrightarrow> lib_digit_value L c = Some (c - 48))"

definition example_entry_string :: entry where
  "example_entry_string =
     empty_entry\<lparr>e_published := Some (ascii ''Fri, 10 Oct 2025 08:00:00 GMT''),
                  e_summary := Some example_phrase\<rparr>"

definition example_entry_generic :: entry where
  "example_entry_generic =
     empty_entry\<lparr>e_title := Some (ascii ''Graphical Abstract''), e_content := [Some example_img]\<rparr>"

definition example_entry_short :: entry where
  "example_entry_short =
     empty_entry\<lparr>e_title := Some (ascii ''Short''), e_content := [Some example_img_short]\<rparr>"

definition pub_key :: "row \<Rightarrow> int" where
  "pub_key r = dt_key (r_pub_date r)"

definition example_row_0800 :: row where
  "example_row_0800 =
     \<lparr>r_title = ascii ''Same title'', r_link = ascii ''http://first'',
      r_published = strftime_hms_z (mk_datetime 2025 10 10 8 0 0 (Some UTC)),
      r_source = ascii ''Feed A'', r_pub_date = mk_datetime 2025 10 10 8 0 0 (Some UTC)\<rparr>"

definition example_row_0900 :: row where
  "example_row_0900 =
     \<lparr>r_title = ascii ''Same title '', r_link = ascii ''http://second'',
      r_published = strftime_hms_z (mk_datetime 2025 10 10 9 0 0 (Some UTC)),
      r_source = ascii ''Feed B'', r_pub_date = mk_datetime 2025 10 10 9 0 0 (Some UTC)\<rparr>"

definition example_row_tie1 :: row where
  "example_row_tie1 =
     \<lparr>r_title = ascii ''Same title'', r_link = ascii ''http://first'',
      r_published = strftime_hms_z (mk_datetime 2025 10 10 0 0 0 (Some UTC)),
      r_source = ascii ''Feed A'', r_pub_date = mk_datetime 2025 10 10 0 0 0 (Some UTC)\<rparr>"

definition example_row_tie2 :: row where
  "example_row_tie2 =
     \<lparr>r_title = ascii ''Same title'', r_link = ascii ''http://second'',
      r_published = strftime_hms_z (mk_datetime 2025 10 10 0 0 0 (Some UTC)),
      r_source = ascii ''Feed B'', r_pub_date = mk_datetime 2025 10 10 0 0 0 (Some UTC)\<rparr>"

definition example_feeds_dups :: "feed list" where
  "example_feeds_dups =
     [\<lparr>f_url = ascii ''http://a'', f_title = Some (ascii ''Feed A''),
       f_entries =
         [empty_entry\<lparr>e_title := Some (ascii ''Same title''),
                       e_link := Some (ascii ''http://first''),
                       e_published_parsed := Some (mk_struct_time 2025 10 10 8 0 0)\<rparr>]\<rparr>,
      \<lparr>f_url = ascii ''http://b'', f_title = Some (ascii ''Feed B''),
       f_entries =
         [empty_entry\<lparr>e_title := Some (ascii ''Same title ''),
                       e_link := Some (ascii ''http://second''),
                       e_published_parsed := Some (mk_struct_time 2025 10 10 9 0 0)\<rparr>]\<rparr>]"

text \<open>
  A feed title that is not generic, with two images: the longer alt text is a generic one,
  the shorter is not and is 10 characters longer than the title.
\<close>

definition example_entry_two_alts :: entry where
  "example_entry_two_alts =
     empty_entry\<lparr>e_title := Some (ascii ''Short''),
                  e_content := [Some example_img_generic, Some example_img_real]\<rparr>"

text \<open>A date that does not exist: the \<open>datetime\<close> constructor raises on it.\<close>

definition example_entry_february :: entry where
  "example_entry_february =
     empty_entry\<lparr>e_summary := Some (ascii ''Available online 31 February 2025'')\<rparr>"

text \<open>A \<open>published\<close> string that pandas reads as \<open>NaT\<close>, before a good \<open>updated\<close> string.\<close>

definition example_entry_nat :: entry where
  "example_entry_nat =
     empty_entry\<lparr>e_published := Some (ascii ''NaT''),
                  e_updated := Some (ascii ''Fri, 10 Oct 2025 08:00:00 GMT'')\<rparr>"

text \<open>
  Summaries that hold the phrase of the examples: after other text, after an earlier
  phrase, and inside a comment.
\<close>

definition example_entry_record :: entry where
  "example_entry_record =
     empty_entry\<lparr>e_summary :=
       Some (ascii ''<p>Publication date: '' @ example_phrase @ ascii ''</p><p>Source: X</p>'')\<rparr>"

definition example_entry_two_phrases :: entry where
  "example_entry_two_phrases =
     empty_entry\<lparr>e_summary :=
       Some (ascii ''Available online 1 January 2020. '' @ example_phrase)\<rparr>"

definition example_entry_comment :: entry where
  "example_entry_comment =
     empty_entry\<lparr>e_summary :=
       Some (ascii ''<!-- '' @ example_phrase @ ascii '' -->In press'')\<rparr>"

text \<open>The characters that occur in a key of the table \<^term>\<open>repl\<close>.\<close>

definition key_chars :: "nat set" where
  "key_chars = (\<Union>k \<in> fst ` set repl. set k)"

section \<open>fix_mojibake: repairing twice\<close>


lemma contains_Nil [simp]: "contains [] s"
  by (cases s) auto






lemma replace_absent:
  "\<not> contains k s \<Longrightarrow> k \<noteq> [] \<Longrightarrow> replace k v s = s"
proof (induction k v s rule: replace.induct)
  case (1 k v)
  then show ?case by simp
next
  case (2 k v c cs)
  from "2.prems"(1) have np: "\<not> prefix k (c # cs)" and nc: "\<not> contains k cs" by simp_all
  have "replace k v cs = cs"
    using "2.IH"(3) [OF "2.prems"(2) np] nc "2.prems"(2) by blast
  with np "2.prems"(2) show ?case by simp
qed











section \<open>weekly_aggregate.py: the week and the name of the file\<close>

lemma ymd2ord_2025_10:
  "ymd2ord 2025 10 d = 739524 + d"
  by (simp add: ymd2ord_def days_before_year_def days_before_month_def DAYS_BEFORE_MONTH_def
      is_leap_def)

lemma isoweek1monday_mod: "(isoweek1monday y + 6) mod 7 = 0"
  unfolding isoweek1monday_def Let_def by (simp split: if_splits) presburger

lemma weekday_shift: "(w + 6) mod 7 = 0 \<Longrightarrow> (d - w) mod 7 = (d + 6) mod 7" for d w :: int
  by presburger

lemma iso_weekday_eq: "iso_weekday d = (d + 6) mod 7 + 1"
  unfolding iso_weekday_def isocalendar_def Let_def
  by (simp add: weekday_shift [OF isoweek1monday_mod])

lemma iso_weekday_range: "1 \<le> iso_weekday d \<and> iso_weekday d \<le> 7"
  unfolding iso_weekday_eq by presburger

lemma last_week_window_ok:
  assumes "14 \<le> today" "today \<le> MAXORDINAL"
  shows "last_week_window today
           = Inr (today - (iso_weekday today - 1) - 7, today - (iso_weekday today - 1) - 7 + 6)"
proof -
  have r: "1 \<le> iso_weekday today" "iso_weekday today \<le> 7"
    using iso_weekday_range [of today] by simp_all
  with assms show ?thesis
    by (simp add: last_week_window_def date_add_days_def Let_def)
qed

lemma last_monday_is_monday: "iso_weekday (today - (iso_weekday today - 1) - 7) = 1"
  unfolding iso_weekday_eq by presburger

lemma last_sunday_is_sunday: "iso_weekday (today - (iso_weekday today - 1) - 7 + 6) = 7"
  unfolding iso_weekday_eq by presburger


lemma iso_2025_10_12: "isocalendar 739536 = (2025, 41, 7)"
  by (simp add: isocalendar_def ord2ymd_def isoweek1monday_def ymd2ord_def days_before_year_def
      days_before_month_def DAYS_BEFORE_MONTH_def DAYS_IN_MONTH_def is_leap_def Let_def)



declare collect_files.simps [simp del]

lemma aggregate_out_key:
  assumes a: "aggregate_last_week L sv today ex rd = Inr (p, f)"
  shows "\<exists>mon sun. last_week_window today = Inr (mon, sun)
           \<and> p = NewsWeek (iso_year sun) (iso_week sun)"
proof -
  obtain mon sun where w: "last_week_window today = Inr (mon, sun)"
    using a by (cases "last_week_window today") (auto simp: aggregate_last_week_def)
  obtain files where c: "collect_files ex mon sun = Inr files"
    using a w by (cases "collect_files ex mon sun") (auto simp: aggregate_last_week_def)
  have "p = NewsWeek (iso_year sun) (iso_week sun)"
    using a by (simp add: aggregate_last_week_def w c Let_def split: if_splits)
  with w show ?thesis by blast
qed


lemma collect_files_filter:
  "last_sunday < MAXORDINAL \<Longrightarrow> 0 < d
   \<Longrightarrow> collect_files ex d last_sunday = Inr (filter ex [d..last_sunday])"
proof (induction ex d last_sunday rule: collect_files.induct)
  case (1 ex d last_sunday)
  show ?case
  proof (cases "d \<le> last_sunday")
    case False
    then show ?thesis by (simp add: collect_files.simps)
  next
    case True
    with "1.prems" have s: "date_add_days d 1 = Inr (d + 1)"
      by (simp add: date_add_days_def)
    have "collect_files ex (d + 1) last_sunday = Inr (filter ex [d + 1..last_sunday])"
      using "1.IH" [OF True s] "1.prems" by simp
    moreover have "[d..last_sunday] = d # [d + 1..last_sunday]"
      using True by (simp add: upto_rec1)
    ultimately show ?thesis
      using True s by (subst collect_files.simps) simp
  qed
qed

text \<open>
  Claim C8. The week of the weekly run: from today's ISO weekday, this week's Monday, less
  7 days for last Monday, plus 6 for last Sunday; these are a Monday and a Sunday, the
  Sunday is the last one before today, and the file written is named by the ISO year and
  week of that Sunday. Run on 2025-10-13, a Monday, the week is 2025-10-06 to 2025-10-12
  and the file is that of week 41 of 2025.
\<close>

theorem last_week_window_iso:
  "(14 \<le> today \<and> today \<le> MAXORDINAL \<longrightarrow>
      (\<exists>mon sun. last_week_window today = Inr (mon, sun) \<and>
         mon = today - (iso_weekday today - 1) - 7 \<and> sun = mon + 6 \<and>
         iso_weekday mon = 1 \<and> iso_weekday sun = 7 \<and> sun < today \<and> today \<le> sun + 7)) \<and>
   (\<forall>p f. aggregate_last_week L sv today ex rd = Inr (p, f) \<longrightarrow>
      (\<exists>mon sun. last_week_window today = Inr (mon, sun) \<and>
         p = NewsWeek (iso_year sun) (iso_week sun))) \<and>
   iso_weekday (ymd2ord 2025 10 13) = 1 \<and>
   last_week_window (ymd2ord 2025 10 13) = Inr (ymd2ord 2025 10 6, ymd2ord 2025 10 12) \<and>
   iso_year (ymd2ord 2025 10 12) = 2025 \<and> iso_week (ymd2ord 2025 10 12) = 41"
proof -
  have r: "1 \<le> iso_weekday today" "iso_weekday today \<le> 7"
    using iso_weekday_range [of today] by simp_all
  have general: "14 \<le> today \<and> today \<le> MAXORDINAL \<longrightarrow>
      (\<exists>mon sun. last_week_window today = Inr (mon, sun) \<and>
         mon = today - (iso_weekday today - 1) - 7 \<and> sun = mon + 6 \<and>
         iso_weekday mon = 1 \<and> iso_weekday sun = 7 \<and> sun < today \<and> today \<le> sun + 7)"
    using last_week_window_ok [of today] last_monday_is_monday [of today]
      last_sunday_is_sunday [of today] r by auto
  have key: "\<forall>p f. aggregate_last_week L sv today ex rd = Inr (p, f) \<longrightarrow>
      (\<exists>mon sun. last_week_window today = Inr (mon, sun) \<and>
         p = NewsWeek (iso_year sun) (iso_week sun))"
    using aggregate_out_key by blast
  have wd: "iso_weekday (ymd2ord 2025 10 13) = 1"
    by (simp add: ymd2ord_2025_10 iso_weekday_eq)
  have w: "last_week_window (ymd2ord 2025 10 13) = Inr (ymd2ord 2025 10 6, ymd2ord 2025 10 12)"
    using last_week_window_ok [of 739537] wd
    by (simp add: ymd2ord_2025_10 MAXORDINAL_def)
  have k: "iso_year (ymd2ord 2025 10 12) = 2025 \<and> iso_week (ymd2ord 2025 10 12) = 41"
    by (simp add: ymd2ord_2025_10 iso_year_def iso_week_def iso_2025_10_12)
  from general key wd w k show ?thesis by blast
qed

theorem last_week_window_iso_witness:
  "14 \<le> ymd2ord 2025 10 13 \<and> ymd2ord 2025 10 13 \<le> MAXORDINAL \<and>
   last_week_window (ymd2ord 2025 10 13) = Inr (ymd2ord 2025 10 6, ymd2ord 2025 10 12) \<and>
   iso_weekday (ymd2ord 2025 10 6) = 1 \<and> iso_weekday (ymd2ord 2025 10 12) = 7 \<and>
   aggregate_last_week example_libs (\<lambda>rows. rows) (ymd2ord 2025 10 13) (\<lambda>d. False)
       (\<lambda>d. Inl KeyError)
     = Inr (NewsWeek 2025 41, empty_weekly)"
proof -
  have b: "14 \<le> ymd2ord 2025 10 13 \<and> ymd2ord 2025 10 13 \<le> MAXORDINAL"
    by (simp add: ymd2ord_2025_10 MAXORDINAL_def)
  have c: "collect_files (\<lambda>d. False) (ymd2ord 2025 10 6) (ymd2ord 2025 10 12) = Inr []"
    using collect_files_filter [of "ymd2ord 2025 10 12" "ymd2ord 2025 10 6" "\<lambda>d. False"]
    by (simp add: ymd2ord_2025_10 MAXORDINAL_def)
  note t = last_week_window_iso [of "ymd2ord 2025 10 13" example_libs "\<lambda>rows. rows"
      "\<lambda>d. False" "\<lambda>d. Inl KeyError"]
  from t have w: "last_week_window (ymd2ord 2025 10 13)
      = Inr (ymd2ord 2025 10 6, ymd2ord 2025 10 12)" by blast
  from t have k: "iso_year (ymd2ord 2025 10 12) = 2025" "iso_week (ymd2ord 2025 10 12) = 41"
    by blast+
  have a: "aggregate_last_week example_libs (\<lambda>rows. rows) (ymd2ord 2025 10 13) (\<lambda>d. False)
       (\<lambda>d. Inl KeyError) = Inr (NewsWeek 2025 41, empty_weekly)"
    by (simp add: aggregate_last_week_def w c k)
  have m: "iso_weekday (ymd2ord 2025 10 6) = 1 \<and> iso_weekday (ymd2ord 2025 10 12) = 7"
    by (simp add: ymd2ord_2025_10 iso_weekday_eq)
  from b w m a show ?thesis by blast
qed

section \<open>The window filter\<close>

declare split_ws.simps [simp del]

lemma new_datetime_tz: "new_datetime y m d hh mm ss tz = Inr t \<Longrightarrow> tzinfo t = tz"
  by (auto simp: new_datetime_def split: if_splits)

lemma datetime_of_tuple_utc: "datetime_of_tuple t = Inr dt \<Longrightarrow> tzinfo dt = Some UTC"
  unfolding datetime_of_tuple_def by (rule new_datetime_tz)

lemma parse_date_strict_utc:
  "parse_date_strict L d = Some (Datetime dt) \<Longrightarrow> tzinfo dt = Some UTC"
  by (auto simp: parse_date_strict_def split: option.splits if_splits sum.splits
      pydatetime.splits)

lemma parse_day_month_year_utc:
  "parse_day_month_year L ds ms ys = Inr (Some dt) \<Longrightarrow> tzinfo dt = Some UTC"
  by (auto simp: parse_day_month_year_def Let_def new_datetime_tz
      split: sum.splits option.splits)

lemma parse_available_online_date_utc:
  assumes "parse_available_online_date L s = Some (Datetime dt)"
  shows "tzinfo dt = Some UTC"
proof -
  from assms obtain g where
    r: "(case split_ws g of
           [day_s, month_s, year_s] \<Rightarrow>
             (case parse_day_month_year L day_s month_s year_s of
                Inr (Some dt) \<Rightarrow> Some (Datetime dt)
              | Inr None \<Rightarrow> parse_date_strict L (Some g)
              | Inl err \<Rightarrow> parse_date_strict L (Some g))
         | _ \<Rightarrow> parse_date_strict L (Some g)) = Some (Datetime dt)"
    by (auto simp: parse_available_online_date_def split: if_splits option.splits)
  then show ?thesis
    by (auto split: list.splits sum.splits option.splits
        dest: parse_date_strict_utc parse_day_month_year_utc)
qed

lemma get_entry_pub_date_utc:
  "get_entry_pub_date L e = Inr (Some (Datetime dt)) \<Longrightarrow> tzinfo dt = Some UTC"
  by (auto simp: get_entry_pub_date_def split: option.splits sum.splits
      dest: datetime_of_tuple_utc parse_date_strict_utc parse_available_online_date_utc)

lemma pub_date_of_tuples_utc:
  "pub_date_of_tuples e = Inr (Some dt) \<Longrightarrow> tzinfo dt = Some UTC"
  by (auto simp: pub_date_of_tuples_def split: option.splits sum.splits
      dest: datetime_of_tuple_utc)

lemma in_window_iff: "in_window pub target \<longleftrightarrow> (\<exists>t. pub = Some t \<and> dt_date t = target)"
  by (cases pub) (simp_all add: in_window_def)

lemma datetime_of_iff: "datetime_of p = Some t \<longleftrightarrow> p = Some (Datetime t)"
  by (auto simp: datetime_of_def split: option.splits pydatetime.splits)

lemma entries_1012_filter:
  "entries_1012 L y src es = Inr rs \<Longrightarrow>
   rs = map (\<lambda>e. record_1012 L src e
                 (the (datetime_of
                    (case get_entry_pub_date L e of Inl err \<Rightarrow> None | Inr p \<Rightarrow> p))))
          (filter (\<lambda>e. in_window
                     (datetime_of
                        (case get_entry_pub_date L e of Inl err \<Rightarrow> None | Inr p \<Rightarrow> p)) y)
             es)"
proof (induction es arbitrary: rs)
  case Nil
  then show ?case by simp
next
  case (Cons e es)
  from Cons.prems obtain p rs' where
    p: "get_entry_pub_date L e = Inr p" and
    r: "entries_1012 L y src es = Inr rs'" and
    rs: "rs = (if in_window (datetime_of p) y
               then record_1012 L src e (the (datetime_of p)) # rs' else rs')"
    by (auto split: sum.splits)
  from Cons.IH [OF r] p rs show ?case by simp
qed

lemma entries_1012_rows:
  assumes "entries_1012 L y src es = Inr rs" "r \<in> set rs"
  shows "dt_date (r_pub_date r) = y \<and> tzinfo (r_pub_date r) = Some UTC"
proof -
  from assms obtain e where
    w: "in_window
          (datetime_of (case get_entry_pub_date L e of Inl err \<Rightarrow> None | Inr p \<Rightarrow> p)) y" and
    r: "r = record_1012 L src e
              (the (datetime_of
                 (case get_entry_pub_date L e of Inl err \<Rightarrow> None | Inr p \<Rightarrow> p)))"
    using entries_1012_filter [OF assms(1)] by auto
  from w obtain t where
    t: "get_entry_pub_date L e = Inr (Some (Datetime t))" "dt_date t = y"
    by (auto simp: in_window_iff datetime_of_iff split: sum.splits)
  with r get_entry_pub_date_utc [OF t(1)] show ?thesis
    by (simp add: record_1012_def datetime_of_def)
qed

lemma feeds_1012_rows:
  "feeds_1012 L y fs = Inr rs \<Longrightarrow> r \<in> set rs
   \<Longrightarrow> dt_date (r_pub_date r) = y \<and> tzinfo (r_pub_date r) = Some UTC"
proof (induction fs arbitrary: rs)
  case Nil
  then show ?case by simp
next
  case (Cons f fs)
  from Cons.prems(1) obtain a b where
    a: "entries_1012 L y (source_title f) (f_entries f) = Inr a" and
    b: "feeds_1012 L y fs = Inr b" and rs: "rs = a @ b"
    by (auto split: sum.splits)
  from Cons.prems(2) rs have "r \<in> set a \<or> r \<in> set b" by simp
  then show ?case
    using entries_1012_rows [OF a] Cons.IH [OF b] by blast
qed

lemma record_attr_pub: "record_attr fmt src e t = Inr r \<Longrightarrow> r_pub_date r = t"
  by (auto simp: record_attr_def split: sum.splits)

lemma entries_attr_rows:
  "entries_attr resolve fmt y src es = Inr rs \<Longrightarrow> r \<in> set rs
   \<Longrightarrow> \<exists>e \<in> set es. resolve e = Inr (Some (r_pub_date r)) \<and> dt_date (r_pub_date r) = y"
proof (induction es arbitrary: rs)
  case Nil
  then show ?case by simp
next
  case (Cons e es)
  from Cons.prems(1) obtain p where p: "resolve e = Inr p" by (auto split: sum.splits)
  show ?case
  proof (cases "in_window p y")
    case False
    with Cons.prems(1) p have "entries_attr resolve fmt y src es = Inr rs" by simp
    from Cons.IH [OF this Cons.prems(2)] show ?thesis by auto
  next
    case True
    then obtain t where t: "p = Some t" "dt_date t = y" by (auto simp: in_window_iff)
    from Cons.prems(1) p True obtain r0 rs' where
      r0: "record_attr fmt src e (the p) = Inr r0" and
      r': "entries_attr resolve fmt y src es = Inr rs'" and rs: "rs = r0 # rs'"
      by (auto split: sum.splits)
    from Cons.prems(2) rs have "r = r0 \<or> r \<in> set rs'" by auto
    then show ?thesis
    proof
      assume "r = r0"
      with record_attr_pub [OF r0] t p show ?thesis by simp
    next
      assume "r \<in> set rs'"
      from Cons.IH [OF r' this] show ?thesis by auto
    qed
  qed
qed

lemma feeds_attr_rows:
  "feeds_attr resolve fmt y fs = Inr rs \<Longrightarrow> r \<in> set rs
   \<Longrightarrow> \<exists>e. resolve e = Inr (Some (r_pub_date r)) \<and> dt_date (r_pub_date r) = y"
proof (induction fs arbitrary: rs)
  case Nil
  then show ?case by simp
next
  case (Cons f fs)
  from Cons.prems(1) obtain a b where
    a: "entries_attr resolve fmt y (source_title f) (f_entries f) = Inr a" and
    b: "feeds_attr resolve fmt y fs = Inr b" and rs: "rs = a @ b"
    by (auto split: sum.splits)
  from Cons.prems(2) rs have "r \<in> set a \<or> r \<in> set b" by simp
  then show ?case
    using entries_attr_rows [OF a] Cons.IH [OF b] by blast
qed

lemma dedup_walk_subset: "set (dedup_walk key seen xs) \<subseteq> set xs"
  by (induction xs arbitrary: seen) auto

lemma drop_duplicates_subset: "set (drop_duplicates key xs) \<subseteq> set xs"
  by (simp add: drop_duplicates_def dedup_walk_subset)

lemma ymd2ord_2025_10_date: "dt_date (mk_datetime 2025 10 d hh mm ss tz) = 739524 + d"
  by (simp add: dt_date_def mk_datetime_def ymd2ord_2025_10)

lemma datetime_of_tuple_mk:
  "1 \<le> d \<Longrightarrow> d \<le> 31 \<Longrightarrow> 0 \<le> hh \<Longrightarrow> hh \<le> 23 \<Longrightarrow> 0 \<le> mm \<Longrightarrow> mm \<le> 59 \<Longrightarrow> 0 \<le> ss \<Longrightarrow> ss \<le> 59
   \<Longrightarrow> datetime_of_tuple (mk_struct_time 2025 10 d hh mm ss)
       = Inr (mk_datetime 2025 10 d hh mm ss (Some UTC))"
  by (simp add: datetime_of_tuple_def mk_struct_time_def new_datetime_def days_in_month_def
      DAYS_IN_MONTH_def mk_datetime_def)

lemma example_pub_dates:
  "get_entry_pub_date L example_entry_late
     = Inr (Some (Datetime (mk_datetime 2025 10 9 23 59 59 (Some UTC))))"
  "get_entry_pub_date L example_entry_midnight
     = Inr (Some (Datetime (mk_datetime 2025 10 10 0 0 0 (Some UTC))))"
  "pub_date_of_tuples example_entry_late
     = Inr (Some (mk_datetime 2025 10 9 23 59 59 (Some UTC)))"
  "pub_date_of_tuples example_entry_midnight
     = Inr (Some (mk_datetime 2025 10 10 0 0 0 (Some UTC)))"
  by (simp_all add: get_entry_pub_date_def pub_date_of_tuples_def example_entry_late_def
      example_entry_midnight_def empty_entry_def datetime_of_tuple_mk)

text \<open>
  Claim C3. The window filter admits an entry exactly when its publication date was found
  and the calendar date of that UTC datetime is the target date: 2025-10-09 23:59:59 is
  out and 2025-10-10 00:00:00 is in for the target 2025-10-10. The records of a run are the
  entries admitted, in order, and every record, and every row of the file written, has a
  UTC \<open>pub_date\<close> whose date is the target (yesterday: today less one day). In
  \<open>spider_yesterday_1012.py\<close> the date tested is the datetime the resolver returned, and a
  result that is \<open>NaT\<close> is not admitted.
\<close>

theorem window_filter_utc_date:
  "(in_window pub target \<longleftrightarrow> (\<exists>t. pub = Some t \<and> dt_date t = target)) \<and>
   \<not> in_window (Some (mk_datetime 2025 10 9 23 59 59 (Some UTC))) (ymd2ord 2025 10 10) \<and>
   in_window (Some (mk_datetime 2025 10 10 0 0 0 (Some UTC))) (ymd2ord 2025 10 10) \<and>
   (datetime_of r = Some t \<longleftrightarrow> r = Some (Datetime t)) \<and>
   (entries_1012 L y src es = Inr rs0 \<longrightarrow>
      rs0 = map (\<lambda>e. record_1012 L src e
                    (the (datetime_of
                       (case get_entry_pub_date L e of Inl err \<Rightarrow> None | Inr p \<Rightarrow> p))))
              (filter (\<lambda>e. in_window
                         (datetime_of
                            (case get_entry_pub_date L e of Inl err \<Rightarrow> None | Inr p \<Rightarrow> p)) y)
                 es)) \<and>
   (feeds_1012 L y fs = Inr rs \<longrightarrow>
      (\<forall>r \<in> set rs. dt_date (r_pub_date r) = y \<and> tzinfo (r_pub_date r) = Some UTC)) \<and>
   (feeds_attr pub_date_of_tuples fmt y fs = Inr rs' \<longrightarrow>
      (\<forall>r \<in> set rs'. dt_date (r_pub_date r) = y \<and> tzinfo (r_pub_date r) = Some UTC)) \<and>
   (main_1012 L sv today fs = Inr (Some (p, df)) \<and> (\<forall>xs. set (sv xs) \<subseteq> set xs) \<longrightarrow>
      p = News12 (today - 1) \<and>
      (\<forall>r \<in> set (df_rows df). dt_date (r_pub_date r) = today - 1
                                \<and> tzinfo (r_pub_date r) = Some UTC)) \<and>
   (main_yesterday sv today fs = Inr (Some (p', df')) \<and> (\<forall>xs. set (sv xs) \<subseteq> set xs) \<longrightarrow>
      p' = News (today - 1) \<and>
      (\<forall>r \<in> set (df_rows df'). dt_date (r_pub_date r) = today - 1
                                 \<and> tzinfo (r_pub_date r) = Some UTC))"
proof -
  have ex: "\<not> in_window (Some (mk_datetime 2025 10 9 23 59 59 (Some UTC))) (ymd2ord 2025 10 10)"
    "in_window (Some (mk_datetime 2025 10 10 0 0 0 (Some UTC))) (ymd2ord 2025 10 10)"
    by (simp_all add: in_window_def ymd2ord_2025_10_date ymd2ord_2025_10)
  have f1: "feeds_1012 L y fs = Inr rs \<longrightarrow>
      (\<forall>r \<in> set rs. dt_date (r_pub_date r) = y \<and> tzinfo (r_pub_date r) = Some UTC)"
    using feeds_1012_rows by blast
  have f2: "feeds_attr pub_date_of_tuples fmt y fs = Inr rs' \<longrightarrow>
      (\<forall>r \<in> set rs'. dt_date (r_pub_date r) = y \<and> tzinfo (r_pub_date r) = Some UTC)"
    using feeds_attr_rows [of pub_date_of_tuples fmt y fs rs'] pub_date_of_tuples_utc by metis
  have m1: "main_1012 L sv today fs = Inr (Some (p, df)) \<and> (\<forall>xs. set (sv xs) \<subseteq> set xs) \<longrightarrow>
      p = News12 (today - 1) \<and>
      (\<forall>r \<in> set (df_rows df). dt_date (r_pub_date r) = today - 1
                                \<and> tzinfo (r_pub_date r) = Some UTC)"
  proof
    assume a: "main_1012 L sv today fs = Inr (Some (p, df)) \<and> (\<forall>xs. set (sv xs) \<subseteq> set xs)"
    then have d: "date_add_days today (- 1) = Inr (today - 1)"
      by (auto simp: main_1012_def date_add_days_def Let_def split: if_splits)
    from a obtain records where rec: "feeds_1012 L (today - 1) fs = Inr records"
      by (auto simp: main_1012_def d split: sum.splits)
    from a rec d have p: "p = News12 (today - 1)"
      and rows: "df_rows df = records \<or> df_rows df = drop_duplicates title_norm (sv records)"
      by (auto simp: main_1012_def Let_def DataFrame_def df_empty_def split: if_splits)
    from a have "set (sv records) \<subseteq> set records" by blast
    with rows drop_duplicates_subset [of title_norm "sv records"]
    have sub: "set (df_rows df) \<subseteq> set records" by auto
    from sub feeds_1012_rows [OF rec] p show "p = News12 (today - 1) \<and>
      (\<forall>r \<in> set (df_rows df). dt_date (r_pub_date r) = today - 1
                                \<and> tzinfo (r_pub_date r) = Some UTC)" by blast
  qed
  have m2: "main_yesterday sv today fs = Inr (Some (p', df')) \<and> (\<forall>xs. set (sv xs) \<subseteq> set xs) \<longrightarrow>
      p' = News (today - 1) \<and>
      (\<forall>r \<in> set (df_rows df'). dt_date (r_pub_date r) = today - 1
                                 \<and> tzinfo (r_pub_date r) = Some UTC)"
  proof
    assume a: "main_yesterday sv today fs = Inr (Some (p', df')) \<and> (\<forall>xs. set (sv xs) \<subseteq> set xs)"
    then have d: "date_add_days today (- 1) = Inr (today - 1)"
      by (auto simp: main_yesterday_def date_add_days_def Let_def split: if_splits)
    from a obtain records where
      rec: "feeds_attr pub_date_of_tuples strftime_hms_z (today - 1) fs = Inr records"
      by (auto simp: main_yesterday_def d split: sum.splits)
    from a rec d have p: "p' = News (today - 1)"
      and rows: "df_rows df' = drop_duplicates r_title (sv records)"
      by (auto simp: main_yesterday_def Let_def DataFrame_def sort_by_pub_date_def
          split: if_splits sum.splits)
    from a have "set (sv records) \<subseteq> set records" by blast
    with rows drop_duplicates_subset [of r_title "sv records"]
    have sub: "set (df_rows df') \<subseteq> set records" by auto
    have "\<forall>r \<in> set records. dt_date (r_pub_date r) = today - 1
                                 \<and> tzinfo (r_pub_date r) = Some UTC"
      using feeds_attr_rows [OF rec] pub_date_of_tuples_utc by metis
    with sub p show "p' = News (today - 1) \<and>
      (\<forall>r \<in> set (df_rows df'). dt_date (r_pub_date r) = today - 1
                                 \<and> tzinfo (r_pub_date r) = Some UTC)" by blast
  qed
  from in_window_iff [of pub target] ex datetime_of_iff [of r t]
    entries_1012_filter [of L y src es rs0] f1 f2 m1 m2
  show ?thesis by blast
qed

theorem window_filter_utc_date_witness:
  "feeds_1012 example_libs (ymd2ord 2025 10 10) [example_feed]
     = Inr [record_1012 example_libs (ascii ''Feed'') example_entry_midnight
              (mk_datetime 2025 10 10 0 0 0 (Some UTC))] \<and>
   dt_date (r_pub_date (record_1012 example_libs (ascii ''Feed'') example_entry_midnight
              (mk_datetime 2025 10 10 0 0 0 (Some UTC)))) = ymd2ord 2025 10 10 \<and>
   tzinfo (r_pub_date (record_1012 example_libs (ascii ''Feed'') example_entry_midnight
              (mk_datetime 2025 10 10 0 0 0 (Some UTC)))) = Some UTC"
proof -
  have w: "\<not> in_window (Some (mk_datetime 2025 10 9 23 59 59 (Some UTC))) (ymd2ord 2025 10 10)"
    "in_window (Some (mk_datetime 2025 10 10 0 0 0 (Some UTC))) (ymd2ord 2025 10 10)"
    by (simp_all add: in_window_def ymd2ord_2025_10_date ymd2ord_2025_10)
  have f: "feeds_1012 example_libs (ymd2ord 2025 10 10) [example_feed]
     = Inr [record_1012 example_libs (ascii ''Feed'') example_entry_midnight
              (mk_datetime 2025 10 10 0 0 0 (Some UTC))]"
    by (simp add: example_feed_def source_title_def example_pub_dates w datetime_of_def)
  from f window_filter_utc_date [where L = example_libs and y = "ymd2ord 2025 10 10"
      and fs = "[example_feed]"
      and rs = "[record_1012 example_libs (ascii ''Feed'') example_entry_midnight
              (mk_datetime 2025 10 10 0 0 0 (Some UTC))]"]
  show ?thesis by simp
qed

section \<open>get_entry_pub_date: the sources on the examples\<close>

lemma example_libs_digits: "ascii_digits_ok example_libs"
  by (simp add: ascii_digits_ok_def example_libs_def)

lemma digit_value_ascii:
  "ascii_digits_ok L \<Longrightarrow> 48 \<le> c \<Longrightarrow> c \<le> 57 \<Longrightarrow> lib_digit_value L c = Some (c - 48)"
  by (simp add: ascii_digits_ok_def)

lemma example_libs_october: "lib_lower example_libs (ascii ''October'') = ascii ''october''"
  by (simp add: example_libs_def ascii_lower_def ascii_def)

lemma example_libs_unescape: "lib_unescape example_libs s = s"
  by (simp add: example_libs_def)

lemma datetime_of_tuple_valid:
  "valid_tuple t \<Longrightarrow>
   datetime_of_tuple t
     = Inr (mk_datetime (tm_year t) (tm_mon t) (tm_mday t) (tm_hour t) (tm_min t) (tm_sec t)
              (Some UTC))"
  by (simp add: valid_tuple_def datetime_of_tuple_def new_datetime_def mk_datetime_def)

lemma datetime_of_tuple_invalid:
  "\<not> valid_tuple t \<Longrightarrow> datetime_of_tuple t = Inl ValueError"
  by (auto simp: valid_tuple_def datetime_of_tuple_def new_datetime_def)

lemma get_entry_pub_date_tuple:
  "chosen_tuple e = Some t \<Longrightarrow>
   get_entry_pub_date L e
     = (case datetime_of_tuple t of Inl err \<Rightarrow> Inl err | Inr dt \<Rightarrow> Inr (Some (Datetime dt)))"
  by (simp add: get_entry_pub_date_def chosen_tuple_def)

lemma get_entry_pub_date_no_tuple:
  "chosen_tuple e = None \<Longrightarrow>
   get_entry_pub_date L e
     = Inr (case parse_date_strict L (e_published e) of
              Some r \<Rightarrow> Some r
            | None \<Rightarrow>
                (case parse_date_strict L (e_updated e) of
                   Some r \<Rightarrow> Some r
                 | None \<Rightarrow>
                     parse_available_online_date L
                       (case e_summary e of None \<Rightarrow> [] | Some s \<Rightarrow> s)))"
  by (simp add: get_entry_pub_date_def chosen_tuple_def split: option.splits)

lemma parse_date_strict_None:
  "parse_date_strict L d = None \<longleftrightarrow>
     d = None \<or> d = Some [] \<or> (\<exists>s err. d = Some s \<and> lib_to_datetime L s = Inl err)"
  by (auto simp: parse_date_strict_def split: option.splits sum.splits pydatetime.splits)

lemma parse_date_strict_missing: "parse_date_strict L None = None"
  by (simp add: parse_date_strict_def)

text \<open>The first match of a pattern: the positions before it have none.\<close>

lemma search_skip:
  "\<forall>i<length pre. m (drop i pre @ x) = None \<Longrightarrow> search m (pre @ x) = search m x"
proof (induction pre)
  case Nil
  then show ?case by simp
next
  case (Cons c cs)
  from Cons.prems have "m (drop 0 (c # cs) @ x) = None" by blast
  then have h: "m (c # cs @ x) = None" by simp
  have "\<forall>i<length cs. m (drop i cs @ x) = None"
  proof (intro allI impI)
    fix i
    assume "i < length cs"
    then have "Suc i < length (c # cs)" by simp
    with Cons.prems have "m (drop (Suc i) (c # cs) @ x) = None" by blast
    then show "m (drop i cs @ x) = None" by simp
  qed
  from Cons.IH [OF this] h show ?case by simp
qed

lemma search_hit: "x \<noteq> [] \<Longrightarrow> m x = Some g \<Longrightarrow> search m x = Some g"
  by (cases x) simp_all

lemma search_first:
  assumes "\<forall>i<length pre. m (drop i pre @ x) = None" "x \<noteq> []" "m x = Some g"
  shows "search m (pre @ x) = Some g"
  using search_skip [OF assms(1)] search_hit [of x m g] assms(2,3) by simp

lemma phrase_matches:
  assumes "ascii_digits_ok L"
  shows "AVAILABLE_ONLINE_RE L (example_phrase @ post) = Some (ascii ''10 October 2025'')"
  by (simp add: AVAILABLE_ONLINE_RE_def match_date_group_def span1_def span_1_2_def
      span_4_def example_phrase_def ascii_def isspace_def ci_lit_def ci_alpha_def is_digit_def
      digit_value_ascii [OF assms])

lemma example_phrase_ne: "example_phrase @ post \<noteq> []"
  by (simp add: example_phrase_def ascii_def)

lemma split_date: "split_ws (ascii ''10 October 2025'') = [ascii ''10'', ascii ''October'', ascii ''2025'']"
  by (simp add: split_ws.simps ascii_def isspace_def)

lemma parse_10_october:
  assumes "ascii_digits_ok L" "lib_lower L (ascii ''October'') = ascii ''october''"
  shows "parse_day_month_year L (ascii ''10'') (ascii ''October'') (ascii ''2025'')
           = Inr (Some (mk_datetime 2025 10 10 0 0 0 (Some UTC)))"
proof -
  have d: "py_int L (ascii ''10'') = Inr 10" "py_int L (ascii ''2025'') = Inr 2025"
    by (simp_all add: py_int_def is_digit_def ascii_def digit_value_ascii [OF assms(1)])
  have m: "map_of MONTHS (ascii ''october'') = Some 10"
    by (simp add: MONTHS_def ascii_def)
  have n: "new_datetime 2025 10 10 0 0 0 (Some UTC) = Inr (mk_datetime 2025 10 10 0 0 0 (Some UTC))"
    by (simp add: new_datetime_def days_in_month_def DAYS_IN_MONTH_def mk_datetime_def)
  show ?thesis by (simp add: parse_day_month_year_def d assms(2) m n)
qed

lemma available_online_first_match:
  assumes "ascii_digits_ok L" "lib_lower L (ascii ''October'') = ascii ''october''"
    "clean_html_text L s = pre @ example_phrase @ post"
    "\<forall>i<length pre. AVAILABLE_ONLINE_RE L (drop i pre @ example_phrase @ post) = None"
  shows "parse_available_online_date L s
           = Some (Datetime (mk_datetime 2025 10 10 0 0 0 (Some UTC)))"
proof -
  have ne: "s \<noteq> []"
  proof
    assume "s = []"
    then have "clean_html_text L s = []" by (simp add: clean_html_text_def)
    with assms(3) example_phrase_ne [of post] show False by simp
  qed
  have "search (AVAILABLE_ONLINE_RE L) (pre @ example_phrase @ post)
          = Some (ascii ''10 October 2025'')"
    using search_first [OF assms(4) example_phrase_ne phrase_matches [OF assms(1)]] .
  then show ?thesis
    by (simp add: parse_available_online_date_def ne assms(3) split_date
        parse_10_october [OF assms(1,2)])
qed

lemma available_online_fallback:
  assumes "d \<noteq> []" "search (AVAILABLE_ONLINE_RE L) (clean_html_text L d) = Some g"
    "length (split_ws g) \<noteq> 3 \<or>
     (\<exists>ds ms ys. split_ws g = [ds, ms, ys] \<and>
        (map_of MONTHS (lib_lower L ms) = None \<or> (\<exists>err. parse_day_month_year L ds ms ys = Inl err)))"
  shows "parse_available_online_date L d = parse_date_strict L (Some g)"
proof -
  from assms(3) show ?thesis
  proof
    assume "length (split_ws g) \<noteq> 3"
    then show ?thesis
      by (auto simp: parse_available_online_date_def assms(1,2) split: list.splits)
  next
    assume "\<exists>ds ms ys. split_ws g = [ds, ms, ys] \<and>
        (map_of MONTHS (lib_lower L ms) = None \<or> (\<exists>err. parse_day_month_year L ds ms ys = Inl err))"
    then obtain ds ms ys where s: "split_ws g = [ds, ms, ys]"
      and m: "map_of MONTHS (lib_lower L ms) = None \<or> (\<exists>err. parse_day_month_year L ds ms ys = Inl err)"
      by blast
    from m have "\<forall>dt. parse_day_month_year L ds ms ys \<noteq> Inr (Some dt)"
      by (auto simp: parse_day_month_year_def Let_def split: sum.splits)
    then show ?thesis
      by (simp add: parse_available_online_date_def assms(1,2) s split: sum.splits option.splits)
  qed
qed

lemma example_phrase_clean: "clean_html_text example_libs example_phrase = example_phrase"
  by (simp add: clean_html_text_def example_libs_def)
    (simp add: example_phrase_def ascii_def strip_def isspace_def)

lemma available_online_phrase:
  "parse_available_online_date example_libs example_phrase
     = Some (Datetime (mk_datetime 2025 10 10 0 0 0 (Some UTC)))"
proof -
  have c: "clean_html_text example_libs example_phrase = [] @ example_phrase @ []"
    using example_phrase_clean by simp
  have n: "\<forall>i<length ([] :: ustr).
      AVAILABLE_ONLINE_RE example_libs (drop i [] @ example_phrase @ []) = None" by simp
  from available_online_first_match [OF example_libs_digits example_libs_october c n]
  show ?thesis .
qed

lemma example_february_clean:
  "clean_html_text example_libs (ascii ''Available online 31 February 2025'')
   = ascii ''Available online 31 February 2025''"
  by (simp add: clean_html_text_def example_libs_def ascii_def strip_def isspace_def)

lemma example_february_search:
  "search (AVAILABLE_ONLINE_RE example_libs) (ascii ''Available online 31 February 2025'')
   = Some (ascii ''31 February 2025'')"
  by (simp add: AVAILABLE_ONLINE_RE_def match_date_group_def span1_def span_1_2_def
      span_4_def ascii_def isspace_def ci_lit_def ci_alpha_def is_digit_def example_libs_def)

lemma example_february_split:
  "split_ws (ascii ''31 February 2025'') = [ascii ''31'', ascii ''February'', ascii ''2025'']"
  by (simp add: split_ws.simps ascii_def isspace_def)

lemma example_february_parse:
  "parse_day_month_year example_libs (ascii ''31'') (ascii ''February'') (ascii ''2025'')
     = Inl ValueError"
proof -
  have d: "py_int example_libs (ascii ''31'') = Inr 31"
    "py_int example_libs (ascii ''2025'') = Inr 2025"
    by (simp_all add: py_int_def is_digit_def ascii_def
        digit_value_ascii [OF example_libs_digits])
  have m: "map_of MONTHS (lib_lower example_libs (ascii ''February'')) = Some 2"
    by (simp add: MONTHS_def example_libs_def ascii_lower_def ascii_def)
  have n: "new_datetime 2025 2 31 0 0 0 (Some UTC) = Inl ValueError"
    by (simp add: new_datetime_def days_in_month_def DAYS_IN_MONTH_def is_leap_def)
  show ?thesis by (simp add: parse_day_month_year_def d m n)
qed

lemma example_february_strict:
  "lib_to_datetime example_libs (ascii ''31 February 2025'') = Inl ValueError"
  by (simp add: example_libs_def example_dates_def ascii_def)

lemma example_string_strict:
  "parse_date_strict example_libs (Some (ascii ''Fri, 10 Oct 2025 08:00:00 GMT''))
     = Some (Datetime (mk_datetime 2025 10 10 8 0 0 (Some UTC)))"
  by (simp add: parse_date_strict_def example_libs_def example_dates_def ascii_def
      mk_datetime_def)

text \<open>
  A string that pandas reads as \<open>NaT\<close> is not a failure of the parser: \<open>parse_date_strict\<close>
  returns \<open>NaT\<close>, the resolver returns it without trying the sources after it, and the
  entry loop drops the entry.
\<close>

lemma get_entry_pub_date_nat:
  "chosen_tuple e = None \<Longrightarrow> parse_date_strict L (e_published e) = Some NaT
   \<Longrightarrow> get_entry_pub_date L e = Inr (Some NaT)"
  by (simp add: get_entry_pub_date_no_tuple)

lemma example_nat:
  "get_entry_pub_date example_libs example_entry_nat = Inr (Some NaT)"
  "parse_date_strict example_libs (e_updated example_entry_nat)
     = Some (Datetime (mk_datetime 2025 10 10 8 0 0 (Some UTC)))"
  "entries_1012 example_libs y src [example_entry_nat] = Inr []"
proof -
  have p: "parse_date_strict example_libs (e_published example_entry_nat) = Some NaT"
    by (simp add: parse_date_strict_def example_entry_nat_def empty_entry_def example_libs_def
        ascii_def)
  have c: "chosen_tuple example_entry_nat = None"
    by (simp add: chosen_tuple_def example_entry_nat_def empty_entry_def)
  from get_entry_pub_date_nat [OF c p]
  show r: "get_entry_pub_date example_libs example_entry_nat = Inr (Some NaT)" .
  show "parse_date_strict example_libs (e_updated example_entry_nat)
     = Some (Datetime (mk_datetime 2025 10 10 8 0 0 (Some UTC)))"
    using example_string_strict by (simp add: example_entry_nat_def empty_entry_def)
  show "entries_1012 example_libs y src [example_entry_nat] = Inr []"
    by (simp add: r datetime_of_def in_window_def)
qed

section \<open>get_entry_pub_date: what can raise\<close>

text \<open>
  Claim C6, as the code has it. The string sources never raise. \<open>parse_date_strict\<close>
  gives \<open>None\<close> exactly when the string is missing or empty or the library raises on it,
  and an exception of \<open>int\<close> or of the \<open>datetime\<close> constructor inside
  \<open>parse_available_online_date\<close> is caught and the matched text handed to
  \<open>parse_date_strict\<close>. A source that gives \<open>None\<close> is passed over for the next, and the
  result is \<open>None\<close> when all of them give \<open>None\<close>. The structured tuple is passed to the
  \<open>datetime\<close> constructor outside any \<open>try\<close>: when an entry has a tuple, the resolver
  returns the UTC datetime of its six fields if they are in range and raises
  \<open>ValueError\<close> if they are not, and it never falls through to the strings.
\<close>

theorem get_entry_pub_date_raises_only_on_tuple:
  "(chosen_tuple e = None \<longrightarrow> (\<exists>r. get_entry_pub_date L e = Inr r)) \<and>
   (chosen_tuple e = Some t \<and> valid_tuple t \<longrightarrow>
      get_entry_pub_date L e
        = Inr (Some (Datetime (mk_datetime (tm_year t) (tm_mon t) (tm_mday t) (tm_hour t)
                                 (tm_min t) (tm_sec t) (Some UTC))))) \<and>
   (chosen_tuple e = Some t \<and> \<not> valid_tuple t \<longrightarrow> get_entry_pub_date L e = Inl ValueError) \<and>
   (parse_date_strict L d = None \<longleftrightarrow>
      d = None \<or> d = Some [] \<or> (\<exists>s err. d = Some s \<and> lib_to_datetime L s = Inl err)) \<and>
   (x \<noteq> [] \<and> search (AVAILABLE_ONLINE_RE L) (clean_html_text L x) = Some g \<and>
    split_ws g = [ds, ms, ys] \<and> parse_day_month_year L ds ms ys = Inl err' \<longrightarrow>
      parse_available_online_date L x = parse_date_strict L (Some g)) \<and>
   (chosen_tuple e = None \<and> parse_date_strict L (e_published e) = None \<longrightarrow>
      get_entry_pub_date L e
        = Inr (case parse_date_strict L (e_updated e) of
                 Some r \<Rightarrow> Some r
               | None \<Rightarrow>
                   parse_available_online_date L
                     (case e_summary e of None \<Rightarrow> [] | Some s \<Rightarrow> s))) \<and>
   (chosen_tuple e = None \<and> parse_date_strict L (e_published e) = None \<and>
    parse_date_strict L (e_updated e) = None \<and>
    parse_available_online_date L (case e_summary e of None \<Rightarrow> [] | Some s \<Rightarrow> s) = None
    \<longrightarrow> get_entry_pub_date L e = Inr None)"
proof -
  have a: "chosen_tuple e = None \<longrightarrow> (\<exists>r. get_entry_pub_date L e = Inr r)"
    using get_entry_pub_date_no_tuple by blast
  have b: "chosen_tuple e = Some t \<and> valid_tuple t \<longrightarrow>
      get_entry_pub_date L e
        = Inr (Some (Datetime (mk_datetime (tm_year t) (tm_mon t) (tm_mday t) (tm_hour t)
                                 (tm_min t) (tm_sec t) (Some UTC))))"
    using get_entry_pub_date_tuple [of e t L] datetime_of_tuple_valid [of t] by simp
  have c: "chosen_tuple e = Some t \<and> \<not> valid_tuple t \<longrightarrow> get_entry_pub_date L e = Inl ValueError"
    using get_entry_pub_date_tuple [of e t L] datetime_of_tuple_invalid [of t] by auto
  have f: "x \<noteq> [] \<and> search (AVAILABLE_ONLINE_RE L) (clean_html_text L x) = Some g \<and>
    split_ws g = [ds, ms, ys] \<and> parse_day_month_year L ds ms ys = Inl err' \<longrightarrow>
      parse_available_online_date L x = parse_date_strict L (Some g)"
    using available_online_fallback [of x L g] by blast
  have u: "chosen_tuple e = None \<and> parse_date_strict L (e_published e) = None \<longrightarrow>
      get_entry_pub_date L e
        = Inr (case parse_date_strict L (e_updated e) of
                 Some r \<Rightarrow> Some r
               | None \<Rightarrow>
                   parse_available_online_date L
                     (case e_summary e of None \<Rightarrow> [] | Some s \<Rightarrow> s))"
    using get_entry_pub_date_no_tuple [of e L] by simp
  have n: "chosen_tuple e = None \<and> parse_date_strict L (e_published e) = None \<and>
    parse_date_strict L (e_updated e) = None \<and>
    parse_available_online_date L (case e_summary e of None \<Rightarrow> [] | Some s \<Rightarrow> s) = None
    \<longrightarrow> get_entry_pub_date L e = Inr None"
    using get_entry_pub_date_no_tuple [of e L] by auto
  from a b c parse_date_strict_None [of L d] f u n show ?thesis by blast
qed

lemma example_leap_second_chosen:
  "chosen_tuple example_entry_leap_second = Some (mk_struct_time 2025 10 10 23 59 60)"
  by (simp add: chosen_tuple_def example_entry_leap_second_def empty_entry_def)

lemma leap_second_invalid: "\<not> valid_tuple (mk_struct_time 2025 10 10 23 59 60)"
  by (simp add: valid_tuple_def mk_struct_time_def)

theorem get_entry_pub_date_raises_only_on_tuple_witness:
  "chosen_tuple example_entry_leap_second = Some (mk_struct_time 2025 10 10 23 59 60) \<and>
   \<not> valid_tuple (mk_struct_time 2025 10 10 23 59 60) \<and>
   get_entry_pub_date example_libs example_entry_leap_second = Inl ValueError \<and>
   chosen_tuple example_entry_midnight = Some (mk_struct_time 2025 10 10 0 0 0) \<and>
   valid_tuple (mk_struct_time 2025 10 10 0 0 0) \<and>
   get_entry_pub_date example_libs example_entry_midnight
     = Inr (Some (Datetime (mk_datetime 2025 10 10 0 0 0 (Some UTC)))) \<and>
   chosen_tuple empty_entry = None \<and>
   get_entry_pub_date example_libs empty_entry = Inr None \<and>
   lib_to_datetime example_libs (ascii ''no date'') = Inl ValueError \<and>
   parse_date_strict example_libs (Some (ascii ''no date'')) = None \<and>
   parse_day_month_year example_libs (ascii ''31'') (ascii ''February'') (ascii ''2025'')
     = Inl ValueError \<and>
   parse_available_online_date example_libs (ascii ''Available online 31 February 2025'')
     = None \<and>
   get_entry_pub_date example_libs example_entry_february = Inr None"
proof -
  have m: "chosen_tuple example_entry_midnight = Some (mk_struct_time 2025 10 10 0 0 0)"
    by (simp add: chosen_tuple_def example_entry_midnight_def empty_entry_def)
  have v: "valid_tuple (mk_struct_time 2025 10 10 0 0 0)"
    by (simp add: valid_tuple_def mk_struct_time_def days_in_month_def DAYS_IN_MONTH_def)
  have n: "chosen_tuple empty_entry = None"
    by (simp add: chosen_tuple_def empty_entry_def)
  have s: "parse_date_strict example_libs (e_published empty_entry) = None"
    "parse_date_strict example_libs (e_updated empty_entry) = None"
    "parse_available_online_date example_libs
       (case e_summary empty_entry of None \<Rightarrow> [] | Some s \<Rightarrow> s) = None"
    by (simp_all add: parse_date_strict_def empty_entry_def parse_available_online_date_def)
  have l: "lib_to_datetime example_libs (ascii ''no date'') = Inl ValueError"
    by (simp add: example_libs_def example_dates_def ascii_def)
  have fe: "chosen_tuple example_entry_february = None"
    "parse_date_strict example_libs (e_published example_entry_february) = None"
    "parse_date_strict example_libs (e_updated example_entry_february) = None"
    "(case e_summary example_entry_february of None \<Rightarrow> [] | Some s \<Rightarrow> s)
       = ascii ''Available online 31 February 2025''"
    by (simp_all add: chosen_tuple_def example_entry_february_def empty_entry_def
        parse_date_strict_def)
  have fne: "ascii ''Available online 31 February 2025'' \<noteq> []" by (simp add: ascii_def)
  note t1 = get_entry_pub_date_raises_only_on_tuple
      [where e = example_entry_leap_second and t = "mk_struct_time 2025 10 10 23 59 60"
        and L = example_libs]
  note t2 = get_entry_pub_date_raises_only_on_tuple
      [where e = example_entry_midnight and t = "mk_struct_time 2025 10 10 0 0 0"
        and L = example_libs]
  note t3 = get_entry_pub_date_raises_only_on_tuple
      [where e = empty_entry and L = example_libs and d = "Some (ascii ''no date'')"]
  note t4 = get_entry_pub_date_raises_only_on_tuple
      [where e = example_entry_february and L = example_libs
        and d = "Some (ascii ''31 February 2025'')"
        and x = "ascii ''Available online 31 February 2025''"
        and g = "ascii ''31 February 2025''" and ds = "ascii ''31''"
        and ms = "ascii ''February''" and ys = "ascii ''2025''" and err' = ValueError]
  from t1 example_leap_second_chosen leap_second_invalid
  have r1: "get_entry_pub_date example_libs example_entry_leap_second = Inl ValueError" by blast
  from t2 m v have r2: "get_entry_pub_date example_libs example_entry_midnight
     = Inr (Some (Datetime (mk_datetime 2025 10 10 0 0 0 (Some UTC))))"
    by (simp add: mk_struct_time_def)
  from t3 n s have r3: "get_entry_pub_date example_libs empty_entry = Inr None" by blast
  from t3 l have r4: "parse_date_strict example_libs (Some (ascii ''no date'')) = None" by blast
  from t4 example_february_strict
  have r5: "parse_date_strict example_libs (Some (ascii ''31 February 2025'')) = None" by blast
  from t4 fne example_february_clean example_february_search example_february_split
    example_february_parse
  have "parse_available_online_date example_libs (ascii ''Available online 31 February 2025'')
     = parse_date_strict example_libs (Some (ascii ''31 February 2025''))" by simp
  with r5 have r6: "parse_available_online_date example_libs
      (ascii ''Available online 31 February 2025'') = None" by simp
  from t4 fe r6 have r7: "get_entry_pub_date example_libs example_entry_february = Inr None"
    by simp
  from example_leap_second_chosen leap_second_invalid r1 m v r2 n r3 l r4
    example_february_parse r6 r7 show ?thesis by blast
qed

text \<open>
  The claim as stated fails on an entry whose tuple has a field out of range, here the
  second 60 that \<open>time.struct_time\<close> allows: the resolver raises, although the entry also
  has a \<open>published\<close> string and an "Available online" date to fall back on.
\<close>

theorem get_entry_pub_date_raises_counterexample:
  "get_entry_pub_date example_libs example_entry_leap_second = Inl ValueError \<and>
   parse_date_strict example_libs (e_published example_entry_leap_second)
     = Some (Datetime (mk_datetime 2025 10 10 8 0 0 (Some UTC))) \<and>
   parse_available_online_date example_libs
     (case e_summary example_entry_leap_second of None \<Rightarrow> [] | Some s \<Rightarrow> s)
     = Some (Datetime (mk_datetime 2025 10 10 0 0 0 (Some UTC)))"
proof -
  have "datetime_of_tuple (mk_struct_time 2025 10 10 23 59 60) = Inl ValueError"
    by (simp add: datetime_of_tuple_def new_datetime_def mk_struct_time_def)
  then have a: "get_entry_pub_date example_libs example_entry_leap_second = Inl ValueError"
    by (simp add: get_entry_pub_date_def example_entry_leap_second_def empty_entry_def)
  have b: "parse_date_strict example_libs (e_published example_entry_leap_second)
     = Some (Datetime (mk_datetime 2025 10 10 8 0 0 (Some UTC)))"
    using example_string_strict by (simp add: example_entry_leap_second_def empty_entry_def)
  have c: "parse_available_online_date example_libs
     (case e_summary example_entry_leap_second of None \<Rightarrow> [] | Some s \<Rightarrow> s)
     = Some (Datetime (mk_datetime 2025 10 10 0 0 0 (Some UTC)))"
    using available_online_phrase
    by (simp add: example_entry_leap_second_def empty_entry_def example_phrase_def)
  from a b c show ?thesis by blast
qed

section \<open>The order of the sources of the publication date\<close>

lemma matoday_search_phrase:
  "search (matoday_re example_libs) example_phrase = Some (ascii ''10 October 2025'')"
proof -
  have "matoday_re example_libs example_phrase = Some (ascii ''10 October 2025'')"
    by (simp add: matoday_re_def match_date_group_def span1_def span_1_2_def span_4_def
        example_phrase_def ascii_def isspace_def ascii_digit_def is_word_def example_libs_def)
  then show ?thesis by (simp add: example_phrase_def ascii_def)
qed

lemma dateutil_phrase:
  "lib_dateutil_parse example_libs (ascii ''10 October 2025'')
     = Inr (mk_datetime 2025 10 10 0 0 0 None)"
  by (simp add: example_libs_def example_dateutil_def ascii_def)

lemma matoday_phrase:
  "matoday_text e = example_phrase
   \<Longrightarrow> matoday_pub_date example_libs e = Inr (Some (mk_datetime 2025 10 10 0 0 0 None))"
  by (simp add: matoday_pub_date_def matoday_search_phrase dateutil_phrase)

lemma tuple_2025_10_09:
  "datetime_of_tuple (mk_struct_time 2025 10 9 12 0 0)
     = Inr (mk_datetime 2025 10 9 12 0 0 (Some UTC))"
  by (simp add: datetime_of_tuple_mk)

lemma example_both_text: "matoday_text example_entry_both = example_phrase"
  by (simp add: matoday_text_def example_entry_both_def empty_entry_def example_phrase_def
      ascii_def)

text \<open>
  Claim C1, as the code has it. In \<open>get_entry_pub_date\<close> the sources are tried in a fixed
  order and the first that gives a date wins: the published tuple, then the updated tuple,
  then the \<open>published\<close> string, then the \<open>updated\<close> string (tried when the \<open>published\<close>
  string is missing or empty or the parser raises on it), and only then the
  "Available online" phrase of the summary. An entry with a tuple resolves from the tuple
  whatever its strings and its summary hold. The entry loop of
  \<open>spider_yesterday_matoday.py\<close> has the opposite order: the date of the phrase when the
  pattern matches and \<open>dateutil\<close> parses the match, whatever the tuples hold; otherwise the
  published tuple, then the updated tuple, then no date.
\<close>

theorem pub_date_priority_chain:
  "(e_published_parsed e = Some t \<longrightarrow>
      get_entry_pub_date L e
        = (case datetime_of_tuple t of
             Inl err \<Rightarrow> Inl err | Inr dt \<Rightarrow> Inr (Some (Datetime dt)))) \<and>
   (e_published_parsed e = None \<and> e_updated_parsed e = Some t \<longrightarrow>
      get_entry_pub_date L e
        = (case datetime_of_tuple t of
             Inl err \<Rightarrow> Inl err | Inr dt \<Rightarrow> Inr (Some (Datetime dt)))) \<and>
   (e_published_parsed e = None \<and> e_updated_parsed e = None \<and>
    parse_date_strict L (e_published e) = Some (Datetime dt) \<longrightarrow>
      get_entry_pub_date L e = Inr (Some (Datetime dt))) \<and>
   (e_published_parsed e = None \<and> e_updated_parsed e = None \<and>
    parse_date_strict L (e_published e) = None \<and>
    parse_date_strict L (e_updated e) = Some (Datetime dt) \<longrightarrow>
      get_entry_pub_date L e = Inr (Some (Datetime dt))) \<and>
   (e_published_parsed e = None \<and> e_updated_parsed e = None \<and>
    parse_date_strict L (e_published e) = None \<and> parse_date_strict L (e_updated e) = None \<longrightarrow>
      get_entry_pub_date L e
        = Inr (parse_available_online_date L (case e_summary e of None \<Rightarrow> [] | Some s \<Rightarrow> s))) \<and>
   (e_published_parsed e = Some t \<and> datetime_of_tuple t = Inr dt \<longrightarrow>
      get_entry_pub_date L (e\<lparr>e_summary := s, e_published := p, e_updated := u,
                               e_updated_parsed := t'\<rparr>) = Inr (Some (Datetime dt))) \<and>
   (search (matoday_re L) (matoday_text e) = Some g \<and> lib_dateutil_parse L g = Inr dt' \<longrightarrow>
      matoday_pub_date L e = Inr (Some dt')) \<and>
   (search (matoday_re L) (matoday_text e) = None \<or>
    (\<exists>g err. search (matoday_re L) (matoday_text e) = Some g \<and>
              lib_dateutil_parse L g = Inl err) \<longrightarrow>
      matoday_pub_date L e = pub_date_of_tuples e) \<and>
   (e_published_parsed e = Some t \<longrightarrow>
      pub_date_of_tuples e
        = (case datetime_of_tuple t of Inl err \<Rightarrow> Inl err | Inr dt \<Rightarrow> Inr (Some dt))) \<and>
   (e_published_parsed e = None \<and> e_updated_parsed e = Some t \<longrightarrow>
      pub_date_of_tuples e
        = (case datetime_of_tuple t of Inl err \<Rightarrow> Inl err | Inr dt \<Rightarrow> Inr (Some dt))) \<and>
   (e_published_parsed e = None \<and> e_updated_parsed e = None \<longrightarrow>
      pub_date_of_tuples e = Inr None)"
proof -
  have a: "(e_published_parsed e = Some t \<longrightarrow>
      get_entry_pub_date L e
        = (case datetime_of_tuple t of
             Inl err \<Rightarrow> Inl err | Inr dt \<Rightarrow> Inr (Some (Datetime dt)))) \<and>
   (e_published_parsed e = None \<and> e_updated_parsed e = Some t \<longrightarrow>
      get_entry_pub_date L e
        = (case datetime_of_tuple t of
             Inl err \<Rightarrow> Inl err | Inr dt \<Rightarrow> Inr (Some (Datetime dt)))) \<and>
   (e_published_parsed e = None \<and> e_updated_parsed e = None \<and>
    parse_date_strict L (e_published e) = Some (Datetime dt) \<longrightarrow>
      get_entry_pub_date L e = Inr (Some (Datetime dt))) \<and>
   (e_published_parsed e = None \<and> e_updated_parsed e = None \<and>
    parse_date_strict L (e_published e) = None \<and>
    parse_date_strict L (e_updated e) = Some (Datetime dt) \<longrightarrow>
      get_entry_pub_date L e = Inr (Some (Datetime dt))) \<and>
   (e_published_parsed e = None \<and> e_updated_parsed e = None \<and>
    parse_date_strict L (e_published e) = None \<and> parse_date_strict L (e_updated e) = None \<longrightarrow>
      get_entry_pub_date L e
        = Inr (parse_available_online_date L (case e_summary e of None \<Rightarrow> [] | Some s \<Rightarrow> s))) \<and>
   (e_published_parsed e = Some t \<and> datetime_of_tuple t = Inr dt \<longrightarrow>
      get_entry_pub_date L (e\<lparr>e_summary := s, e_published := p, e_updated := u,
                               e_updated_parsed := t'\<rparr>) = Inr (Some (Datetime dt)))"
    by (simp add: get_entry_pub_date_def)
  have b: "search (matoday_re L) (matoday_text e) = Some g \<and> lib_dateutil_parse L g = Inr dt' \<longrightarrow>
      matoday_pub_date L e = Inr (Some dt')"
    by (simp add: matoday_pub_date_def)
  have c: "search (matoday_re L) (matoday_text e) = None \<or>
    (\<exists>g err. search (matoday_re L) (matoday_text e) = Some g \<and>
              lib_dateutil_parse L g = Inl err) \<longrightarrow>
      matoday_pub_date L e = pub_date_of_tuples e"
    by (auto simp: matoday_pub_date_def)
  have d: "(e_published_parsed e = Some t \<longrightarrow>
      pub_date_of_tuples e
        = (case datetime_of_tuple t of Inl err \<Rightarrow> Inl err | Inr dt \<Rightarrow> Inr (Some dt))) \<and>
   (e_published_parsed e = None \<and> e_updated_parsed e = Some t \<longrightarrow>
      pub_date_of_tuples e
        = (case datetime_of_tuple t of Inl err \<Rightarrow> Inl err | Inr dt \<Rightarrow> Inr (Some dt))) \<and>
   (e_published_parsed e = None \<and> e_updated_parsed e = None \<longrightarrow>
      pub_date_of_tuples e = Inr None)"
    by (simp add: pub_date_of_tuples_def)
  from a b c d show ?thesis by simp
qed

theorem pub_date_priority_chain_witness:
  "e_published_parsed example_entry_both = Some (mk_struct_time 2025 10 9 12 0 0) \<and>
   e_summary example_entry_both = Some example_phrase \<and>
   parse_available_online_date example_libs example_phrase
     = Some (Datetime (mk_datetime 2025 10 10 0 0 0 (Some UTC))) \<and>
   get_entry_pub_date example_libs example_entry_both
     = Inr (Some (Datetime (mk_datetime 2025 10 9 12 0 0 (Some UTC)))) \<and>
   parse_date_strict example_libs (e_published example_entry_string)
     = Some (Datetime (mk_datetime 2025 10 10 8 0 0 (Some UTC))) \<and>
   get_entry_pub_date example_libs example_entry_string
     = Inr (Some (Datetime (mk_datetime 2025 10 10 8 0 0 (Some UTC)))) \<and>
   get_entry_pub_date example_libs example_entry_online
     = Inr (Some (Datetime (mk_datetime 2025 10 10 0 0 0 (Some UTC)))) \<and>
   search (matoday_re example_libs) (matoday_text example_entry_both)
     = Some (ascii ''10 October 2025'') \<and>
   matoday_pub_date example_libs example_entry_both
     = Inr (Some (mk_datetime 2025 10 10 0 0 0 None)) \<and>
   search (matoday_re example_libs) (matoday_text example_entry_midnight) = None \<and>
   matoday_pub_date example_libs example_entry_midnight
     = Inr (Some (mk_datetime 2025 10 10 0 0 0 (Some UTC)))"
proof -
  have a: "e_published_parsed example_entry_both = Some (mk_struct_time 2025 10 9 12 0 0)"
    "e_summary example_entry_both = Some example_phrase"
    by (simp_all add: example_entry_both_def empty_entry_def)
  note b = available_online_phrase
  have c: "e_published_parsed example_entry_string = None \<and>
      e_updated_parsed example_entry_string = None \<and>
      parse_date_strict example_libs (e_published example_entry_string)
        = Some (Datetime (mk_datetime 2025 10 10 8 0 0 (Some UTC)))"
    using example_string_strict by (simp add: example_entry_string_def empty_entry_def)
  have d: "e_published_parsed example_entry_online = None \<and>
      e_updated_parsed example_entry_online = None \<and>
      parse_date_strict example_libs (e_published example_entry_online) = None \<and>
      parse_date_strict example_libs (e_updated example_entry_online) = None \<and>
      e_summary example_entry_online = Some example_phrase"
    by (simp add: example_entry_online_def empty_entry_def parse_date_strict_def)
  have m: "search (matoday_re example_libs) (matoday_text example_entry_both)
     = Some (ascii ''10 October 2025'')"
    using matoday_search_phrase by (simp add: example_both_text)
  have n: "search (matoday_re example_libs) (matoday_text example_entry_midnight) = None"
    "e_published_parsed example_entry_midnight = Some (mk_struct_time 2025 10 10 0 0 0)"
    by (simp_all add: matoday_text_def example_entry_midnight_def empty_entry_def
        matoday_re_def ascii_def)
  have tm: "datetime_of_tuple (mk_struct_time 2025 10 10 0 0 0)
     = Inr (mk_datetime 2025 10 10 0 0 0 (Some UTC))"
    by (simp add: datetime_of_tuple_mk)
  from pub_date_priority_chain [where e = example_entry_both and L = example_libs
      and t = "mk_struct_time 2025 10 9 12 0 0"] a tuple_2025_10_09
  have r1: "get_entry_pub_date example_libs example_entry_both
     = Inr (Some (Datetime (mk_datetime 2025 10 9 12 0 0 (Some UTC))))" by simp
  from pub_date_priority_chain [where e = example_entry_string and L = example_libs
      and dt = "mk_datetime 2025 10 10 8 0 0 (Some UTC)"] c
  have r2: "get_entry_pub_date example_libs example_entry_string
     = Inr (Some (Datetime (mk_datetime 2025 10 10 8 0 0 (Some UTC))))" by blast
  from pub_date_priority_chain [where e = example_entry_online and L = example_libs] d b
  have r3: "get_entry_pub_date example_libs example_entry_online
     = Inr (Some (Datetime (mk_datetime 2025 10 10 0 0 0 (Some UTC))))" by simp
  from pub_date_priority_chain [where e = example_entry_both and L = example_libs
      and g = "ascii ''10 October 2025''" and dt' = "mk_datetime 2025 10 10 0 0 0 None"]
    m dateutil_phrase
  have r4: "matoday_pub_date example_libs example_entry_both
     = Inr (Some (mk_datetime 2025 10 10 0 0 0 None))" by blast
  from pub_date_priority_chain [where e = example_entry_midnight and L = example_libs
      and t = "mk_struct_time 2025 10 10 0 0 0"] n tm
  have r5: "matoday_pub_date example_libs example_entry_midnight
     = Inr (Some (mk_datetime 2025 10 10 0 0 0 (Some UTC)))" by simp
  from a b c r1 r2 r3 m r4 n r5 show ?thesis by blast
qed

text \<open>
  The claim as stated fails in \<open>spider_yesterday_matoday.py\<close>, whose entry loop tries the
  "Available online" phrase first and the tuples only when the phrase gave nothing: an
  entry with the published tuple 2025-10-09 12:00:00 and the phrase for 10 October 2025
  resolves to the date of the phrase.
\<close>

theorem matoday_phrase_before_tuple_counterexample:
  "e_published_parsed example_entry_both = Some (mk_struct_time 2025 10 9 12 0 0) \<and>
   datetime_of_tuple (mk_struct_time 2025 10 9 12 0 0)
     = Inr (mk_datetime 2025 10 9 12 0 0 (Some UTC)) \<and>
   matoday_pub_date example_libs example_entry_both
     = Inr (Some (mk_datetime 2025 10 10 0 0 0 None))"
proof -
  from matoday_phrase [OF example_both_text] tuple_2025_10_09 show ?thesis
    by (simp add: example_entry_both_def empty_entry_def)
qed

section \<open>The date of the Available online phrase\<close>

lemma parse_day_month_year_fields:
  assumes "parse_day_month_year L ds ms ys = Inr (Some dt)"
  shows "tzinfo dt = Some UTC \<and>
      hour dt = 0 \<and> minute dt = 0 \<and> second dt = 0 \<and> microsecond dt = 0 \<and>
      py_int L ds = Inr (day dt) \<and> map_of MONTHS (lib_lower L ms) = Some (month dt) \<and>
      py_int L ys = Inr (year dt)"
  using assms
  by (auto simp: parse_day_month_year_def Let_def new_datetime_def
      split: sum.splits option.splits if_splits)

lemma example_record_summary:
  "e_summary example_entry_record
     = Some (ascii ''<p>Publication date: '' @ example_phrase @ ascii ''</p><p>Source: X</p>'')"
  "e_published_parsed example_entry_record = None"
  "e_updated_parsed example_entry_record = None"
  "parse_date_strict example_libs (e_published example_entry_record) = None"
  "parse_date_strict example_libs (e_updated example_entry_record) = None"
  by (simp_all add: example_entry_record_def empty_entry_def parse_date_strict_def)

lemma example_record_clean:
  "clean_html_text example_libs
     (ascii ''<p>Publication date: '' @ example_phrase @ ascii ''</p><p>Source: X</p>'')
   = ascii ''Publication date: '' @ example_phrase @ ascii ''Source: X''"
  by (simp add: clean_html_text_def example_libs_def example_phrase_def ascii_def strip_def
      isspace_def)

lemma example_record_before:
  "\<forall>i<length (ascii ''Publication date: '').
     AVAILABLE_ONLINE_RE example_libs
       (drop i (ascii ''Publication date: '') @ example_phrase @ ascii ''Source: X'') = None"
  by (simp add: ascii_def All_less_Suc AVAILABLE_ONLINE_RE_def ci_lit_def)

lemma example_html_clean:
  "clean_html_text example_libs
     (ascii ''<p>Publication date: AVAILABLE  online 10 October 2025</p><p>Source: X</p>'')
   = ascii ''Publication date: AVAILABLE online 10 October 2025Source: X''"
  by (simp add: clean_html_text_def example_libs_def ascii_def strip_def isspace_def)

lemma example_html_search:
  "search (AVAILABLE_ONLINE_RE example_libs)
     (ascii ''Publication date: AVAILABLE online 10 October 2025Source: X'')
   = Some (ascii ''10 October 2025'')"
  by (simp add: AVAILABLE_ONLINE_RE_def match_date_group_def span1_def span_1_2_def
      span_4_def ascii_def isspace_def ci_lit_def ci_alpha_def is_digit_def example_libs_def)

lemma example_abbrev_clean:
  "clean_html_text example_libs (ascii ''Available online 10 Oct 2025'')
   = ascii ''Available online 10 Oct 2025''"
  by (simp add: clean_html_text_def example_libs_def ascii_def strip_def isspace_def)

lemma example_abbrev_search:
  "search (AVAILABLE_ONLINE_RE example_libs) (ascii ''Available online 10 Oct 2025'')
   = Some (ascii ''10 Oct 2025'')"
  by (simp add: AVAILABLE_ONLINE_RE_def match_date_group_def span1_def span_1_2_def
      span_4_def ascii_def isspace_def ci_lit_def ci_alpha_def is_digit_def example_libs_def)

lemma example_abbrev_split:
  "split_ws (ascii ''10 Oct 2025'') = [ascii ''10'', ascii ''Oct'', ascii ''2025'']"
  by (simp add: split_ws.simps ascii_def isspace_def)

lemma example_abbrev_month: "map_of MONTHS (lib_lower example_libs (ascii ''Oct'')) = None"
  by (simp add: MONTHS_def example_libs_def ascii_lower_def ascii_def)

lemma example_abbrev_strict:
  "parse_date_strict example_libs (Some (ascii ''10 Oct 2025''))
     = Some (Datetime (mk_datetime 2025 10 10 0 0 0 (Some UTC)))"
  by (simp add: parse_date_strict_def example_libs_def example_dates_def ascii_def
      mk_datetime_def)

text \<open>
  Claim C5, as the code has it. In \<open>get_entry_pub_date\<close>, take an entry with no tuple and
  no parseable \<open>published\<close> or \<open>updated\<close> string (each missing, empty, or raising in the
  parser) whose summary, once sanitized by \<open>clean_html_text\<close>, holds the phrase
  "Available online 10 October 2025" at the first place where the pattern matches. It
  resolves to 2025-10-10 00:00:00 UTC. For every first match of three tokens, the day, the
  month name looked up in \<open>MONTHS\<close> and the year give a UTC datetime at midnight. When the
  date text is not three tokens, the month name is not in the table, or the conversion or
  the constructor raises, the result is what the free-text parser makes of that text.
\<close>

theorem available_online_utc_midnight:
  "(ascii_digits_ok L \<and> lib_lower L (ascii ''October'') = ascii ''october'' \<and>
    e_published_parsed e = None \<and> e_updated_parsed e = None \<and>
    parse_date_strict L (e_published e) = None \<and> parse_date_strict L (e_updated e) = None \<and>
    e_summary e = Some s \<and> clean_html_text L s = pre @ example_phrase @ post \<and>
    (\<forall>i<length pre. AVAILABLE_ONLINE_RE L (drop i pre @ example_phrase @ post) = None) \<longrightarrow>
      get_entry_pub_date L e
        = Inr (Some (Datetime (mk_datetime 2025 10 10 0 0 0 (Some UTC))))) \<and>
   (d \<noteq> [] \<and> search (AVAILABLE_ONLINE_RE L) (clean_html_text L d) = Some g \<and>
    split_ws g = [ds, ms, ys] \<and> parse_day_month_year L ds ms ys = Inr (Some dt) \<longrightarrow>
      parse_available_online_date L d = Some (Datetime dt) \<and> tzinfo dt = Some UTC \<and>
      hour dt = 0 \<and> minute dt = 0 \<and> second dt = 0 \<and> microsecond dt = 0 \<and>
      py_int L ds = Inr (day dt) \<and> map_of MONTHS (lib_lower L ms) = Some (month dt) \<and>
      py_int L ys = Inr (year dt)) \<and>
   (d \<noteq> [] \<and> search (AVAILABLE_ONLINE_RE L) (clean_html_text L d) = Some g \<and>
    (length (split_ws g) \<noteq> 3 \<or>
     (\<exists>ds ms ys. split_ws g = [ds, ms, ys] \<and>
        (map_of MONTHS (lib_lower L ms) = None \<or>
         (\<exists>err. parse_day_month_year L ds ms ys = Inl err)))) \<longrightarrow>
      parse_available_online_date L d = parse_date_strict L (Some g))"
proof -
  have a: "ascii_digits_ok L \<and> lib_lower L (ascii ''October'') = ascii ''october'' \<and>
    e_published_parsed e = None \<and> e_updated_parsed e = None \<and>
    parse_date_strict L (e_published e) = None \<and> parse_date_strict L (e_updated e) = None \<and>
    e_summary e = Some s \<and> clean_html_text L s = pre @ example_phrase @ post \<and>
    (\<forall>i<length pre. AVAILABLE_ONLINE_RE L (drop i pre @ example_phrase @ post) = None) \<longrightarrow>
      get_entry_pub_date L e
        = Inr (Some (Datetime (mk_datetime 2025 10 10 0 0 0 (Some UTC))))"
  proof
    assume h: "ascii_digits_ok L \<and> lib_lower L (ascii ''October'') = ascii ''october'' \<and>
      e_published_parsed e = None \<and> e_updated_parsed e = None \<and>
      parse_date_strict L (e_published e) = None \<and> parse_date_strict L (e_updated e) = None \<and>
      e_summary e = Some s \<and> clean_html_text L s = pre @ example_phrase @ post \<and>
      (\<forall>i<length pre. AVAILABLE_ONLINE_RE L (drop i pre @ example_phrase @ post) = None)"
    then have "parse_available_online_date L s
        = Some (Datetime (mk_datetime 2025 10 10 0 0 0 (Some UTC)))"
      using available_online_first_match [of L s pre post] by blast
    with h show "get_entry_pub_date L e
        = Inr (Some (Datetime (mk_datetime 2025 10 10 0 0 0 (Some UTC))))"
      by (simp add: get_entry_pub_date_def)
  qed
  have b: "d \<noteq> [] \<and> search (AVAILABLE_ONLINE_RE L) (clean_html_text L d) = Some g \<and>
    split_ws g = [ds, ms, ys] \<and> parse_day_month_year L ds ms ys = Inr (Some dt) \<longrightarrow>
      parse_available_online_date L d = Some (Datetime dt) \<and> tzinfo dt = Some UTC \<and>
      hour dt = 0 \<and> minute dt = 0 \<and> second dt = 0 \<and> microsecond dt = 0 \<and>
      py_int L ds = Inr (day dt) \<and> map_of MONTHS (lib_lower L ms) = Some (month dt) \<and>
      py_int L ys = Inr (year dt)"
  proof
    assume h: "d \<noteq> [] \<and> search (AVAILABLE_ONLINE_RE L) (clean_html_text L d) = Some g \<and>
      split_ws g = [ds, ms, ys] \<and> parse_day_month_year L ds ms ys = Inr (Some dt)"
    then have p: "parse_available_online_date L d = Some (Datetime dt)"
      by (simp add: parse_available_online_date_def)
    from h have "parse_day_month_year L ds ms ys = Inr (Some dt)" by blast
    from parse_day_month_year_fields [OF this] p
    show "parse_available_online_date L d = Some (Datetime dt) \<and> tzinfo dt = Some UTC \<and>
      hour dt = 0 \<and> minute dt = 0 \<and> second dt = 0 \<and> microsecond dt = 0 \<and>
      py_int L ds = Inr (day dt) \<and> map_of MONTHS (lib_lower L ms) = Some (month dt) \<and>
      py_int L ys = Inr (year dt)" by blast
  qed
  have c: "d \<noteq> [] \<and> search (AVAILABLE_ONLINE_RE L) (clean_html_text L d) = Some g \<and>
    (length (split_ws g) \<noteq> 3 \<or>
     (\<exists>ds ms ys. split_ws g = [ds, ms, ys] \<and>
        (map_of MONTHS (lib_lower L ms) = None \<or>
         (\<exists>err. parse_day_month_year L ds ms ys = Inl err)))) \<longrightarrow>
      parse_available_online_date L d = parse_date_strict L (Some g)"
    using available_online_fallback [of d L g] by blast
  from a b c show ?thesis by blast
qed

theorem available_online_utc_midnight_witness:
  "e_summary example_entry_record
     = Some (ascii ''<p>Publication date: '' @ example_phrase @ ascii ''</p><p>Source: X</p>'') \<and>
   clean_html_text example_libs
     (ascii ''<p>Publication date: '' @ example_phrase @ ascii ''</p><p>Source: X</p>'')
     = ascii ''Publication date: '' @ example_phrase @ ascii ''Source: X'' \<and>
   get_entry_pub_date example_libs example_entry_record
     = Inr (Some (Datetime (mk_datetime 2025 10 10 0 0 0 (Some UTC)))) \<and>
   parse_available_online_date example_libs
     (ascii ''<p>Publication date: AVAILABLE  online 10 October 2025</p><p>Source: X</p>'')
     = Some (Datetime (mk_datetime 2025 10 10 0 0 0 (Some UTC))) \<and>
   map_of MONTHS (lib_lower example_libs (ascii ''Oct'')) = None \<and>
   parse_available_online_date example_libs (ascii ''Available online 10 Oct 2025'')
     = parse_date_strict example_libs (Some (ascii ''10 Oct 2025'')) \<and>
   parse_date_strict example_libs (Some (ascii ''10 Oct 2025''))
     = Some (Datetime (mk_datetime 2025 10 10 0 0 0 (Some UTC)))"
proof -
  from available_online_utc_midnight [where L = example_libs and e = example_entry_record
      and s = "ascii ''<p>Publication date: '' @ example_phrase @ ascii ''</p><p>Source: X</p>''"
      and pre = "ascii ''Publication date: ''" and post = "ascii ''Source: X''"]
    example_libs_digits example_libs_october example_record_summary example_record_clean
    example_record_before
  have r1: "get_entry_pub_date example_libs example_entry_record
     = Inr (Some (Datetime (mk_datetime 2025 10 10 0 0 0 (Some UTC))))" by blast
  have ne: "ascii ''<p>Publication date: AVAILABLE  online 10 October 2025</p><p>Source: X</p>'' \<noteq> []"
    "ascii ''Available online 10 Oct 2025'' \<noteq> []"
    by (simp_all add: ascii_def)
  from available_online_utc_midnight [where L = example_libs
      and d = "ascii ''<p>Publication date: AVAILABLE  online 10 October 2025</p><p>Source: X</p>''"
      and g = "ascii ''10 October 2025''" and ds = "ascii ''10''" and ms = "ascii ''October''"
      and ys = "ascii ''2025''" and dt = "mk_datetime 2025 10 10 0 0 0 (Some UTC)"]
    ne example_html_clean example_html_search split_date
    parse_10_october [OF example_libs_digits example_libs_october]
  have r2: "parse_available_online_date example_libs
     (ascii ''<p>Publication date: AVAILABLE  online 10 October 2025</p><p>Source: X</p>'')
     = Some (Datetime (mk_datetime 2025 10 10 0 0 0 (Some UTC)))" by simp
  have f: "\<exists>ds ms ys. split_ws (ascii ''10 Oct 2025'') = [ds, ms, ys] \<and>
        (map_of MONTHS (lib_lower example_libs ms) = None \<or>
         (\<exists>err. parse_day_month_year example_libs ds ms ys = Inl err))"
    using example_abbrev_split example_abbrev_month by blast
  from available_online_utc_midnight [where L = example_libs
      and d = "ascii ''Available online 10 Oct 2025''" and g = "ascii ''10 Oct 2025''"]
    ne example_abbrev_clean example_abbrev_search f
  have r3: "parse_available_online_date example_libs (ascii ''Available online 10 Oct 2025'')
     = parse_date_strict example_libs (Some (ascii ''10 Oct 2025''))" by simp
  from r1 r2 r3 example_record_summary(1) example_record_clean example_abbrev_month
    example_abbrev_strict show ?thesis by blast
qed

lemma contains_middle: "contains k (a @ k @ b)"
proof (induction a)
  case Nil
  have p: "prefix k (k @ b)" by simp
  show ?case
  proof (cases "k @ b")
    case Nil
    then show ?thesis by simp
  next
    case (Cons c cs)
    with p have "prefix k (c # cs)" by simp
    with Cons show ?thesis by simp
  qed
next
  case (Cons c a)
  then show ?case by simp
qed

lemma example_two_phrases_clean:
  "clean_html_text example_libs
     (ascii ''Available online 1 January 2020. '' @ example_phrase)
   = ascii ''Available online 1 January 2020. Available online 10 October 2025''"
  by (simp add: clean_html_text_def example_libs_def example_phrase_def ascii_def strip_def
      isspace_def)

lemma example_two_phrases_search:
  "search (AVAILABLE_ONLINE_RE example_libs)
     (ascii ''Available online 1 January 2020. Available online 10 October 2025'')
   = Some (ascii ''1 January 2020'')"
  by (simp add: AVAILABLE_ONLINE_RE_def match_date_group_def span1_def span_1_2_def
      span_4_def ascii_def isspace_def ci_lit_def ci_alpha_def is_digit_def example_libs_def)

lemma example_two_phrases_split:
  "split_ws (ascii ''1 January 2020'') = [ascii ''1'', ascii ''January'', ascii ''2020'']"
  by (simp add: split_ws.simps ascii_def isspace_def)

lemma example_two_phrases_parse:
  "parse_day_month_year example_libs (ascii ''1'') (ascii ''January'') (ascii ''2020'')
     = Inr (Some (mk_datetime 2020 1 1 0 0 0 (Some UTC)))"
proof -
  have d: "py_int example_libs (ascii ''1'') = Inr 1"
    "py_int example_libs (ascii ''2020'') = Inr 2020"
    by (simp_all add: py_int_def is_digit_def ascii_def
        digit_value_ascii [OF example_libs_digits])
  have m: "map_of MONTHS (lib_lower example_libs (ascii ''January'')) = Some 1"
    by (simp add: MONTHS_def example_libs_def ascii_lower_def ascii_def)
  have n: "new_datetime 2020 1 1 0 0 0 (Some UTC) = Inr (mk_datetime 2020 1 1 0 0 0 (Some UTC))"
    by (simp add: new_datetime_def days_in_month_def DAYS_IN_MONTH_def mk_datetime_def)
  show ?thesis by (simp add: parse_day_month_year_def d m n)
qed

lemma example_comment_clean:
  "clean_html_text example_libs (ascii ''<!-- '' @ example_phrase @ ascii '' -->In press'')
   = ascii ''In press''"
  by (simp add: clean_html_text_def example_libs_def example_phrase_def ascii_def strip_def
      isspace_def)

lemma example_comment_search:
  "search (AVAILABLE_ONLINE_RE example_libs) (ascii ''In press'') = None"
  by (simp add: AVAILABLE_ONLINE_RE_def ascii_def ci_lit_def)

text \<open>
  The claim as stated fails on summaries that contain the phrase
  "Available online 10 October 2025" where the resolver does not read it: after an earlier
  match of the pattern, whose date is the one returned, and inside a tag or comment, which
  \<open>clean_html_text\<close> removes before the search.
\<close>

theorem available_online_contains_counterexample:
  "chosen_tuple example_entry_two_phrases = None \<and>
   e_published example_entry_two_phrases = None \<and>
   e_updated example_entry_two_phrases = None \<and>
   contains (ascii ''Available online 10 October 2025'')
     (the (e_summary example_entry_two_phrases)) \<and>
   get_entry_pub_date example_libs example_entry_two_phrases
     = Inr (Some (Datetime (mk_datetime 2020 1 1 0 0 0 (Some UTC)))) \<and>
   chosen_tuple example_entry_comment = None \<and>
   e_published example_entry_comment = None \<and>
   e_updated example_entry_comment = None \<and>
   contains (ascii ''Available online 10 October 2025'')
     (the (e_summary example_entry_comment)) \<and>
   get_entry_pub_date example_libs example_entry_comment = Inr None"
proof -
  have t: "chosen_tuple example_entry_two_phrases = None"
    "e_published example_entry_two_phrases = None"
    "e_updated example_entry_two_phrases = None"
    "e_summary example_entry_two_phrases
       = Some (ascii ''Available online 1 January 2020. '' @ example_phrase)"
    by (simp_all add: chosen_tuple_def example_entry_two_phrases_def empty_entry_def)
  have c: "chosen_tuple example_entry_comment = None"
    "e_published example_entry_comment = None"
    "e_updated example_entry_comment = None"
    "e_summary example_entry_comment
       = Some (ascii ''<!-- '' @ example_phrase @ ascii '' -->In press'')"
    by (simp_all add: chosen_tuple_def example_entry_comment_def empty_entry_def)
  have k1: "contains (ascii ''Available online 10 October 2025'')
     (the (e_summary example_entry_two_phrases))"
    using contains_middle [of example_phrase "ascii ''Available online 1 January 2020. ''" "[]"]
    by (simp add: t(4) example_phrase_def)
  have k2: "contains (ascii ''Available online 10 October 2025'')
     (the (e_summary example_entry_comment))"
    using contains_middle [of example_phrase "ascii ''<!-- ''" "ascii '' -->In press''"]
    by (simp add: c(4) example_phrase_def)
  have ne: "ascii ''Available online 1 January 2020. '' \<noteq> []" "ascii ''<!-- '' \<noteq> []"
    by (simp_all add: ascii_def)
  have p1: "parse_available_online_date example_libs
      (ascii ''Available online 1 January 2020. '' @ example_phrase)
      = Some (Datetime (mk_datetime 2020 1 1 0 0 0 (Some UTC)))"
    by (simp add: parse_available_online_date_def ne(1) example_two_phrases_clean
        example_two_phrases_search example_two_phrases_split example_two_phrases_parse)
  have p2: "parse_available_online_date example_libs
      (ascii ''<!-- '' @ example_phrase @ ascii '' -->In press'') = None"
    by (simp add: parse_available_online_date_def ne(2) example_comment_clean
        example_comment_search)
  have r1: "get_entry_pub_date example_libs example_entry_two_phrases
     = Inr (Some (Datetime (mk_datetime 2020 1 1 0 0 0 (Some UTC))))"
    by (simp add: get_entry_pub_date_no_tuple [OF t(1)] t parse_date_strict_missing p1)
  have r2: "get_entry_pub_date example_libs example_entry_comment = Inr None"
    by (simp add: get_entry_pub_date_no_tuple [OF c(1)] c parse_date_strict_missing p2)
  from t(1,2,3) k1 r1 c(1,2,3) k2 r2 show ?thesis by blast
qed

section \<open>get_entry_title: the choice between the feed title and the alt text\<close>

lemma max_by_len_mem: "max_by_len b xs \<in> set (b # xs)"
  by (induction xs arbitrary: b) auto

lemma max_by_len_ge_acc: "length b \<le> length (max_by_len b xs)"
proof (induction xs arbitrary: b)
  case Nil
  then show ?case by simp
next
  case (Cons x xs)
  have "length b \<le> length (if length b < length x then x else b)" by simp
  also have "\<dots> \<le> length (max_by_len (if length b < length x then x else b) xs)"
    by (rule Cons.IH)
  finally show ?case by simp
qed

lemma max_by_len_ge: "a \<in> set (b # xs) \<Longrightarrow> length a \<le> length (max_by_len b xs)"
proof (induction xs arbitrary: b)
  case Nil
  then show ?case by simp
next
  case (Cons x xs)
  let ?b = "if length b < length x then x else b"
  from Cons.prems have "a = b \<or> a = x \<or> a \<in> set xs" by auto
  then show ?case
  proof (elim disjE)
    assume "a = b"
    then have "length a \<le> length ?b" by simp
    also have "\<dots> \<le> length (max_by_len ?b xs)" by (rule max_by_len_ge_acc)
    finally show ?thesis by simp
  next
    assume "a = x"
    then have "length a \<le> length ?b" by simp
    also have "\<dots> \<le> length (max_by_len ?b xs)" by (rule max_by_len_ge_acc)
    finally show ?thesis by simp
  next
    assume "a \<in> set xs"
    then have "a \<in> set (?b # xs)" by simp
    from Cons.IH [OF this] show ?thesis by simp
  qed
qed

lemma longest_mem: "alts \<noteq> [] \<Longrightarrow> longest alts \<in> set alts"
  using max_by_len_mem by (cases alts) (auto simp: longest_def)

lemma longest_ge: "a \<in> set alts \<Longrightarrow> length a \<le> length (longest alts)"
  using max_by_len_ge by (cases alts) (auto simp: longest_def)

text \<open>The first of the longest: every candidate before it is strictly shorter.\<close>

lemma max_by_len_first:
  "\<exists>pre post. b # xs = pre @ max_by_len b xs # post
     \<and> (\<forall>a \<in> set pre. length a < length (max_by_len b xs))"
proof (induction xs arbitrary: b)
  case Nil
  have "[b] = [] @ b # []" by simp
  then show ?case by force
next
  case (Cons x xs)
  show ?case
  proof (cases "length b < length x")
    case True
    then have m: "max_by_len b (x # xs) = max_by_len x xs" by simp
    from Cons.IH [of x] obtain pre post where
      p: "x # xs = pre @ max_by_len x xs # post"
      "\<forall>a \<in> set pre. length a < length (max_by_len x xs)" by blast
    have lb: "length b < length (max_by_len x xs)"
      using True max_by_len_ge_acc [of x xs] by simp
    have "b # x # xs = (b # pre) @ max_by_len x xs # post"
      using p(1) by (metis append_Cons)
    moreover have "\<forall>a \<in> set (b # pre). length a < length (max_by_len x xs)"
      using p(2) lb by simp
    ultimately show ?thesis unfolding m by blast
  next
    case False
    then have m: "max_by_len b (x # xs) = max_by_len b xs" by simp
    from Cons.IH [of b] obtain pre post where
      p: "b # xs = pre @ max_by_len b xs # post"
      "\<forall>a \<in> set pre. length a < length (max_by_len b xs)" by blast
    show ?thesis
    proof (cases pre)
      case Nil
      with p(1) have "b = max_by_len b xs" by (metis append_Nil list.inject)
      then have "b # x # xs = [] @ max_by_len b xs # x # xs" by simp
      then show ?thesis unfolding m by force
    next
      case (Cons c pre')
      have "b # xs = (c # pre') @ max_by_len b xs # post"
        using p(1) unfolding Cons .
      then have c: "c = b" and xs: "xs = pre' @ max_by_len b xs # post"
        by (metis append_Cons list.inject)+
      from p(2) Cons c have lb: "length b < length (max_by_len b xs)" by simp
      from False have "length x \<le> length b" by simp
      with lb have lx: "length x < length (max_by_len b xs)" by simp
      have e: "b # x # xs = (b # x # pre') @ max_by_len b xs # post"
        using xs by (metis append_Cons)
      have "\<forall>a \<in> set (b # x # pre'). length a < length (max_by_len b xs)"
        using p(2) Cons lx lb by simp
      with e show ?thesis unfolding m by blast
    qed
  qed
qed

lemma looks_generic_empty: "lib_lower L [] = [] \<Longrightarrow> looks_generic L []"
  by (simp add: looks_generic_def strip_def)

lemma example_img_ne: "example_img \<noteq> []" "example_img_short \<noteq> []"
  by (simp_all add: example_img_def example_img_short_def ascii_def)

lemma example_img_distinct: "example_img_short \<noteq> example_img"
  by (simp add: example_img_def example_img_short_def ascii_def)

lemma example_alt_lookup:
  "lib_alt_img_search example_libs example_img
     = Some (ascii ''Novel catalyst enables low-temperature CO2 reduction'')"
  "lib_alt_img_search example_libs example_img_short = Some (ascii ''Shorter!'')"
  using example_img_distinct by (simp_all add: example_libs_def example_alts_def)

lemma example_clean_texts:
  "clean_html_text example_libs (ascii ''Novel catalyst enables low-temperature CO2 reduction'')
     = ascii ''Novel catalyst enables low-temperature CO2 reduction''"
  "clean_html_text example_libs (ascii ''Shorter!'') = ascii ''Shorter!''"
  "clean_html_text example_libs (ascii ''Graphical Abstract'') = ascii ''Graphical Abstract''"
  "clean_html_text example_libs (ascii ''Short'') = ascii ''Short''"
  by (simp_all add: clean_html_text_def example_libs_def ascii_def strip_def isspace_def)

lemma example_fix_texts:
  "fix_mojibake (ascii ''Novel catalyst enables low-temperature CO2 reduction'')
     = ascii ''Novel catalyst enables low-temperature CO2 reduction''"
  "fix_mojibake (ascii ''Shorter!'') = ascii ''Shorter!''"
  "fix_mojibake (ascii ''Graphical Abstract'') = ascii ''Graphical Abstract''"
  "fix_mojibake (ascii ''Short'') = ascii ''Short''"
  by (simp_all add: fix_mojibake_def repl_def ascii_def)

lemma example_titles:
  "title_from_feed example_libs example_entry_generic = ascii ''Graphical Abstract''"
  "title_from_feed example_libs example_entry_short = ascii ''Short''"
  by (simp_all add: title_from_feed_def example_entry_generic_def example_entry_short_def
      empty_entry_def example_clean_texts example_fix_texts)

lemma example_alt_candidates:
  "alt_candidates example_libs example_entry_generic
     = [ascii ''Novel catalyst enables low-temperature CO2 reduction'']"
  "alt_candidates example_libs example_entry_short = [ascii ''Shorter!'']"
proof -
  have n: "ascii ''Novel catalyst enables low-temperature CO2 reduction'' \<noteq> []"
    "ascii ''Shorter!'' \<noteq> []" by (simp_all add: ascii_def)
  show "alt_candidates example_libs example_entry_generic
     = [ascii ''Novel catalyst enables low-temperature CO2 reduction'']"
    by (simp add: alt_candidates_def html_blobs_def example_entry_generic_def empty_entry_def
        example_img_ne List.map_filter_simps extract_alt_from_html_def example_alt_lookup
        example_clean_texts example_fix_texts n)
  show "alt_candidates example_libs example_entry_short = [ascii ''Shorter!'']"
    by (simp add: alt_candidates_def html_blobs_def example_entry_short_def empty_entry_def
        example_img_ne List.map_filter_simps extract_alt_from_html_def example_alt_lookup
        example_clean_texts example_fix_texts n)
qed

lemma example_generic:
  "looks_generic example_libs (ascii ''Graphical Abstract'')"
  "\<not> looks_generic example_libs (ascii ''Short'')"
  by (simp_all add: looks_generic_def example_libs_def ascii_lower_def ascii_def strip_def
      isspace_def GENERIC_TITLES_def)

lemma example_two_alts_lookup:
  "lib_alt_img_search example_libs example_img_generic = Some (ascii ''Graphical Abstract'')"
  "lib_alt_img_search example_libs example_img_real = Some (ascii ''A real title!!!'')"
  by (simp_all add: example_libs_def example_alts_def example_img_def example_img_short_def
      example_img_generic_def example_img_real_def ascii_def)

lemma example_two_alts_texts:
  "clean_html_text example_libs (ascii ''A real title!!!'') = ascii ''A real title!!!''"
  "fix_mojibake (ascii ''A real title!!!'') = ascii ''A real title!!!''"
  "\<not> looks_generic example_libs (ascii ''A real title!!!'')"
  by (simp_all add: clean_html_text_def fix_mojibake_def repl_def looks_generic_def
      example_libs_def ascii_lower_def ascii_def strip_def isspace_def GENERIC_TITLES_def)

lemma example_two_alts:
  "title_from_feed example_libs example_entry_two_alts = ascii ''Short''"
  "alt_candidates example_libs example_entry_two_alts
     = [ascii ''Graphical Abstract'', ascii ''A real title!!!'']"
  "longest [ascii ''Graphical Abstract'', ascii ''A real title!!!''] = ascii ''Graphical Abstract''"
proof -
  have n: "ascii ''Graphical Abstract'' \<noteq> []" "ascii ''A real title!!!'' \<noteq> []"
    "example_img_generic \<noteq> []" "example_img_real \<noteq> []"
    by (simp_all add: ascii_def example_img_generic_def example_img_real_def)
  show "title_from_feed example_libs example_entry_two_alts = ascii ''Short''"
    by (simp add: title_from_feed_def example_entry_two_alts_def empty_entry_def
        example_clean_texts example_fix_texts)
  show "alt_candidates example_libs example_entry_two_alts
     = [ascii ''Graphical Abstract'', ascii ''A real title!!!'']"
    by (simp add: alt_candidates_def html_blobs_def example_entry_two_alts_def empty_entry_def
        n List.map_filter_simps extract_alt_from_html_def example_two_alts_lookup
        example_clean_texts example_fix_texts example_two_alts_texts)
  show "longest [ascii ''Graphical Abstract'', ascii ''A real title!!!'']
      = ascii ''Graphical Abstract''"
    by (simp add: longest_def ascii_def)
qed

text \<open>
  Claim C4, as the code has it. \<open>get_entry_title\<close> on the sanitized feed title and the alt
  candidates. A title is generic when, trimmed and in lower case, it is empty, shorter than
  5 characters or one of \<open>GENERIC_TITLES\<close>. A generic title with a candidate at hand gives
  the longest candidate (the first of the longest). A title that is not generic is
  replaced exactly when the longest candidate is not generic and at least 10 characters
  longer, and then by that candidate; no other candidate is tried. Otherwise the result is
  the feed title, or the first candidate when the title is empty, or the empty string.
\<close>

theorem get_entry_title_decision:
  "(looks_generic L s \<longleftrightarrow>
      lib_lower L (strip s) = [] \<or> length (lib_lower L (strip s)) < 5 \<or>
      lib_lower L (strip s) \<in> set GENERIC_TITLES) \<and>
   (looks_generic L (title_from_feed L e) \<and> alt_candidates L e \<noteq> [] \<longrightarrow>
      get_entry_title L e = longest (alt_candidates L e) \<and>
      get_entry_title L e \<in> set (alt_candidates L e) \<and>
      (\<forall>a \<in> set (alt_candidates L e). length a \<le> length (get_entry_title L e))) \<and>
   (lib_lower L [] = [] \<and> \<not> looks_generic L (title_from_feed L e) \<and>
    get_entry_title L e \<noteq> title_from_feed L e \<longrightarrow>
      get_entry_title L e = longest (alt_candidates L e) \<and>
      get_entry_title L e \<in> set (alt_candidates L e) \<and>
      \<not> looks_generic L (get_entry_title L e) \<and>
      length (title_from_feed L e) + 10 \<le> length (get_entry_title L e)) \<and>
   (lib_lower L [] = [] \<and> \<not> looks_generic L (title_from_feed L e) \<and>
    alt_candidates L e \<noteq> [] \<and> \<not> looks_generic L (longest (alt_candidates L e)) \<and>
    length (title_from_feed L e) + 10 \<le> length (longest (alt_candidates L e)) \<longrightarrow>
      get_entry_title L e = longest (alt_candidates L e)) \<and>
   (lib_lower L [] = [] \<and> \<not> looks_generic L (title_from_feed L e) \<and>
    (alt_candidates L e = [] \<or> looks_generic L (longest (alt_candidates L e)) \<or>
     length (longest (alt_candidates L e)) < length (title_from_feed L e) + 10) \<longrightarrow>
      get_entry_title L e = title_from_feed L e) \<and>
   (\<not> (looks_generic L (title_from_feed L e) \<and> alt_candidates L e \<noteq> []) \<and>
    \<not> (title_from_feed L e \<noteq> [] \<and> alt_candidates L e \<noteq> [] \<and>
       length (title_from_feed L e) + 10 \<le> length (longest (alt_candidates L e)) \<and>
       \<not> looks_generic L (longest (alt_candidates L e))) \<longrightarrow>
      get_entry_title L e
        = (if title_from_feed L e \<noteq> [] then title_from_feed L e
           else if alt_candidates L e \<noteq> [] then hd (alt_candidates L e) else []))"
proof -
  let ?t = "title_from_feed L e" and ?as = "alt_candidates L e"
  have g: "looks_generic L s \<longleftrightarrow>
      lib_lower L (strip s) = [] \<or> length (lib_lower L (strip s)) < 5 \<or>
      lib_lower L (strip s) \<in> set GENERIC_TITLES"
    by (auto simp: looks_generic_def Let_def)
  have a: "looks_generic L ?t \<and> ?as \<noteq> [] \<longrightarrow>
      get_entry_title L e = longest ?as \<and> get_entry_title L e \<in> set ?as \<and>
      (\<forall>a \<in> set ?as. length a \<le> length (get_entry_title L e))"
    using longest_mem [of ?as] longest_ge [of _ ?as]
    by (simp add: get_entry_title_def Let_def)
  have b: "lib_lower L [] = [] \<and> \<not> looks_generic L ?t \<and> get_entry_title L e \<noteq> ?t \<longrightarrow>
      get_entry_title L e = longest ?as \<and> get_entry_title L e \<in> set ?as \<and>
      \<not> looks_generic L (get_entry_title L e) \<and> length ?t + 10 \<le> length (get_entry_title L e)"
  proof
    assume h: "lib_lower L [] = [] \<and> \<not> looks_generic L ?t \<and> get_entry_title L e \<noteq> ?t"
    then have ne: "?t \<noteq> []" using looks_generic_empty [of L] by auto
    from h ne have c: "?as \<noteq> [] \<and> length ?t + 10 \<le> length (longest ?as)
        \<and> \<not> looks_generic L (longest ?as)" and r: "get_entry_title L e = longest ?as"
      by (auto simp: get_entry_title_def Let_def split: if_splits)
    with longest_mem [of ?as] show "get_entry_title L e = longest ?as \<and>
      get_entry_title L e \<in> set ?as \<and> \<not> looks_generic L (get_entry_title L e) \<and>
      length ?t + 10 \<le> length (get_entry_title L e)" by simp
  qed
  have c: "lib_lower L [] = [] \<and> \<not> looks_generic L ?t \<and> ?as \<noteq> [] \<and>
    \<not> looks_generic L (longest ?as) \<and> length ?t + 10 \<le> length (longest ?as) \<longrightarrow>
      get_entry_title L e = longest ?as"
  proof
    assume h: "lib_lower L [] = [] \<and> \<not> looks_generic L ?t \<and> ?as \<noteq> [] \<and>
      \<not> looks_generic L (longest ?as) \<and> length ?t + 10 \<le> length (longest ?as)"
    then have ne: "?t \<noteq> []" using looks_generic_empty [of L] by auto
    with h show "get_entry_title L e = longest ?as"
      by (simp add: get_entry_title_def Let_def)
  qed
  have k: "lib_lower L [] = [] \<and> \<not> looks_generic L ?t \<and>
    (?as = [] \<or> looks_generic L (longest ?as) \<or> length (longest ?as) < length ?t + 10) \<longrightarrow>
      get_entry_title L e = ?t"
  proof
    assume h: "lib_lower L [] = [] \<and> \<not> looks_generic L ?t \<and>
      (?as = [] \<or> looks_generic L (longest ?as) \<or> length (longest ?as) < length ?t + 10)"
    then have ne: "?t \<noteq> []" using looks_generic_empty [of L] by auto
    with h show "get_entry_title L e = ?t"
      by (auto simp: get_entry_title_def Let_def)
  qed
  have d: "\<not> (looks_generic L ?t \<and> ?as \<noteq> []) \<and>
    \<not> (?t \<noteq> [] \<and> ?as \<noteq> [] \<and> length ?t + 10 \<le> length (longest ?as) \<and>
       \<not> looks_generic L (longest ?as)) \<longrightarrow>
      get_entry_title L e
        = (if ?t \<noteq> [] then ?t else if ?as \<noteq> [] then hd ?as else [])"
    by (auto simp: get_entry_title_def Let_def)
  from g a b c k d show ?thesis by blast
qed

theorem get_entry_title_decision_witness:
  "looks_generic example_libs (title_from_feed example_libs example_entry_generic) \<and>
   alt_candidates example_libs example_entry_generic
     = [ascii ''Novel catalyst enables low-temperature CO2 reduction''] \<and>
   get_entry_title example_libs example_entry_generic
     = ascii ''Novel catalyst enables low-temperature CO2 reduction'' \<and>
   title_from_feed example_libs example_entry_short = ascii ''Short'' \<and>
   \<not> looks_generic example_libs (title_from_feed example_libs example_entry_short) \<and>
   alt_candidates example_libs example_entry_short = [ascii ''Shorter!''] \<and>
   length (ascii ''Shorter!'') = length (ascii ''Short'') + 3 \<and>
   get_entry_title example_libs example_entry_short = ascii ''Short'' \<and>
   title_from_feed example_libs example_entry_two_alts = ascii ''Short'' \<and>
   longest (alt_candidates example_libs example_entry_two_alts) = ascii ''Graphical Abstract'' \<and>
   looks_generic example_libs (ascii ''Graphical Abstract'') \<and>
   get_entry_title example_libs example_entry_two_alts = ascii ''Short'' \<and>
   get_entry_title example_libs empty_entry = []"
proof -
  note g = get_entry_title_decision [where L = example_libs and e = example_entry_generic]
  note w = get_entry_title_decision [where L = example_libs and e = example_entry_two_alts]
  have lw: "lib_lower example_libs [] = []" by (simp add: example_libs_def ascii_lower_def)
  have r4: "get_entry_title example_libs example_entry_two_alts = ascii ''Short''"
    using w lw example_two_alts example_generic by simp
  note s = get_entry_title_decision [where L = example_libs and e = example_entry_short]
  note n = get_entry_title_decision [where L = example_libs and e = empty_entry]
  have lg: "longest [ascii ''Novel catalyst enables low-temperature CO2 reduction'']
      = ascii ''Novel catalyst enables low-temperature CO2 reduction''"
    "longest [ascii ''Shorter!''] = ascii ''Shorter!''"
    by (simp_all add: longest_def)
  have len: "length (ascii ''Shorter!'') = length (ascii ''Short'') + 3"
    by (simp add: ascii_def)
  have r1: "get_entry_title example_libs example_entry_generic
     = ascii ''Novel catalyst enables low-temperature CO2 reduction''"
    using g example_titles(1) example_alt_candidates(1) example_generic(1) lg(1) by simp
  have ns: "ascii ''Short'' \<noteq> []" by (simp add: ascii_def)
  have r2: "get_entry_title example_libs example_entry_short = ascii ''Short''"
    using s example_titles(2) example_alt_candidates(2) example_generic(2) lg(2) len ns
    by simp
  have e: "title_from_feed example_libs empty_entry = []"
    "alt_candidates example_libs empty_entry = []"
    by (simp_all add: title_from_feed_def alt_candidates_def html_blobs_def empty_entry_def
        clean_html_text_def fix_mojibake_def List.map_filter_simps)
  have r3: "get_entry_title example_libs empty_entry = []"
    using n e by simp
  from r1 r2 r3 r4 example_titles example_alt_candidates example_generic len example_two_alts
  show ?thesis by simp
qed

text \<open>
  The claim lets a title that is not generic give way to a candidate that is not generic
  and at least 10 characters longer. It fails when the longest candidate is a generic one
  and a shorter candidate is not: the feed title "Short" stays although the candidate
  "A real title!!!" is not generic and is 10 characters longer, because only the longest
  candidate, "Graphical Abstract", is tested.
\<close>

theorem get_entry_title_longest_only_counterexample:
  "title_from_feed example_libs example_entry_two_alts = ascii ''Short'' \<and>
   \<not> looks_generic example_libs (ascii ''Short'') \<and>
   alt_candidates example_libs example_entry_two_alts
     = [ascii ''Graphical Abstract'', ascii ''A real title!!!''] \<and>
   \<not> looks_generic example_libs (ascii ''A real title!!!'') \<and>
   length (ascii ''A real title!!!'') = length (ascii ''Short'') + 10 \<and>
   get_entry_title example_libs example_entry_two_alts = ascii ''Short''"
proof -
  have len: "length (ascii ''A real title!!!'') = length (ascii ''Short'') + 10"
    "\<not> length (ascii ''Short'') + 10 \<le> length (ascii ''Graphical Abstract'')
     \<or> looks_generic example_libs (ascii ''Graphical Abstract'')"
    "ascii ''Short'' \<noteq> []"
    using example_generic(1) by (simp_all add: ascii_def)
  have "get_entry_title example_libs example_entry_two_alts = ascii ''Short''"
    using example_generic len(3)
    by (simp add: get_entry_title_def Let_def example_two_alts)
  with len(1) example_two_alts(1,2) example_generic(2) example_two_alts_texts(3)
  show ?thesis by simp
qed

section \<open>Sorting by publication date and dropping duplicate titles\<close>

lemma dedup_walk_keys: "z \<in> set (dedup_walk key seen ys) \<Longrightarrow> key z \<notin> set seen"
proof (induction ys arbitrary: seen)
  case Nil
  then show ?case by simp
next
  case (Cons y ys)
  show ?case
  proof (cases "key y \<in> set seen")
    case True
    with Cons.prems have "z \<in> set (dedup_walk key seen ys)" by simp
    then show ?thesis by (rule Cons.IH)
  next
    case False
    with Cons.prems have "z = y \<or> z \<in> set (dedup_walk key (key y # seen) ys)" by auto
    then show ?thesis
    proof
      assume "z = y"
      with False show ?thesis by simp
    next
      assume "z \<in> set (dedup_walk key (key y # seen) ys)"
      then have "key z \<notin> set (key y # seen)" by (rule Cons.IH)
      then show ?thesis by simp
    qed
  qed
qed

lemma dedup_walk_key_set:
  "key ` set (dedup_walk key seen ys) = key ` set ys - set seen"
  by (induction ys arbitrary: seen) auto

lemma dedup_walk_distinct: "distinct (map key (dedup_walk key seen ys))"
proof (induction ys arbitrary: seen)
  case Nil
  then show ?case by simp
next
  case (Cons y ys)
  show ?case
  proof (cases "key y \<in> set seen")
    case True
    with Cons.IH show ?thesis by simp
  next
    case False
    have "key y \<notin> key ` set (dedup_walk key (key y # seen) ys)"
    proof
      assume "key y \<in> key ` set (dedup_walk key (key y # seen) ys)"
      then obtain z where z: "z \<in> set (dedup_walk key (key y # seen) ys)" "key z = key y"
        by auto
      from dedup_walk_keys [OF z(1)] z(2) show False by simp
    qed
    with False Cons.IH [of "key y # seen"] show ?thesis by simp
  qed
qed

lemma dedup_walk_sorted:
  "sorted (map f ys) \<Longrightarrow> sorted (map f (dedup_walk key seen ys))"
proof (induction ys arbitrary: seen)
  case Nil
  then show ?case by simp
next
  case (Cons y ys)
  from Cons.prems have s: "sorted (map f ys)" and le: "\<forall>x \<in> set ys. f y \<le> f x" by auto
  have "\<forall>x \<in> set (dedup_walk key (key y # seen) ys). f y \<le> f x"
    using le dedup_walk_subset [of key "key y # seen" ys] by blast
  with Cons.IH [OF s] show ?case by auto
qed

lemma dedup_walk_earliest:
  "sorted (map f ys) \<Longrightarrow> z \<in> set (dedup_walk key seen ys) \<Longrightarrow> x \<in> set ys
   \<Longrightarrow> key x = key z \<Longrightarrow> f z \<le> f x"
proof (induction ys arbitrary: seen)
  case Nil
  then show ?case by simp
next
  case (Cons y ys)
  from Cons.prems(1) have s: "sorted (map f ys)" and le: "\<forall>u \<in> set ys. f y \<le> f u" by auto
  show ?case
  proof (cases "key y \<in> set seen")
    case True
    with Cons.prems(2) have z: "z \<in> set (dedup_walk key seen ys)" by simp
    then have "key z \<notin> set seen" by (rule dedup_walk_keys)
    with True Cons.prems(4) have "x \<noteq> y" by auto
    with Cons.prems(3) have "x \<in> set ys" by simp
    from Cons.IH [OF s z this Cons.prems(4)] show ?thesis .
  next
    case False
    with Cons.prems(2) have "z = y \<or> z \<in> set (dedup_walk key (key y # seen) ys)" by auto
    then show ?thesis
    proof
      assume "z = y"
      with le Cons.prems(3) show ?thesis by auto
    next
      assume z: "z \<in> set (dedup_walk key (key y # seen) ys)"
      then have "key z \<notin> set (key y # seen)" by (rule dedup_walk_keys)
      with Cons.prems(4) have "x \<noteq> y" by auto
      with Cons.prems(3) have "x \<in> set ys" by simp
      from Cons.IH [OF s z this Cons.prems(4)] show ?thesis .
    qed
  qed
qed

lemma dedup_walk_append_seen:
  "dedup_walk key (s @ t) xs = dedup_walk key s (filter (\<lambda>x. key x \<notin> set t) xs)"
proof (induction xs arbitrary: s)
  case Nil
  then show ?case by simp
next
  case (Cons x xs)
  show ?case
  proof (cases "key x \<in> set t")
    case True
    with Cons.IH [of s] show ?thesis by simp
  next
    case False
    show ?thesis
    proof (cases "key x \<in> set s")
      case True
      with False Cons.IH [of s] show ?thesis by simp
    next
      case ns: False
      from Cons.IH [of "key x # s"] False ns show ?thesis by simp
    qed
  qed
qed

lemma drop_duplicates_Cons:
  "drop_duplicates key (x # xs) = x # drop_duplicates key (filter (\<lambda>y. key y \<noteq> key x) xs)"
  using dedup_walk_append_seen [of key "[]" "[key x]" xs]
  by (simp add: drop_duplicates_def)

lemma sort_values_post_pair:
  assumes "sort_values_post f xs ys" "xs = [a, b] \<or> xs = [b, a]" "f a < f b"
  shows "ys = [a, b]"
proof -
  from assms(1,2) have m: "mset ys = {#a, b#}"
    by (auto simp: sort_values_post_def)
  then have "length ys = 2" using size_mset [of ys] by simp
  then obtain u v where ys: "ys = [u, v]"
    by (metis (no_types, opaque_lifting) One_nat_def Suc_1 length_0_conv length_Suc_conv)
  with m have "(u = a \<and> v = b) \<or> (u = b \<and> v = a)"
    by (auto simp: add_eq_conv_ex)
  moreover from assms(1) ys have "f u \<le> f v" by (simp add: sort_values_post_def)
  ultimately show ?thesis using assms(3) ys by auto
qed

lemma pub_key_2025_10:
  "pub_key \<lparr>r_title = t, r_link = l, r_published = p, r_source = s,
            r_pub_date = mk_datetime 2025 10 d hh mm ss tz\<rparr>
     = (((739524 + d) * 24 + hh) * 60 + mm) * 60000000 + ss * 1000000"
  by (simp add: pub_key_def dt_key_def ymd2ord_2025_10_date) (simp add: mk_datetime_def algebra_simps)

lemma example_pair_keys:
  "title_norm example_row_0800 = title_norm example_row_0900"
  "r_title example_row_0800 \<noteq> r_title example_row_0900"
  "pub_key example_row_0800 < pub_key example_row_0900"
  by (simp_all add: example_row_0800_def example_row_0900_def title_norm_def strip_def
      isspace_def ascii_def pub_key_2025_10)

lemma example_tie_keys:
  "title_norm example_row_tie1 = title_norm example_row_tie2"
  "pub_key example_row_tie1 = pub_key example_row_tie2"
  "example_row_tie2 \<noteq> example_row_tie1"
  by (simp_all add: example_row_tie1_def example_row_tie2_def title_norm_def pub_key_2025_10
      ascii_def)

lemma yesterday_2025_10_11: "date_add_days (ymd2ord 2025 10 11) (- 1) = Inr (ymd2ord 2025 10 10)"
  by (simp add: ymd2ord_2025_10 date_add_days_def MAXORDINAL_def)

lemma example_feeds_dups_records:
  "feeds_attr pub_date_of_tuples strftime_hms_z (ymd2ord 2025 10 10) example_feeds_dups
     = Inr [example_row_0800, example_row_0900]"
  by (simp add: example_feeds_dups_def source_title_def pub_date_of_tuples_def empty_entry_def
      datetime_of_tuple_mk in_window_def ymd2ord_2025_10_date ymd2ord_2025_10 record_attr_def
      attr_def example_row_0800_def example_row_0900_def)

text \<open>
  Claim C2, as the code has it. The rows are sorted by \<open>pub_date\<close> ascending and then
  walked in that order, a row staying when no earlier row has its title (trimmed of
  whitespace in \<open>spider_yesterday_1012.py\<close>, as it is in \<open>spider_yesterday.py\<close>). For
  every result the sort may return, the rows kept are in ascending order, hold each title
  once and every title of the input, and the row kept for a title has the earliest
  \<open>pub_date\<close> among the rows with that title; of two rows with one title at 08:00 and
  09:00 only the 08:00 row stays.
\<close>

theorem dedup_sort_keeps_earliest:
  "(sort_values_post pub_key xs ys \<longrightarrow>
      sorted (map pub_key (drop_duplicates key ys)) \<and>
      distinct (map key (drop_duplicates key ys)) \<and>
      key ` set (drop_duplicates key ys) = key ` set xs \<and>
      set (drop_duplicates key ys) \<subseteq> set xs \<and>
      (\<forall>z \<in> set (drop_duplicates key ys). \<forall>x \<in> set xs.
          key x = key z \<longrightarrow> pub_key z \<le> pub_key x)) \<and>
   drop_duplicates key (r # rs)
     = r # drop_duplicates key (filter (\<lambda>x. key x \<noteq> key r) rs) \<and>
   (key a = key b \<and> pub_key a < pub_key b \<and> (xs = [a, b] \<or> xs = [b, a]) \<and>
    sort_values_post pub_key xs ys \<longrightarrow> drop_duplicates key ys = [a]) \<and>
   (date_add_days today (- 1) = Inr y \<and> feeds_1012 L y fs = Inr records \<and> records \<noteq> [] \<longrightarrow>
      main_1012 L sv today fs
        = Inr (Some (News12 y, \<lparr>df_columns = COLUMNS,
                                  df_rows = drop_duplicates title_norm (sv records)\<rparr>))) \<and>
   (date_add_days today (- 1) = Inr y \<and>
    feeds_attr pub_date_of_tuples strftime_hms_z y fs = Inr records \<and> records \<noteq> [] \<longrightarrow>
      main_yesterday sv today fs
        = Inr (Some (News y, \<lparr>df_columns = COLUMNS,
                                df_rows = drop_duplicates r_title (sv records)\<rparr>)))"
proof -
  have p1: "sort_values_post pub_key xs ys \<longrightarrow>
      sorted (map pub_key (drop_duplicates key ys)) \<and>
      distinct (map key (drop_duplicates key ys)) \<and>
      key ` set (drop_duplicates key ys) = key ` set xs \<and>
      set (drop_duplicates key ys) \<subseteq> set xs \<and>
      (\<forall>z \<in> set (drop_duplicates key ys). \<forall>x \<in> set xs.
          key x = key z \<longrightarrow> pub_key z \<le> pub_key x)"
  proof
    assume "sort_values_post pub_key xs ys"
    then have m: "mset ys = mset xs" and s: "sorted (map pub_key ys)"
      by (simp_all add: sort_values_post_def)
    from m have e: "set ys = set xs" by (rule mset_eq_setD)
    have a: "sorted (map pub_key (drop_duplicates key ys))"
      unfolding drop_duplicates_def using s by (rule dedup_walk_sorted)
    have b: "distinct (map key (drop_duplicates key ys))"
      unfolding drop_duplicates_def by (rule dedup_walk_distinct)
    have c: "key ` set (drop_duplicates key ys) = key ` set xs"
      unfolding drop_duplicates_def using e by (simp add: dedup_walk_key_set)
    have d: "set (drop_duplicates key ys) \<subseteq> set xs"
      using drop_duplicates_subset [of key ys] e by simp
    have f: "\<forall>z \<in> set (drop_duplicates key ys). \<forall>x \<in> set xs.
          key x = key z \<longrightarrow> pub_key z \<le> pub_key x"
      unfolding drop_duplicates_def using dedup_walk_earliest [OF s] e by blast
    from a b c d f show "sorted (map pub_key (drop_duplicates key ys)) \<and>
      distinct (map key (drop_duplicates key ys)) \<and>
      key ` set (drop_duplicates key ys) = key ` set xs \<and>
      set (drop_duplicates key ys) \<subseteq> set xs \<and>
      (\<forall>z \<in> set (drop_duplicates key ys). \<forall>x \<in> set xs.
          key x = key z \<longrightarrow> pub_key z \<le> pub_key x)" by blast
  qed
  have p2: "key a = key b \<and> pub_key a < pub_key b \<and> (xs = [a, b] \<or> xs = [b, a]) \<and>
    sort_values_post pub_key xs ys \<longrightarrow> drop_duplicates key ys = [a]"
  proof
    assume h: "key a = key b \<and> pub_key a < pub_key b \<and> (xs = [a, b] \<or> xs = [b, a]) \<and>
      sort_values_post pub_key xs ys"
    then have "ys = [a, b]" using sort_values_post_pair [of pub_key xs ys a b] by blast
    with h show "drop_duplicates key ys = [a]" by (simp add: drop_duplicates_def)
  qed
  have p3: "date_add_days today (- 1) = Inr y \<and> feeds_1012 L y fs = Inr records \<and>
    records \<noteq> [] \<longrightarrow>
      main_1012 L sv today fs
        = Inr (Some (News12 y, \<lparr>df_columns = COLUMNS,
                                  df_rows = drop_duplicates title_norm (sv records)\<rparr>))"
    by (simp add: main_1012_def DataFrame_def df_empty_def COLUMNS_def)
  have p4: "date_add_days today (- 1) = Inr y \<and>
    feeds_attr pub_date_of_tuples strftime_hms_z y fs = Inr records \<and> records \<noteq> [] \<longrightarrow>
      main_yesterday sv today fs
        = Inr (Some (News y, \<lparr>df_columns = COLUMNS,
                                df_rows = drop_duplicates r_title (sv records)\<rparr>))"
  proof
    assume h: "date_add_days today (- 1) = Inr y \<and>
      feeds_attr pub_date_of_tuples strftime_hms_z y fs = Inr records \<and> records \<noteq> []"
    then have "\<forall>r \<in> set records. tzinfo (r_pub_date r) = Some UTC"
      using feeds_attr_rows [of pub_date_of_tuples strftime_hms_z y fs records]
        pub_date_of_tuples_utc by metis
    then have "sort_by_pub_date sv (DataFrame records) = Inr (sv records)"
      using h by (simp add: sort_by_pub_date_def DataFrame_def COLUMNS_def)
    with h show "main_yesterday sv today fs
        = Inr (Some (News y, \<lparr>df_columns = COLUMNS,
                                df_rows = drop_duplicates r_title (sv records)\<rparr>))"
      by (simp add: main_yesterday_def Let_def) (simp add: DataFrame_def)
  qed
  from p1 drop_duplicates_Cons [of key r rs] p2 p3 p4 show ?thesis by blast
qed

theorem dedup_sort_keeps_earliest_witness:
  "sort_values_post pub_key [example_row_0900, example_row_0800]
     [example_row_0800, example_row_0900] \<and>
   title_norm example_row_0800 = title_norm example_row_0900 \<and>
   pub_key example_row_0800 < pub_key example_row_0900 \<and>
   drop_duplicates title_norm [example_row_0800, example_row_0900] = [example_row_0800] \<and>
   sort_values_post pub_key [example_row_tie1, example_row_tie2]
     [example_row_tie1, example_row_tie2] \<and>
   drop_duplicates title_norm [example_row_tie1, example_row_tie2] = [example_row_tie1]"
proof -
  have s: "sort_values_post pub_key [example_row_0900, example_row_0800]
     [example_row_0800, example_row_0900]"
    using example_pair_keys(3) by (simp add: sort_values_post_def)
  have t: "sort_values_post pub_key [example_row_tie1, example_row_tie2]
     [example_row_tie1, example_row_tie2]"
    using example_tie_keys(2) by (simp add: sort_values_post_def)
  from dedup_sort_keeps_earliest [where key = title_norm
      and xs = "[example_row_0900, example_row_0800]"
      and ys = "[example_row_0800, example_row_0900]"
      and a = example_row_0800 and b = example_row_0900] s example_pair_keys
  have r: "drop_duplicates title_norm [example_row_0800, example_row_0900] = [example_row_0800]"
    by blast
  from dedup_sort_keeps_earliest [where key = title_norm and r = example_row_tie1
      and rs = "[example_row_tie2]"] example_tie_keys(1)
  have u: "drop_duplicates title_norm [example_row_tie1, example_row_tie2] = [example_row_tie1]"
    by (simp add: drop_duplicates_def)
  from s example_pair_keys r t u show ?thesis by blast
qed

text \<open>
  The claim as stated fails in two ways. \<open>spider_yesterday.py\<close> removes duplicates by the
  title as it is, not trimmed: two entries whose titles differ by a trailing space both
  stay. And the sort is called with pandas' default kind, which is not a stable one: for
  two rows with one title and one timestamp, the order that puts the second first is a
  result the call may return, and then the second row is the one kept.
\<close>

theorem dedup_sort_counterexample:
  "title_norm example_row_0800 = title_norm example_row_0900 \<and>
   main_yesterday (\<lambda>rows. rows) (ymd2ord 2025 10 11) example_feeds_dups
     = Inr (Some (News (ymd2ord 2025 10 10),
                  \<lparr>df_columns = COLUMNS, df_rows = [example_row_0800, example_row_0900]\<rparr>)) \<and>
   pub_key example_row_tie1 = pub_key example_row_tie2 \<and>
   sort_values_post pub_key [example_row_tie1, example_row_tie2]
     [example_row_tie2, example_row_tie1] \<and>
   drop_duplicates title_norm [example_row_tie2, example_row_tie1] = [example_row_tie2] \<and>
   example_row_tie2 \<noteq> example_row_tie1"
proof -
  have d: "drop_duplicates r_title [example_row_0800, example_row_0900]
      = [example_row_0800, example_row_0900]"
    using example_pair_keys(2) by (simp add: drop_duplicates_def)
  have u: "\<forall>r \<in> set [example_row_0800, example_row_0900]. tzinfo (r_pub_date r) = Some UTC"
    by (simp add: example_row_0800_def example_row_0900_def mk_datetime_def)
  then have "sort_by_pub_date (\<lambda>rows. rows) (DataFrame [example_row_0800, example_row_0900])
      = Inr [example_row_0800, example_row_0900]"
    by (simp add: sort_by_pub_date_def DataFrame_def COLUMNS_def)
  then have m: "main_yesterday (\<lambda>rows. rows) (ymd2ord 2025 10 11) example_feeds_dups
     = Inr (Some (News (ymd2ord 2025 10 10),
                  \<lparr>df_columns = COLUMNS, df_rows = [example_row_0800, example_row_0900]\<rparr>))"
    by (simp add: main_yesterday_def yesterday_2025_10_11 example_feeds_dups_records d Let_def)
       (simp add: DataFrame_def)
  have s: "sort_values_post pub_key [example_row_tie1, example_row_tie2]
     [example_row_tie2, example_row_tie1]"
    using example_tie_keys(2) by (simp add: sort_values_post_def)
  have k: "drop_duplicates title_norm [example_row_tie2, example_row_tie1] = [example_row_tie2]"
    using example_tie_keys(1) by (simp add: drop_duplicates_def)
  from example_pair_keys(1) m example_tie_keys s k show ?thesis by blast
qed

section \<open>Runs with an empty result\<close>

lemma last_week_window_bounds:
  assumes "last_week_window today = Inr (mon, sun)"
  shows "0 < mon \<and> sun = mon + 6 \<and> sun < MAXORDINAL"
proof -
  from assms obtain tm where
    a: "date_add_days today (- (iso_weekday today - 1)) = Inr tm" and
    b: "date_add_days tm (- 7) = Inr mon" and
    c: "date_add_days mon 6 = Inr sun"
    by (auto simp: last_week_window_def split: sum.splits)
  from a have "tm \<le> MAXORDINAL" by (auto simp: date_add_days_def Let_def split: if_splits)
  moreover from b have "mon = tm - 7" "0 < mon"
    by (auto simp: date_add_days_def Let_def split: if_splits)
  moreover from c have "sun = mon + 6" by (auto simp: date_add_days_def Let_def split: if_splits)
  ultimately show ?thesis by simp
qed

lemma map_filter_all_None: "\<forall>x \<in> set xs. f x = None \<Longrightarrow> List.map_filter f xs = []"
  by (induction xs) (simp_all add: List.map_filter_simps)

lemma aggregate_empty:
  assumes w: "last_week_window today = Inr (mon, sun)"
    and r: "\<forall>d \<in> set [mon..sun]. ex d \<longrightarrow> (\<exists>err. rd d = Inl err)"
  shows "aggregate_last_week L sv today ex rd
           = Inr (NewsWeek (iso_year sun) (iso_week sun), empty_weekly)"
proof -
  from last_week_window_bounds [OF w] have b: "0 < mon" "sun < MAXORDINAL" by simp_all
  have c: "collect_files ex mon sun = Inr (filter ex [mon..sun])"
    using collect_files_filter [OF b(2) b(1)] .
  have "\<forall>f \<in> set (filter ex [mon..sun]).
          (case rd f of Inl err \<Rightarrow> None | Inr df \<Rightarrow> Some (normalize_pub_date L df)) = None"
    using r by auto
  then have "List.map_filter
          (\<lambda>f. case rd f of Inl err \<Rightarrow> None | Inr df \<Rightarrow> Some (normalize_pub_date L df))
          (filter ex [mon..sun]) = []"
    by (rule map_filter_all_None)
  then show ?thesis
    by (simp add: aggregate_last_week_def w c Let_def)
qed

lemma example_feed_no_match_1012:
  "feeds_1012 example_libs (ymd2ord 2025 10 12) [example_feed] = Inr []"
  by (simp add: example_feed_def source_title_def example_pub_dates in_window_def
      datetime_of_def ymd2ord_2025_10_date ymd2ord_2025_10)

lemma matoday_no_text:
  "matoday_text e = [] \<Longrightarrow> matoday_pub_date L e = pub_date_of_tuples e"
  by (simp add: matoday_pub_date_def matoday_re_def ascii_def)

lemma example_feed_no_match_attr:
  "feeds_attr pub_date_of_tuples fmt (ymd2ord 2025 10 12) [example_feed] = Inr []"
  "feeds_attr (matoday_pub_date example_libs) fmt (ymd2ord 2025 10 12) [example_feed] = Inr []"
proof -
  have t: "matoday_text example_entry_late = []" "matoday_text example_entry_midnight = []"
    by (simp_all add: matoday_text_def example_entry_late_def example_entry_midnight_def
        empty_entry_def)
  show "feeds_attr pub_date_of_tuples fmt (ymd2ord 2025 10 12) [example_feed] = Inr []"
    by (simp add: example_feed_def source_title_def example_pub_dates in_window_def
        ymd2ord_2025_10_date ymd2ord_2025_10)
  show "feeds_attr (matoday_pub_date example_libs) fmt (ymd2ord 2025 10 12) [example_feed]
      = Inr []"
    by (simp add: example_feed_def source_title_def matoday_no_text [OF t(1)]
        matoday_no_text [OF t(2)] example_pub_dates in_window_def ymd2ord_2025_10_date
        ymd2ord_2025_10)
qed

lemma yesterday_2025_10_13: "date_add_days (ymd2ord 2025 10 13) (- 1) = Inr (ymd2ord 2025 10 12)"
  by (simp add: ymd2ord_2025_10 date_add_days_def MAXORDINAL_def)

lemma main_1012_empty:
  "date_add_days today (- 1) = Inr y \<Longrightarrow> feeds_1012 L y fs = Inr []
   \<Longrightarrow> main_1012 L sv today fs = Inr (Some (News12 y, \<lparr>df_columns = [], df_rows = []\<rparr>))"
  by (simp add: main_1012_def DataFrame_def df_empty_def)

lemma main_matoday_empty:
  "date_add_days today (- 1) = Inr y
   \<Longrightarrow> feeds_attr (matoday_pub_date L) strftime_hms y fs = Inr []
   \<Longrightarrow> main_matoday L sv today fs = Inr None"
  by (simp add: main_matoday_def DataFrame_def df_empty_def)

lemma main_yesterday_empty:
  "date_add_days today (- 1) = Inr y
   \<Longrightarrow> feeds_attr pub_date_of_tuples strftime_hms_z y fs = Inr []
   \<Longrightarrow> main_yesterday sv today fs = Inl KeyError"
  by (simp add: main_yesterday_def DataFrame_def sort_by_pub_date_def)

text \<open>
  Claim C7, as the code has it. An empty result is not an error of the weekly run, of
  \<open>spider_yesterday_1012.py\<close> or of \<open>spider_yesterday_matoday.py\<close>. When no daily file of
  the week exists, or none can be read, the weekly run writes a frame with the columns
  title, link, published, source, pub_date and no row. When no entry is in the window,
  \<open>spider_yesterday_1012.py\<close> writes the day's file from the empty frame, which has no row
  and no column, and \<open>spider_yesterday_matoday.py\<close> writes no file.
\<close>

theorem empty_result_is_written:
  "(last_week_window today = Inr (mon, sun) \<and>
    (\<forall>d \<in> set [mon..sun]. ex d \<longrightarrow> (\<exists>err. rd d = Inl err)) \<longrightarrow>
      aggregate_last_week L wsv today ex rd
        = Inr (NewsWeek (iso_year sun) (iso_week sun), empty_weekly)) \<and>
   wf_columns empty_weekly = [''title'', ''link'', ''published'', ''source'', ''pub_date''] \<and>
   wf_rows empty_weekly = [] \<and>
   (date_add_days today (- 1) = Inr y \<and> feeds_1012 L y fs = Inr [] \<longrightarrow>
      main_1012 L sv today fs = Inr (Some (News12 y, \<lparr>df_columns = [], df_rows = []\<rparr>))) \<and>
   (date_add_days today (- 1) = Inr y \<and>
    feeds_attr (matoday_pub_date L) strftime_hms y fs = Inr [] \<longrightarrow>
      main_matoday L sv today fs = Inr None)"
proof -
  have a: "last_week_window today = Inr (mon, sun) \<and>
    (\<forall>d \<in> set [mon..sun]. ex d \<longrightarrow> (\<exists>err. rd d = Inl err)) \<longrightarrow>
      aggregate_last_week L wsv today ex rd
        = Inr (NewsWeek (iso_year sun) (iso_week sun), empty_weekly)"
    using aggregate_empty [of today mon sun ex rd L wsv] by blast
  have b: "wf_columns empty_weekly = [''title'', ''link'', ''published'', ''source'', ''pub_date'']"
    "wf_rows empty_weekly = []"
    by (simp_all add: empty_weekly_def COLUMNS_def)
  have c: "date_add_days today (- 1) = Inr y \<and> feeds_1012 L y fs = Inr [] \<longrightarrow>
      main_1012 L sv today fs = Inr (Some (News12 y, \<lparr>df_columns = [], df_rows = []\<rparr>))"
    using main_1012_empty by blast
  have d: "date_add_days today (- 1) = Inr y \<and>
    feeds_attr (matoday_pub_date L) strftime_hms y fs = Inr [] \<longrightarrow>
      main_matoday L sv today fs = Inr None"
    using main_matoday_empty by blast
  from a b c d show ?thesis by blast
qed

theorem empty_result_is_written_witness:
  "last_week_window (ymd2ord 2025 10 13) = Inr (ymd2ord 2025 10 6, ymd2ord 2025 10 12) \<and>
   aggregate_last_week example_libs (\<lambda>rows. rows) (ymd2ord 2025 10 13)
       (\<lambda>d. d = ymd2ord 2025 10 8) (\<lambda>d. Inl ParserError)
     = Inr (NewsWeek (iso_year (ymd2ord 2025 10 12)) (iso_week (ymd2ord 2025 10 12)),
            empty_weekly) \<and>
   feeds_1012 example_libs (ymd2ord 2025 10 12) [example_feed] = Inr [] \<and>
   main_1012 example_libs (\<lambda>rows. rows) (ymd2ord 2025 10 13) [example_feed]
     = Inr (Some (News12 (ymd2ord 2025 10 12), \<lparr>df_columns = [], df_rows = []\<rparr>)) \<and>
   main_matoday example_libs (\<lambda>rows. rows) (ymd2ord 2025 10 13) [example_feed] = Inr None"
proof -
  have w: "last_week_window (ymd2ord 2025 10 13) = Inr (ymd2ord 2025 10 6, ymd2ord 2025 10 12)"
    using last_week_window_ok [of 739537] iso_weekday_eq [of 739537]
    by (simp add: ymd2ord_2025_10 MAXORDINAL_def)
  note t = empty_result_is_written [where today = "ymd2ord 2025 10 13"
      and mon = "ymd2ord 2025 10 6" and sun = "ymd2ord 2025 10 12"
      and ex = "\<lambda>d. d = ymd2ord 2025 10 8" and rd = "\<lambda>d. Inl ParserError"
      and L = example_libs and wsv = "\<lambda>rows. rows" and sv = "\<lambda>rows. rows"
      and y = "ymd2ord 2025 10 12" and fs = "[example_feed]"]
  from t w have r1: "aggregate_last_week example_libs (\<lambda>rows. rows) (ymd2ord 2025 10 13)
       (\<lambda>d. d = ymd2ord 2025 10 8) (\<lambda>d. Inl ParserError)
     = Inr (NewsWeek (iso_year (ymd2ord 2025 10 12)) (iso_week (ymd2ord 2025 10 12)),
            empty_weekly)" by blast
  from t yesterday_2025_10_13 example_feed_no_match_1012
  have r2: "main_1012 example_libs (\<lambda>rows. rows) (ymd2ord 2025 10 13) [example_feed]
     = Inr (Some (News12 (ymd2ord 2025 10 12), \<lparr>df_columns = [], df_rows = []\<rparr>))" by blast
  from t yesterday_2025_10_13 example_feed_no_match_attr(2) [of strftime_hms]
  have r3: "main_matoday example_libs (\<lambda>rows. rows) (ymd2ord 2025 10 13) [example_feed]
      = Inr None" by blast
  from w r1 example_feed_no_match_1012 r2 r3 show ?thesis by blast
qed

text \<open>
  The claim as stated fails for the daily runs when no entry of the feeds is in the window:
  the file \<open>spider_yesterday_1012.py\<close> writes has no column at all,
  \<open>spider_yesterday_matoday.py\<close> writes no file, and \<open>spider_yesterday.py\<close> stops with
  \<open>KeyError\<close> on sorting a frame that has no \<open>pub_date\<close> column.
\<close>

theorem empty_daily_run_counterexample:
  "main_1012 example_libs (\<lambda>rows. rows) (ymd2ord 2025 10 13) [example_feed]
     = Inr (Some (News12 (ymd2ord 2025 10 12), \<lparr>df_columns = [], df_rows = []\<rparr>)) \<and>
   COLUMNS = [''title'', ''link'', ''published'', ''source'', ''pub_date''] \<and>
   main_matoday example_libs (\<lambda>rows. rows) (ymd2ord 2025 10 13) [example_feed] = Inr None \<and>
   main_yesterday (\<lambda>rows. rows) (ymd2ord 2025 10 13) [example_feed] = Inl KeyError"
proof -
  have a: "main_1012 example_libs (\<lambda>rows. rows) (ymd2ord 2025 10 13) [example_feed]
     = Inr (Some (News12 (ymd2ord 2025 10 12), \<lparr>df_columns = [], df_rows = []\<rparr>))"
    using yesterday_2025_10_13 example_feed_no_match_1012 by (rule main_1012_empty)
  have b: "main_matoday example_libs (\<lambda>rows. rows) (ymd2ord 2025 10 13) [example_feed]
      = Inr None"
    using yesterday_2025_10_13 example_feed_no_match_attr(2) by (rule main_matoday_empty)
  have c: "main_yesterday (\<lambda>rows. rows) (ymd2ord 2025 10 13) [example_feed] = Inl KeyError"
    using yesterday_2025_10_13 example_feed_no_match_attr(1) by (rule main_yesterday_empty)
  from a b c show ?thesis by (simp add: COLUMNS_def)
qed

section \<open>fix_mojibake: every rule of the table is applied\<close>

lemma key_chars_eval:
  "key_chars = {0x9225, 0xFFFD, 0xE2, 0x80, 0x99, 0x93, 0x94, 0x9C, 0x9D}"
  by (auto simp: key_chars_def repl_def)

lemma replace_skip:
  "k \<noteq> [] \<Longrightarrow> set a \<inter> set k = {} \<Longrightarrow> replace k v (a @ s) = a @ replace k v s"
proof (induction a)
  case Nil
  then show ?case by simp
next
  case (Cons x a)
  from Cons.prems obtain y ys where k: "k = y # ys" by (cases k) auto
  with Cons.prems(2) have "x \<noteq> y" by auto
  with k have np: "\<not> prefix k (x # a @ s)" by simp
  from Cons.prems(2) have "set a \<inter> set k = {}" by auto
  with Cons.IH Cons.prems(1) have "replace k v (a @ s) = a @ replace k v s" by simp
  with np Cons.prems(1) show ?case by simp
qed

lemma replace_free: "k \<noteq> [] \<Longrightarrow> set b \<inter> set k = {} \<Longrightarrow> replace k v b = b"
  using replace_skip [of k b v "[]"] by simp

lemma replace_hit: "k \<noteq> [] \<Longrightarrow> replace k v (k @ s) = v @ replace k v s"
  by (cases k) simp_all

lemma replace_in_context:
  "k \<noteq> [] \<Longrightarrow> set a \<inter> set k = {} \<Longrightarrow> set b \<inter> set k = {}
   \<Longrightarrow> replace k v (a @ k @ b) = a @ v @ b"
  by (simp add: replace_skip replace_hit replace_free)

lemma not_contains_free: "k \<noteq> [] \<Longrightarrow> set b \<inter> set k = {} \<Longrightarrow> \<not> contains k b"
proof (induction b)
  case Nil
  then show ?case by simp
next
  case (Cons x b)
  from Cons.prems obtain y ys where k: "k = y # ys" by (cases k) auto
  with Cons.prems(2) have "x \<noteq> y" by auto
  with k have "\<not> prefix k (x # b)" by simp
  moreover from Cons.prems(2) have "set b \<inter> set k = {}" by auto
  with Cons.IH Cons.prems(1) have "\<not> contains k b" by simp
  ultimately show ?case by simp
qed

lemma not_prefix_free: "x \<notin> set b \<Longrightarrow> \<not> prefix (x # r) b"
  by (cases b) auto

lemma replace_miss:
  "k' \<noteq> [] \<Longrightarrow> set a \<inter> set k' = {} \<Longrightarrow> \<not> contains k' (m @ b)
   \<Longrightarrow> replace k' v' (a @ m @ b) = a @ m @ b"
  by (simp add: replace_skip replace_absent)

lemma fold_fixed: "\<forall>r \<in> set rs. f r s = s \<Longrightarrow> fold f rs s = s"
  by (induction rs) simp_all

lemma fold_in_context:
  assumes "\<forall>r \<in> set pre. f r s = s" "f r0 s = t" "\<forall>r \<in> set post. f r t = t"
  shows "fold f (pre @ r0 # post) s = t"
  using assms by (simp add: fold_fixed)

lemma fold_rules_in_context:
  assumes pre: "\<forall>(k', v') \<in> set pre. k' \<noteq> [] \<and> set k' \<subseteq> key_chars \<and> \<not> contains k' (k @ b)"
    and k: "k \<noteq> []" "set k \<subseteq> key_chars" and v: "set v \<inter> key_chars = {}"
    and post: "\<forall>(k', v') \<in> set post. k' \<noteq> [] \<and> set k' \<subseteq> key_chars"
    and a: "set a \<inter> key_chars = {}" and b: "set b \<inter> key_chars = {}"
  shows "fold (\<lambda>(k, v) acc. replace k v acc) (pre @ (k, v) # post) (a @ k @ b) = a @ v @ b"
proof (rule fold_in_context)
  show "\<forall>r \<in> set pre. (case r of (k', v') \<Rightarrow> replace k' v') (a @ k @ b) = a @ k @ b"
  proof
    fix r assume r: "r \<in> set pre"
    obtain k' v' where e: "r = (k', v')" by (cases r)
    with pre r have p: "k' \<noteq> []" "set k' \<subseteq> key_chars" "\<not> contains k' (k @ b)" by auto
    from p(2) a have "set a \<inter> set k' = {}" by auto
    with p(1,3) have "replace k' v' (a @ k @ b) = a @ k @ b" by (intro replace_miss)
    with e show "(case r of (k', v') \<Rightarrow> replace k' v') (a @ k @ b) = a @ k @ b" by simp
  qed
next
  from k(2) a b have "set a \<inter> set k = {}" "set b \<inter> set k = {}" by auto
  with k(1) show "(case (k, v) of (k, v) \<Rightarrow> replace k v) (a @ k @ b) = a @ v @ b"
    by (simp add: replace_in_context)
next
  show "\<forall>r \<in> set post. (case r of (k', v') \<Rightarrow> replace k' v') (a @ v @ b) = a @ v @ b"
  proof
    fix r assume r: "r \<in> set post"
    obtain k' v' where e: "r = (k', v')" by (cases r)
    with post r have p: "k' \<noteq> []" "set k' \<subseteq> key_chars" by auto
    from p(2) a b v have "set (a @ v @ b) \<inter> set k' = {}" by auto
    with p(1) have "replace k' v' (a @ v @ b) = a @ v @ b" by (rule replace_free)
    with e show "(case r of (k', v') \<Rightarrow> replace k' v') (a @ v @ b) = a @ v @ b" by simp
  qed
qed

lemma fix_mojibake_in_context:
  assumes r: "(k, v) \<in> set repl"
    and a: "set a \<inter> key_chars = {}" and b: "set b \<inter> key_chars = {}"
  shows "fix_mojibake (a @ k @ b) = a @ v @ b"
proof -
  have fb: "0x9225 \<notin> set b" "0xFFFD \<notin> set b" "0xE2 \<notin> set b" "0x80 \<notin> set b" "0x99 \<notin> set b"
    "0x93 \<notin> set b" "0x94 \<notin> set b" "0x9C \<notin> set b" "0x9D \<notin> set b"
    using b by (auto simp: key_chars_eval)
  have nc: "\<And>k'. k' \<noteq> [] \<Longrightarrow> set k' \<subseteq> key_chars \<Longrightarrow> \<not> contains k' b"
    using not_contains_free b by blast
  note ev = key_chars_eval nc not_prefix_free fb
  from r have ne: "k \<noteq> []" by (auto simp: repl_def)
  from r consider
      "k = [0x9225, 0xFFFD]" "v = [39]" | "k = [0x9225]" "v = [39]"
    | "k = [0xE2, 0x80, 0x99]" "v = [39]" | "k = [0xE2, 0x80, 0x93]" "v = [45]"
    | "k = [0xE2, 0x80, 0x94]" "v = [45]" | "k = [0xE2, 0x80, 0x9C]" "v = [34]"
    | "k = [0xE2, 0x80, 0x9D]" "v = [34]"
    by (auto simp: repl_def)
  then have "fold (\<lambda>(k, v) acc. replace k v acc) repl (a @ k @ b) = a @ v @ b"
  proof cases
    case 1
    have "repl = [] @ (k, v) # tl repl" by (simp add: repl_def 1)
    moreover have "fold (\<lambda>(k, v) acc. replace k v acc) ([] @ (k, v) # tl repl) (a @ k @ b)
        = a @ v @ b"
      using a b by (intro fold_rules_in_context) (simp_all add: repl_def 1 ev)
    ultimately show ?thesis by simp
  next
    case 2
    have "repl = take 1 repl @ (k, v) # drop 2 repl" by (simp add: repl_def 2)
    moreover have "fold (\<lambda>(k, v) acc. replace k v acc) (take 1 repl @ (k, v) # drop 2 repl)
        (a @ k @ b) = a @ v @ b"
      using a b by (intro fold_rules_in_context) (simp_all add: repl_def 2 ev)
    ultimately show ?thesis by simp
  next
    case 3
    have "repl = take 2 repl @ (k, v) # drop 3 repl" by (simp add: repl_def 3)
    moreover have "fold (\<lambda>(k, v) acc. replace k v acc) (take 2 repl @ (k, v) # drop 3 repl)
        (a @ k @ b) = a @ v @ b"
      using a b by (intro fold_rules_in_context) (simp_all add: repl_def 3 ev)
    ultimately show ?thesis by simp
  next
    case 4
    have "repl = take 3 repl @ (k, v) # drop 4 repl" by (simp add: repl_def 4)
    moreover have "fold (\<lambda>(k, v) acc. replace k v acc) (take 3 repl @ (k, v) # drop 4 repl)
        (a @ k @ b) = a @ v @ b"
      using a b by (intro fold_rules_in_context) (simp_all add: repl_def 4 ev)
    ultimately show ?thesis by simp
  next
    case 5
    have "repl = take 4 repl @ (k, v) # drop 5 repl" by (simp add: repl_def 5)
    moreover have "fold (\<lambda>(k, v) acc. replace k v acc) (take 4 repl @ (k, v) # drop 5 repl)
        (a @ k @ b) = a @ v @ b"
      using a b by (intro fold_rules_in_context) (simp_all add: repl_def 5 ev)
    ultimately show ?thesis by simp
  next
    case 6
    have "repl = take 5 repl @ (k, v) # drop 6 repl" by (simp add: repl_def 6)
    moreover have "fold (\<lambda>(k, v) acc. replace k v acc) (take 5 repl @ (k, v) # drop 6 repl)
        (a @ k @ b) = a @ v @ b"
      using a b by (intro fold_rules_in_context) (simp_all add: repl_def 6 ev)
    ultimately show ?thesis by simp
  next
    case 7
    have "repl = take 6 repl @ (k, v) # drop 7 repl" by (simp add: repl_def 7)
    moreover have "fold (\<lambda>(k, v) acc. replace k v acc) (take 6 repl @ (k, v) # drop 7 repl)
        (a @ k @ b) = a @ v @ b"
      using a b by (intro fold_rules_in_context) (simp_all add: repl_def 7 ev)
    ultimately show ?thesis by simp
  qed
  with ne show ?thesis by (simp add: fix_mojibake_def)
qed

text \<open>
  Claim C10. The table keeps every corrupted sequence as a rule of its own: it has seven
  rules with seven different keys, the two keys that become a hyphen and the two that
  become a double quote are different rules, and every rule is applied: each key alone is
  repaired to its own replacement (no rule is shadowed by an earlier one), and so is each
  key between any two texts that hold no character of a key.
\<close>

theorem repl_rules_all_applied:
  "length repl = 7 \<and> distinct (map fst repl) \<and>
   map fix_mojibake (map fst repl) = map snd repl \<and>
   map fst (filter (\<lambda>r. snd r = [45]) repl) = [[0xE2, 0x80, 0x93], [0xE2, 0x80, 0x94]] \<and>
   map fst (filter (\<lambda>r. snd r = [34]) repl) = [[0xE2, 0x80, 0x9C], [0xE2, 0x80, 0x9D]] \<and>
   map fst (filter (\<lambda>r. snd r = [39]) repl) = [[0x9225, 0xFFFD], [0x9225], [0xE2, 0x80, 0x99]] \<and>
   ((k, v) \<in> set repl \<and> set a \<inter> key_chars = {} \<and> set b \<inter> key_chars = {} \<longrightarrow>
      fix_mojibake (a @ k @ b) = a @ v @ b)"
proof -
  have t: "length repl = 7 \<and> distinct (map fst repl) \<and>
   map fix_mojibake (map fst repl) = map snd repl \<and>
   map fst (filter (\<lambda>r. snd r = [45]) repl) = [[0xE2, 0x80, 0x93], [0xE2, 0x80, 0x94]] \<and>
   map fst (filter (\<lambda>r. snd r = [34]) repl) = [[0xE2, 0x80, 0x9C], [0xE2, 0x80, 0x9D]] \<and>
   map fst (filter (\<lambda>r. snd r = [39]) repl) = [[0x9225, 0xFFFD], [0x9225], [0xE2, 0x80, 0x99]]"
    by (simp add: repl_def fix_mojibake_def)
  with fix_mojibake_in_context [of k v a b] show ?thesis by blast
qed

theorem repl_rules_all_applied_witness:
  "([0xE2, 0x80, 0x94], [45]) \<in> set repl \<and>
   set (ascii ''1990'') \<inter> key_chars = {} \<and> set (ascii ''2025'') \<inter> key_chars = {} \<and>
   fix_mojibake (ascii ''1990'' @ [0xE2, 0x80, 0x94] @ ascii ''2025'')
     = ascii ''1990'' @ [45] @ ascii ''2025'' \<and>
   fix_mojibake (ascii ''1990'' @ [0xE2, 0x80, 0x93] @ ascii ''2025'')
     = ascii ''1990'' @ [45] @ ascii ''2025''"
proof -
  have m: "([0xE2, 0x80, 0x94], [45]) \<in> set repl" "([0xE2, 0x80, 0x93], [45]) \<in> set repl"
    by (simp_all add: repl_def)
  have f: "set (ascii ''1990'') \<inter> key_chars = {}" "set (ascii ''2025'') \<inter> key_chars = {}"
    by (simp_all add: key_chars_eval ascii_def)
  from repl_rules_all_applied [of "[0xE2, 0x80, 0x94]" "[45]" "ascii ''1990''" "ascii ''2025''"]
    repl_rules_all_applied [of "[0xE2, 0x80, 0x93]" "[45]" "ascii ''1990''" "ascii ''2025''"]
    m f
  show ?thesis by blast
qed

end
